(* ===== verification/Prelude.thy ===== *)
theory Prelude
  imports Complex_Main
begin

text \<open>
  Shared vocabulary of the development: the named collections that the component
  theories fill, the types that name JavaScript values of the program (a coordinate,
  an exception), the error monad in which every thrown exception is an \<open>Inl\<close> value,
  and generic list lemmas about the accumulate-and-push loops that the source writes
  with \<^verbatim>\<open>for ... of\<close> and \<^verbatim>\<open>Array.prototype.push\<close>.
\<close>

named_theorems js_simps "evaluation rules of the modelled JavaScript builtins"
named_theorems engine_simps "equations of the modelled map-engine operations"

text \<open>A GeoJSON position \<^verbatim>\<open>[longitude, latitude]\<close>; JS numbers are idealised as reals.\<close>

type_synonym position = "real \<times> real"

text \<open>
  The exceptions that can escape from the program's code: two thrown by the map
  engine (\<^verbatim>\<open>Style._checkLoaded\<close> and \<^verbatim>\<open>Style.addSource\<close> of MapLibre) and the one
  thrown by \<^verbatim>\<open>TransportMap.setSelectedLine\<close>.
\<close>

datatype js_error =
    StyleNotDoneLoading
  | SourceAlreadyExists string
  | CouldNotGetSelectedSource

text \<open>Sequencing of statements that may throw: the first exception propagates.\<close>

definition ebind :: "'e + 'a \<Rightarrow> ('a \<Rightarrow> 'e + 'b) \<Rightarrow> 'e + 'b" where
  "ebind r f = (case r of Inl err \<Rightarrow> Inl err | Inr x \<Rightarrow> f x)"

lemma ebind_Inl [simp]: "ebind (Inl err) f = Inl err"
  by (simp add: ebind_def)

lemma ebind_Inr [simp]: "ebind (Inr x) f = f x"
  by (simp add: ebind_def)

lemma ebind_eq_Inr:
  "ebind r f = Inr y \<longleftrightarrow> (\<exists>x. r = Inr x \<and> f x = Inr y)"
  by (cases r) simp_all

lemma ebind_eq_Inl:
  "ebind r f = Inl err \<longleftrightarrow> r = Inl err \<or> (\<exists>x. r = Inr x \<and> f x = Inl err)"
  by (cases r) simp_all

subsection \<open>Push loops\<close>

text \<open>
  The loop \<^verbatim>\<open>for (x of xs) if (P(x)) acc.push(f(x))\<close> builds
  \<open>acc @ map f (filter P xs)\<close>; every collection of the program is built this way.
\<close>

fun push_loop :: "('a \<Rightarrow> bool) \<Rightarrow> ('a \<Rightarrow> 'b) \<Rightarrow> 'a list \<Rightarrow> 'b list \<Rightarrow> 'b list" where
  "push_loop P f [] acc = acc"
| "push_loop P f (x # xs) acc = push_loop P f xs (if P x then acc @ [f x] else acc)"

lemma push_loop_eq: "push_loop P f xs acc = acc @ map f (filter P xs)"
  by (induction xs arbitrary: acc) simp_all

lemma sum_list_map_filter_eq:
  "sum_list (map g (filter P xs)) = (\<Sum>x\<leftarrow>xs. if P x then g x else 0)"
  by (induction xs) simp_all

lemma length_filter_pos: "x \<in> set xs \<Longrightarrow> P x \<Longrightarrow> 0 < length (filter P xs)"
  by (induction xs) auto

text \<open>
  Deduplication keeping the first occurrence of each element, the order in which an
  insertion-ordered JS \<^verbatim>\<open>Map\<close> lists its keys (\<open>remdups\<close> keeps the last).
\<close>

definition first_occurrences :: "'a list \<Rightarrow> 'a list" where
  "first_occurrences xs = rev (remdups (rev xs))"

lemma first_occurrences_Nil [simp]: "first_occurrences [] = []"
  by (simp add: first_occurrences_def)

lemma first_occurrences_snoc [simp]:
  "first_occurrences (xs @ [x]) =
     (if x \<in> set xs then first_occurrences xs else first_occurrences xs @ [x])"
  by (simp add: first_occurrences_def)

lemma set_first_occurrences [simp]: "set (first_occurrences xs) = set xs"
  by (simp add: first_occurrences_def)

lemma distinct_first_occurrences [simp]: "distinct (first_occurrences xs)"
  by (simp add: first_occurrences_def)

lemma map_of_rev_distinct:
  assumes d: "distinct (map fst xs)"
  shows "map_of (rev xs) = map_of xs"
proof
  fix k
  have d': "distinct (map fst (rev xs))" using d by (simp add: rev_map [symmetric])
  show "map_of (rev xs) k = map_of xs k"
  proof (cases "map_of xs k")
    case None
    then have "k \<notin> fst ` set (rev xs)" by (simp add: map_of_eq_None_iff)
    then have "map_of (rev xs) k = None" by (simp add: map_of_eq_None_iff)
    with None show ?thesis by simp
  next
    case (Some y)
    then have "(k, y) \<in> set xs" using d by (simp add: map_of_eq_Some_iff)
    then have "map_of (rev xs) k = Some y" using d' by (simp add: map_of_eq_Some_iff)
    with Some show ?thesis by simp
  qed
qed

lemma filter_eq_distinct:
  "distinct xs \<Longrightarrow> k \<in> set xs \<Longrightarrow> filter (\<lambda>y. y = k) xs = [k]"
  by (induction xs) (auto simp: filter_empty_conv)

lemma dom_sub0_empty: "dom m \<subseteq> {0} \<Longrightarrow> m 0 = None \<Longrightarrow> m = Map.empty"
  by (rule ext) (auto simp: dom_def)

lemma option_case_the: "(case x of None \<Rightarrow> False | Some y \<Rightarrow> P y) \<Longrightarrow> x = Some (the x) \<and> P (the x)"
  by (cases x) simp_all

end
