(* ===== verification/JsRuntime.thy ===== *)
theory JsRuntime
  imports Prelude
begin

text \<open>
  The JavaScript builtins the program relies on, modelled from the language
  specification: the decimal rendering of an integral number in a template literal,
  the enumeration order of \<^verbatim>\<open>Object.values\<close> on an object parsed from JSON with
  integer keys, and the insertion-ordered \<^verbatim>\<open>Map\<close> with \<^verbatim>\<open>get\<close> and \<^verbatim>\<open>set\<close>.
\<close>

subsection \<open>Number to string\<close>

text \<open>\<^verbatim>\<open>Number.prototype.toString()\<close> on a non-negative integer: its decimal digits.\<close>

fun digit_string :: "nat \<Rightarrow> string" where
  "digit_string n =
     (if n < 10 then [''0123456789'' ! n]
      else digit_string (n div 10) @ [''0123456789'' ! (n mod 10)])"

declare digit_string.simps [simp del]

text \<open>Template-literal rendering \<^verbatim>\<open>`${n}`\<close> of an integral JS number.\<close>

definition js_number_to_string :: "int \<Rightarrow> string" where
  "js_number_to_string i =
     (if i < 0 then CHR ''-'' # digit_string (nat (- i)) else digit_string (nat i))"

definition is_digit :: "char \<Rightarrow> bool" where
  "is_digit c \<longleftrightarrow> c \<in> set ''0123456789''"

text \<open>Reading a maximal run of leading decimal digits back (the inverse direction).\<close>

fun read_digits :: "nat \<Rightarrow> string \<Rightarrow> nat \<times> string" where
  "read_digits acc [] = (acc, [])"
| "read_digits acc (c # cs) =
     (if is_digit c then read_digits (10 * acc + (of_char c - 48)) cs else (acc, c # cs))"

subsection \<open>Object.values on an integer-keyed JSON object\<close>

text \<open>
  \<^verbatim>\<open>JSON.parse\<close> of an object whose keys are array indices yields an object whose
  own properties are enumerated in ascending numeric order, the last duplicate key
  winning. The object is given by its entries in wire order.
\<close>

definition object_values :: "(nat \<times> 'a) list \<Rightarrow> 'a list" where
  "object_values kvs = map (\<lambda>k. the (map_of (rev kvs) k)) (sort (remdups (map fst kvs)))"

subsection \<open>The insertion-ordered Map\<close>

text \<open>
  A \<^verbatim>\<open>Map\<close> is its entry list in insertion order: \<^verbatim>\<open>set\<close> on a present key
  replaces the value in place, on a new key appends the entry.
\<close>

type_synonym ('k, 'v) js_map = "('k \<times> 'v) list"

definition jsmap_get :: "('k, 'v) js_map \<Rightarrow> 'k \<Rightarrow> 'v option" where
  "jsmap_get m k = map_of m k"

fun jsmap_set :: "('k, 'v) js_map \<Rightarrow> 'k \<Rightarrow> 'v \<Rightarrow> ('k, 'v) js_map" where
  "jsmap_set [] k v = [(k, v)]"
| "jsmap_set ((k', v') # m) k v = (if k' = k then (k, v) # m else (k', v') # jsmap_set m k v)"

subsection \<open>Lemmas\<close>

lemma digit_string_nonempty [simp]: "digit_string n \<noteq> []"
  by (subst digit_string.simps) simp

lemma digit_string_digits: "\<forall>c \<in> set (digit_string n). is_digit c"
proof (induction n rule: digit_string.induct)
  case (1 n)
  have "''0123456789'' ! (n mod 10) \<in> set ''0123456789''"
    by (rule nth_mem) simp
  moreover have "n < 10 \<Longrightarrow> ''0123456789'' ! n \<in> set ''0123456789''"
    by (rule nth_mem) simp
  ultimately show ?case
    using "1.IH" by (subst digit_string.simps) (auto simp: is_digit_def)
qed

lemma of_char_digit: "d < 10 \<Longrightarrow> of_char (''0123456789'' ! d) - 48 = d"
proof -
  assume "d < 10"
  then have "d \<in> {0,1,2,3,4,5,6,7,8,9}" by auto
  then show ?thesis by (auto simp del: upt_Suc)
qed

lemma is_digit_nth: "d < 10 \<Longrightarrow> is_digit (''0123456789'' ! d)"
  unfolding is_digit_def by (rule nth_mem) simp

lemma read_digits_append:
  "(\<forall>c \<in> set ds. is_digit c) \<Longrightarrow>
   read_digits acc (ds @ rest) = read_digits (fst (read_digits acc ds)) rest"
  by (induction acc ds rule: read_digits.induct) simp_all

lemma read_digits_digit_string:
  "read_digits acc (digit_string n) = (10 ^ length (digit_string n) * acc + n, [])"
proof (induction n arbitrary: acc rule: digit_string.induct)
  case (1 n)
  show ?case
  proof (cases "n < 10")
    case True
    then show ?thesis
      by (subst (1 2) digit_string.simps) (simp add: is_digit_nth of_char_digit)
  next
    case False
    let ?d = "''0123456789'' ! (n mod 10)"
    have ds: "digit_string n = digit_string (n div 10) @ [?d]"
      using False by (subst digit_string.simps) simp
    have all: "\<forall>c \<in> set (digit_string (n div 10)). is_digit c"
      by (rule digit_string_digits)
    have "read_digits acc (digit_string n)
        = read_digits (fst (read_digits acc (digit_string (n div 10)))) [?d]"
      unfolding ds using all by (rule read_digits_append)
    also have "\<dots> = (10 * (10 ^ length (digit_string (n div 10)) * acc + n div 10) + n mod 10, [])"
      using "1.IH" False by (simp add: is_digit_nth of_char_digit)
    also have "\<dots> = (10 ^ length (digit_string n) * acc + n, [])"
      by (simp add: ds algebra_simps)
    finally show ?thesis .
  qed
qed

lemma map_of_jsmap_set [js_simps]: "map_of (jsmap_set m k v) = (map_of m)(k \<mapsto> v)"
  by (induction m) auto

lemma keys_jsmap_set [js_simps]:
  "map fst (jsmap_set m k v) = (if k \<in> set (map fst m) then map fst m else map fst m @ [k])"
  by (induction m) (force simp: image_iff)+

lemma distinct_jsmap_set:
  "distinct (map fst m) \<Longrightarrow> distinct (map fst (jsmap_set m k v))"
  by (simp add: keys_jsmap_set)

lemma object_values_sorted_distinct:
  "sorted (map fst kvs) \<Longrightarrow> distinct (map fst kvs) \<Longrightarrow> object_values kvs = map snd kvs"
proof -
  assume s: "sorted (map fst kvs)" and d: "distinct (map fst kvs)"
  have keys: "sort (remdups (map fst kvs)) = map fst kvs"
    using s d by (simp add: distinct_remdups_id sorted_sort_id)
  have "map_of (rev kvs) k = map_of kvs k" for k
    using d by (simp add: map_of_rev_distinct)
  moreover have "\<forall>p \<in> set kvs. the (map_of kvs (fst p)) = snd p"
    using d by auto
  ultimately show ?thesis
    unfolding object_values_def keys by (simp add: map_eq_conv)
qed

end
