(* ===== verification/GeoJSON.thy ===== *)
theory GeoJSON
  imports Prelude
begin

text \<open>
  GeoJSON values and the two Turf functions the program calls, \<^verbatim>\<open>@turf/bbox\<close> and
  \<^verbatim>\<open>@turf/centroid\<close> (library code, modelled from their documented behaviour): both
  walk every coordinate with \<^verbatim>\<open>coordEach\<close>; \<^verbatim>\<open>bbox\<close> folds a running
  \<^verbatim>\<open>[minX, minY, maxX, maxY]\<close> started at \<^verbatim>\<open>[Infinity, Infinity, -Infinity, -Infinity]\<close>,
  \<^verbatim>\<open>centroid\<close> averages the coordinates, skipping the closing coordinate of polygon rings.
\<close>

datatype geometry =
    Point position
  | MultiPoint "position list"
  | LineString "position list"
  | MultiLineString "position list list"
  | Polygon "position list list"
  | MultiPolygon "position list list list"
  | GeometryCollection "geometry list"

text \<open>A feature; its \<^verbatim>\<open>properties\<close> object as its entries in insertion order.\<close>

record feature =
  geometry :: geometry
  properties :: "(string \<times> string) list"

definition ring_coords :: "bool \<Rightarrow> position list \<Rightarrow> position list" where
  "ring_coords exclude_wrap r = (if exclude_wrap then butlast r else r)"

fun coord_each :: "bool \<Rightarrow> geometry \<Rightarrow> position list" where
  "coord_each w (Point p) = [p]"
| "coord_each w (MultiPoint ps) = ps"
| "coord_each w (LineString ps) = ps"
| "coord_each w (MultiLineString pss) = concat pss"
| "coord_each w (Polygon rs) = concat (map (ring_coords w) rs)"
| "coord_each w (MultiPolygon rss) = concat (map (\<lambda>rs. concat (map (ring_coords w) rs)) rss)"
| "coord_each w (GeometryCollection gs) = concat (map (coord_each w) gs)"

definition collection_coords :: "bool \<Rightarrow> feature list \<Rightarrow> position list" where
  "collection_coords w fs = concat (map (\<lambda>f. coord_each w (geometry f)) fs)"

subsection \<open>Bounding box\<close>

text \<open>\<open>None\<close> is Turf's all-infinite box, the result when there is no coordinate.\<close>

type_synonym bbox = "(real \<times> real \<times> real \<times> real) option"

fun bbox_add :: "bbox \<Rightarrow> position \<Rightarrow> bbox" where
  "bbox_add None (x, y) = Some (x, y, x, y)"
| "bbox_add (Some (x0, y0, x1, y1)) (x, y) = Some (min x0 x, min y0 y, max x1 x, max y1 y)"

definition turf_bbox :: "feature list \<Rightarrow> bbox" where
  "turf_bbox fs = foldl bbox_add None (collection_coords False fs)"

subsection \<open>Centroid\<close>

definition mean_position :: "position list \<Rightarrow> position" where
  "mean_position ps =
     (sum_list (map fst ps) / real (length ps), sum_list (map snd ps) / real (length ps))"

text \<open>
  \<^verbatim>\<open>turfCentroid\<close> returns a point feature with empty properties. On a collection
  without coordinates JS divides \<open>0 / 0 = NaN\<close> where HOL gives \<open>0\<close>; the program
  never calls it so (Aggregator proves every group non-empty).
\<close>

definition turf_centroid :: "feature list \<Rightarrow> feature" where
  "turf_centroid fs =
     \<lparr>geometry = Point (mean_position (collection_coords True fs)), properties = []\<rparr>"

subsection \<open>Lemmas\<close>

lemma collection_coords_append [simp]:
  "collection_coords w (fs @ gs) = collection_coords w fs @ collection_coords w gs"
  by (simp add: collection_coords_def)

lemma collection_coords_simps [simp]:
  "collection_coords w [] = []"
  "collection_coords w (f # fs) = coord_each w (geometry f) @ collection_coords w fs"
  by (simp_all add: collection_coords_def)

text \<open>
  The box folded over a coordinate list is the least box holding the start box and
  every coordinate: each bound is a bound of all coordinates and is reached by one.
\<close>

definition in_box :: "real \<times> real \<times> real \<times> real \<Rightarrow> position \<Rightarrow> bool" where
  "in_box b p \<longleftrightarrow> (case b of (x0, y0, x1, y1) \<Rightarrow>
     x0 \<le> fst p \<and> fst p \<le> x1 \<and> y0 \<le> snd p \<and> snd p \<le> y1)"

definition tight_box :: "real \<times> real \<times> real \<times> real \<Rightarrow> position set \<Rightarrow> bool" where
  "tight_box b S \<longleftrightarrow> (\<forall>p \<in> S. in_box b p) \<and>
     (case b of (x0, y0, x1, y1) \<Rightarrow>
        (\<exists>p \<in> S. fst p = x0) \<and> (\<exists>p \<in> S. snd p = y0) \<and>
        (\<exists>p \<in> S. fst p = x1) \<and> (\<exists>p \<in> S. snd p = y1))"

lemma tight_box_add:
  assumes "tight_box b S"
  shows "tight_box (the (bbox_add (Some b) p)) (insert p S)"
proof -
  obtain x0 y0 x1 y1 where b: "b = (x0, y0, x1, y1)" by (cases b) auto
  obtain x y where p: "p = (x, y)" by (cases p)
  from assms show ?thesis
    unfolding b p tight_box_def in_box_def
    by (auto simp: min_def max_def)
qed

lemma foldl_bbox_add_tight:
  "tight_box b S \<Longrightarrow> \<exists>b'. foldl bbox_add (Some b) cs = Some b' \<and> tight_box b' (S \<union> set cs)"
proof (induction cs arbitrary: b S)
  case Nil
  then show ?case by simp
next
  case (Cons c cs)
  obtain x y where c: "c = (x, y)" by (cases c)
  obtain x0 y0 x1 y1 where b: "b = (x0, y0, x1, y1)" by (cases b) auto
  obtain nb where nb: "bbox_add (Some b) c = Some nb" by (simp add: b c)
  have "tight_box nb (insert c S)"
    using tight_box_add [OF Cons.prems, of c] nb by simp
  then obtain b' where "foldl bbox_add (Some nb) cs = Some b'"
      and "tight_box b' (insert c S \<union> set cs)"
    using Cons.IH by blast
  then show ?case by (auto simp: nb)
qed

lemma tight_box_single: "tight_box (x, y, x, y) {(x, y)}"
  by (simp add: tight_box_def in_box_def)

lemma turf_bbox_some_tight:
  assumes "collection_coords False fs \<noteq> []"
  shows "\<exists>b. turf_bbox fs = Some b \<and> tight_box b (set (collection_coords False fs))"
proof -
  obtain c cs where cs: "collection_coords False fs = c # cs"
    using assms by (cases "collection_coords False fs") auto
  obtain x y where c: "c = (x, y)" by (cases c)
  obtain b where "foldl bbox_add (Some (x, y, x, y)) cs = Some b"
      and "tight_box b ({(x, y)} \<union> set cs)"
    using foldl_bbox_add_tight [OF tight_box_single] by blast
  then show ?thesis by (simp add: turf_bbox_def cs c)
qed

lemma turf_bbox_None_iff: "turf_bbox fs = None \<longleftrightarrow> collection_coords False fs = []"
proof
  assume "turf_bbox fs = None"
  then show "collection_coords False fs = []"
    using turf_bbox_some_tight [of fs] by auto
qed (simp add: turf_bbox_def)

end
