(* ===== verification/Aggregator.thy ===== *)
theory Aggregator
  imports TransportData
begin

text \<open>
  The geometry aggregation at the start of \<^verbatim>\<open>TransportMap.addTransportLayers\<close>
  (\<^verbatim>\<open>src/src/components/transport-map.ts\<close>, lines 84--136): one line feature per
  transport line, one point feature per station, stations grouped by name in a
  \<^verbatim>\<open>Map<string, Position[]>\<close>, and one centroid feature per group. Each loop of the
  source is a function of its own; the lemmas prove each loop equal to a reference
  list expression (\<open>station_groups\<close> for the grouping) and derive the properties of
  the centroid collection.
\<close>

subsection \<open>Features built by the loops\<close>

definition line_feature :: "transport_line \<Rightarrow> feature" where
  "line_feature l = \<lparr>geometry = line_geometry l, properties = []\<rparr>"

definition station_feature :: "station \<Rightarrow> feature" where
  "station_feature s = \<lparr>geometry = Point (position s), properties = [(''name'', name s)]\<rparr>"

definition point_feature :: "position \<Rightarrow> feature" where
  "point_feature p = \<lparr>geometry = Point p, properties = []\<rparr>"

subsection \<open>The loops\<close>

text \<open>Lines 84--94: \<^verbatim>\<open>for (const line of data.lines) linesCollection.features.push(...)\<close>.\<close>

definition lines_collection :: "transport_line list \<Rightarrow> feature list" where
  "lines_collection ls = push_loop (\<lambda>_. True) line_feature ls []"

text \<open>
  Lines 95--114: each station is pushed as a point and its position appended to the
  array stored under its name (\<^verbatim>\<open>get(name) || []\<close>, \<^verbatim>\<open>push\<close>, \<^verbatim>\<open>set\<close>).
\<close>

fun stations_loop ::
  "station list \<Rightarrow> feature list \<Rightarrow> (string, position list) js_map
   \<Rightarrow> feature list \<times> (string, position list) js_map" where
  "stations_loop [] fs m = (fs, m)"
| "stations_loop (s # ss) fs m =
     (let positions = (case jsmap_get m (name s) of None \<Rightarrow> [] | Some ps \<Rightarrow> ps)
      in stations_loop ss (fs @ [station_feature s]) (jsmap_set m (name s) (positions @ [position s])))"

text \<open>Lines 119--135: the centroid of a group, carrying the group's name.\<close>

definition centroid_feature :: "string \<Rightarrow> position list \<Rightarrow> feature" where
  "centroid_feature nm ps =
     (let c = turf_centroid (map point_feature ps)
      in c\<lparr>properties := jsmap_set (properties c) ''name'' nm\<rparr>)"

definition centroids_collection :: "(string, position list) js_map \<Rightarrow> feature list" where
  "centroids_collection m = push_loop (\<lambda>_. True) (\<lambda>(nm, ps). centroid_feature nm ps) m []"

text \<open>The three collections that \<^verbatim>\<open>addTransportLayers\<close> hands to its sources.\<close>

definition build_collections :: "transport_data \<Rightarrow> feature list \<times> feature list \<times> feature list" where
  "build_collections d =
     (let (sc, groups) = stations_loop (object_values (stations d)) [] []
      in (lines_collection (lines d), sc, centroids_collection groups))"

subsection \<open>Reference: the groups of stations by name\<close>

definition group_positions :: "station list \<Rightarrow> string \<Rightarrow> position list" where
  "group_positions ss k = map position (filter (\<lambda>s. name s = k) ss)"

definition station_groups :: "station list \<Rightarrow> (string, position list) js_map" where
  "station_groups ss = map (\<lambda>k. (k, group_positions ss k)) (first_occurrences (map name ss))"

subsection \<open>Lemmas\<close>

lemma lines_collection_eq: "lines_collection ls = map line_feature ls"
  by (simp add: lines_collection_def push_loop_eq)

lemma centroids_collection_eq:
  "centroids_collection m = map (\<lambda>(nm, ps). centroid_feature nm ps) m"
  by (simp add: centroids_collection_def push_loop_eq)

lemma stations_loop_snoc:
  "stations_loop (ss @ [s]) fs m =
     (let (fs', m') = stations_loop ss fs m;
          positions = (case jsmap_get m' (name s) of None \<Rightarrow> [] | Some ps \<Rightarrow> ps)
      in (fs' @ [station_feature s], jsmap_set m' (name s) (positions @ [position s])))"
  by (induction ss arbitrary: fs m) (simp_all add: Let_def split: prod.splits)

lemma stations_loop_features: "fst (stations_loop ss fs m) = fs @ map station_feature ss"
  by (induction ss arbitrary: fs m) (simp_all add: Let_def)

lemma jsmap_set_tabulate:
  "distinct ks \<Longrightarrow>
   jsmap_set (map (\<lambda>k. (k, f k)) ks) k v =
     (if k \<in> set ks then map (\<lambda>k'. (k', if k' = k then v else f k')) ks
      else map (\<lambda>k. (k, f k)) ks @ [(k, v)])"
  by (induction ks) auto

lemma group_positions_snoc:
  "group_positions (ss @ [s]) k =
     (if name s = k then group_positions ss k @ [position s] else group_positions ss k)"
  by (simp add: group_positions_def)

lemma map_of_station_groups:
  "map_of (station_groups ss) k = (if k \<in> name ` set ss then Some (group_positions ss k) else None)"
  by (induction ss rule: rev_induct) (auto simp: station_groups_def map_of_map_restrict
      restrict_map_def)

lemma station_groups_snoc:
  "station_groups (ss @ [s]) =
     jsmap_set (station_groups ss) (name s)
       ((case jsmap_get (station_groups ss) (name s) of None \<Rightarrow> [] | Some ps \<Rightarrow> ps) @ [position s])"
proof (cases "name s \<in> name ` set ss")
  case True
  then show ?thesis
    by (simp add: station_groups_def jsmap_get_def map_of_station_groups [unfolded station_groups_def]
        jsmap_set_tabulate group_positions_snoc)
next
  case False
  then have "group_positions ss (name s) = []"
    by (auto simp: group_positions_def filter_empty_conv image_iff)
  with False show ?thesis
    by (simp add: station_groups_def jsmap_get_def map_of_station_groups [unfolded station_groups_def]
        jsmap_set_tabulate group_positions_snoc image_iff)
qed

lemma stations_loop_groups: "snd (stations_loop ss [] []) = station_groups ss"
proof (induction ss rule: rev_induct)
  case Nil
  then show ?case by (simp add: station_groups_def)
next
  case (snoc s ss)
  obtain fs' m' where loop: "stations_loop ss [] [] = (fs', m')"
    by (cases "stations_loop ss [] []")
  with snoc.IH have "m' = station_groups ss" by simp
  with loop show ?case
    by (simp add: stations_loop_snoc station_groups_snoc)
qed

lemma coords_point_features [simp]: "collection_coords w (map point_feature ps) = ps"
  by (induction ps) (simp_all add: point_feature_def)

lemma centroid_feature_eq:
  "centroid_feature nm ps = \<lparr>geometry = Point (mean_position ps), properties = [(''name'', nm)]\<rparr>"
  by (simp add: centroid_feature_def turf_centroid_def)

lemma group_positions_nonempty:
  "k \<in> name ` set ss \<Longrightarrow> group_positions ss k \<noteq> []"
  by (auto simp: group_positions_def filter_empty_conv)

lemma build_collections_eq:
  "build_collections d =
     (map line_feature (lines d),
      map station_feature (object_values (stations d)),
      map (\<lambda>k. centroid_feature k (group_positions (object_values (stations d)) k))
        (first_occurrences (map name (object_values (stations d)))))"
proof -
  let ?ss = "object_values (stations d)"
  obtain sc m where loop: "stations_loop ?ss [] [] = (sc, m)"
    by (cases "stations_loop ?ss [] []")
  have "sc = map station_feature ?ss"
    using stations_loop_features [of ?ss "[]" "[]"] loop by simp
  moreover have "m = station_groups ?ss"
    using stations_loop_groups [of ?ss] loop by simp
  ultimately show ?thesis
    by (simp add: build_collections_def loop lines_collection_eq centroids_collection_eq
        station_groups_def)
qed

text \<open>
  C8. The station-centroid collection that \<^verbatim>\<open>addTransportLayers\<close> builds has exactly
  one feature named \<open>k\<close> for every station name \<open>k\<close> of the data, and that feature is
  the point at the arithmetic mean of the positions of all stations named \<open>k\<close>, a
  non-empty group.
\<close>

theorem centroid_per_name:
  assumes "k \<in> name ` set (object_values (stations d))"
  shows "filter (\<lambda>f. properties f = [(''name'', k)]) (snd (snd (build_collections d))) =
           [\<lparr>geometry = Point (mean_position (group_positions (object_values (stations d)) k)),
             properties = [(''name'', k)]\<rparr>]
         \<and> group_positions (object_values (stations d)) k \<noteq> []"
proof -
  let ?ss = "object_values (stations d)"
  have "filter (\<lambda>k'. k' = k) (first_occurrences (map name ?ss)) = [k]"
    using assms by (simp add: filter_eq_distinct)
  then have "filter (\<lambda>f. properties f = [(''name'', k)])
        (map (\<lambda>k'. centroid_feature k' (group_positions ?ss k')) (first_occurrences (map name ?ss)))
      = map (\<lambda>k'. centroid_feature k' (group_positions ?ss k')) [k]"
    by (simp add: filter_map comp_def centroid_feature_eq)
  then show ?thesis
    using assms by (simp add: build_collections_eq centroid_feature_eq group_positions_nonempty)
qed

theorem centroid_per_name_witness:
  "''Central'' \<in> name ` set (object_values (stations
      \<lparr>stations = [(1, \<lparr>station_id = 1, name = ''Central'', position = (0, 0)\<rparr>),
                   (2, \<lparr>station_id = 2, name = ''Central'', position = (2, 0)\<rparr>)],
       lines = []\<rparr>)) \<and>
   filter (\<lambda>f. properties f = [(''name'', ''Central'')]) (snd (snd (build_collections
      \<lparr>stations = [(1, \<lparr>station_id = 1, name = ''Central'', position = (0, 0)\<rparr>),
                   (2, \<lparr>station_id = 2, name = ''Central'', position = (2, 0)\<rparr>)],
       lines = []\<rparr>))) =
     [\<lparr>geometry = Point (1, 0), properties = [(''name'', ''Central'')]\<rparr>]"
  using centroid_per_name [of "''Central''" "\<lparr>stations = [(1, \<lparr>station_id = 1, name = ''Central'', position = (0, 0)\<rparr>),
                   (2, \<lparr>station_id = 2, name = ''Central'', position = (2, 0)\<rparr>)],
       lines = []\<rparr>"]
  by (simp add: object_values_def group_positions_def mean_position_def)

end
