(* ===== verification/Engine.thy ===== *)
theory Engine
  imports GeoJSON
begin

text \<open>
  The part of the MapLibre GL map that the program drives (library code, modelled from
  the capability surface of the spec, section 6, and MapLibre's documented behaviour):
  the style's sources by name, the layer stack, the controls, the camera requests
  made by \<^verbatim>\<open>fitBounds\<close> (kept as a log, the last entry being the viewport), and the
  non-fatal error events. \<^verbatim>\<open>Style.addSource\<close> throws before the style has loaded and
  on a duplicate name; \<^verbatim>\<open>Style.addLayer\<close> throws before the style has loaded and
  otherwise reports a duplicate id or a missing source as an error event and adds
  nothing. The process-wide protocol table of \<^verbatim>\<open>maplibregl.addProtocol\<close> maps a URL
  scheme to the handler registered last (a handler is named by the number of the
  object that owns it).
\<close>

datatype source_kind = GeoJSONSource | VectorSource | RasterSource

record source =
  src_kind :: source_kind
  src_data :: "feature list"

datatype layer_type = LineLayer | SymbolLayer | OtherLayer

text \<open>A layer specification: id, type, source, and its layout and paint entries.\<close>

record layer =
  layer_id :: string
  layer_type :: layer_type
  layer_source :: string
  layer_style :: "(string \<times> string) list"

datatype control = NavigationControl | AttributionControl string

record padding =
  pad_top :: nat
  pad_bottom :: nat
  pad_left :: nat
  pad_right :: nat

record engine =
  eng_style :: string
  eng_container :: nat
  eng_center :: position
  eng_zoom :: real
  eng_cooperative :: bool
  eng_controls :: "control list"
  eng_loaded :: bool
  eng_sources :: "string \<rightharpoonup> source"
  eng_layers :: "layer list"
  eng_fits :: "(bbox \<times> padding) list"
  eng_events :: "string list"

type_synonym protocol_table = "string \<rightharpoonup> nat"

subsection \<open>Operations\<close>

text \<open>\<^verbatim>\<open>new Map({container, style, center, zoom, cooperativeGestures, attributionControl})\<close>.\<close>

definition new_map :: "string \<Rightarrow> position \<Rightarrow> nat \<Rightarrow> real \<Rightarrow> bool \<Rightarrow> string \<Rightarrow> engine" where
  "new_map style center container zoom coop attribution =
     \<lparr>eng_style = style, eng_container = container, eng_center = center, eng_zoom = zoom,
      eng_cooperative = coop, eng_controls = [AttributionControl attribution],
      eng_loaded = False, eng_sources = Map.empty, eng_layers = [], eng_fits = [],
      eng_events = []\<rparr>"

text \<open>The style has loaded: its own sources are present and the map fires \<^verbatim>\<open>load\<close>.
  \<open>eng_layers\<close> holds only the layers the program adds; the style's own layers are not modelled
  (a clash of layer ids only records an error event, see \<open>addLayer\<close>, and never throws).\<close>

definition style_loaded :: "(string \<rightharpoonup> source) \<Rightarrow> engine \<Rightarrow> engine" where
  "style_loaded style_sources e = e\<lparr>eng_loaded := True, eng_sources := style_sources\<rparr>"

definition addSource :: "string \<Rightarrow> source \<Rightarrow> engine \<Rightarrow> js_error + engine" where
  "addSource nm s e =
     (if \<not> eng_loaded e then Inl StyleNotDoneLoading
      else if eng_sources e nm \<noteq> None then Inl (SourceAlreadyExists nm)
      else Inr (e\<lparr>eng_sources := (eng_sources e)(nm \<mapsto> s)\<rparr>))"

definition addLayer :: "layer \<Rightarrow> engine \<Rightarrow> js_error + engine" where
  "addLayer l e =
     (if \<not> eng_loaded e then Inl StyleNotDoneLoading
      else if layer_id l \<in> set (map layer_id (eng_layers e))
      then Inr (e\<lparr>eng_events := eng_events e @ [''Layer already exists on this map'']\<rparr>)
      else if eng_sources e (layer_source l) = None
      then Inr (e\<lparr>eng_events := eng_events e @ [''source not found'']\<rparr>)
      else Inr (e\<lparr>eng_layers := eng_layers e @ [l]\<rparr>))"

definition getSource :: "string \<Rightarrow> engine \<Rightarrow> source option" where
  "getSource nm e = eng_sources e nm"

text \<open>\<^verbatim>\<open>GeoJSONSource.setData\<close> on the source object stored under \<open>nm\<close>.\<close>

definition setData :: "string \<Rightarrow> source \<Rightarrow> feature list \<Rightarrow> engine \<Rightarrow> engine" where
  "setData nm s fs e = e\<lparr>eng_sources := (eng_sources e)(nm \<mapsto> s\<lparr>src_data := fs\<rparr>)\<rparr>"

definition fitBounds :: "bbox \<Rightarrow> padding \<Rightarrow> engine \<Rightarrow> engine" where
  "fitBounds b p e = e\<lparr>eng_fits := eng_fits e @ [(b, p)]\<rparr>"

definition addControl :: "control \<Rightarrow> engine \<Rightarrow> engine" where
  "addControl c e = e\<lparr>eng_controls := eng_controls e @ [c]\<rparr>"

definition addProtocol :: "protocol_table \<Rightarrow> string \<Rightarrow> nat \<Rightarrow> protocol_table" where
  "addProtocol t scheme h = t(scheme \<mapsto> h)"

definition removeProtocol :: "protocol_table \<Rightarrow> string \<Rightarrow> protocol_table" where
  "removeProtocol t scheme = t(scheme := None)"

text \<open>The viewport the camera settles on: the target of the last \<^verbatim>\<open>fitBounds\<close>.\<close>

definition viewport :: "engine \<Rightarrow> (bbox \<times> padding) option" where
  "viewport e = (if eng_fits e = [] then None else Some (last (eng_fits e)))"

subsection \<open>Well-formedness\<close>

text \<open>Every layer draws from a present source and layer ids are unique.\<close>

definition engine_wf :: "engine \<Rightarrow> bool" where
  "engine_wf e \<longleftrightarrow>
     distinct (map layer_id (eng_layers e)) \<and>
     (\<forall>l \<in> set (eng_layers e). eng_sources e (layer_source l) \<noteq> None)"

lemmas engine_ops_defs [engine_simps] =
  addSource_def addLayer_def getSource_def setData_def fitBounds_def addControl_def

lemma engine_wf_new_map: "engine_wf (new_map style center container zoom coop attribution)"
  by (simp add: engine_wf_def new_map_def)

lemma engine_wf_style_loaded: "eng_layers e = [] \<Longrightarrow> engine_wf (style_loaded ss e)"
  by (simp add: engine_wf_def style_loaded_def)

lemma engine_wf_addSource:
  "engine_wf e \<Longrightarrow> addSource nm s e = Inr e' \<Longrightarrow> engine_wf e'"
  by (auto simp: engine_wf_def addSource_def split: if_splits)

lemma engine_wf_addLayer:
  "engine_wf e \<Longrightarrow> addLayer l e = Inr e' \<Longrightarrow> engine_wf e'"
  by (auto simp: engine_wf_def addLayer_def split: if_splits)

lemma engine_wf_setData: "engine_wf e \<Longrightarrow> engine_wf (setData nm s fs e)"
  by (simp add: engine_wf_def setData_def)

lemma engine_wf_fitBounds: "engine_wf e \<Longrightarrow> engine_wf (fitBounds b p e)"
  by (simp add: engine_wf_def fitBounds_def)

lemma engine_wf_addControl: "engine_wf e \<Longrightarrow> engine_wf (addControl c e)"
  by (simp add: engine_wf_def addControl_def)

lemma viewport_fitBounds [simp]: "viewport (fitBounds b p e) = Some (b, p)"
  by (simp add: viewport_def fitBounds_def)

end
