(* ===== verification/MapSurface.thy ===== *)
theory MapSurface
  imports Aggregator Engine
begin

text \<open>
  The class \<^verbatim>\<open>TransportMap\<close> of \<^verbatim>\<open>src/src/components/transport-map.ts\<close> (lines
  14--203). Its only field is the MapLibre map, so its methods are functions on an
  \<open>engine\<close> that may throw (\<open>js_error + engine\<close>). The constructor and
  \<^verbatim>\<open>destruct\<close> also touch the process-wide protocol table; they work on a
  \<open>world\<close> holding every map created so far (numbered in creation order) and that
  table. The load handler registered by the constructor is split in two: the engine
  part (\<open>TransportMap_on_load\<close>) is here, the \<^verbatim>\<open>onLoad(this)\<close> callback is applied by
  the caller (Controller).
\<close>

record world =
  w_maps :: "nat \<rightharpoonup> engine"
  w_protocols :: protocol_table
  w_next :: nat

subsection \<open>Constants of the source\<close>

definition attribution_html :: string where
  "attribution_html =
     ''<a href=\"https://www.openstreetmap.org/copyright\" target=\"_blank\">&copy; OpenStreetMap Mitwirkende</a> <a href = \"https://www.maptiler.com/copyright/\" target=\"_blank\" >&copy; MapTiler</a>''"

definition selection_padding :: padding where
  "selection_padding = \<lparr>pad_top = 100, pad_bottom = 50, pad_left = 50, pad_right = 50\<rparr>"

definition transport_layer :: layer where
  "transport_layer = \<lparr>layer_id = ''transport'', layer_type = LineLayer, layer_source = ''transport'',
     layer_style = [(''line-join'', ''round''), (''line-cap'', ''round''),
                    (''line-color'', ''#DBB3E6''), (''line-width'', ''5'')]\<rparr>"

definition selected_layer :: layer where
  "selected_layer = \<lparr>layer_id = ''transport-selected'', layer_type = LineLayer,
     layer_source = ''transport-selected'',
     layer_style = [(''line-join'', ''round''), (''line-cap'', ''round''),
                    (''line-color'', ''#836B8A''), (''line-width'', ''5'')]\<rparr>"

definition labels_layer :: layer where
  "labels_layer = \<lparr>layer_id = ''transport-station-labels'', layer_type = SymbolLayer,
     layer_source = ''station-centroids'',
     layer_style = [(''icon-image'', ''railway_light''), (''text-anchor'', ''top''),
                    (''text-field'', ''{name}''), (''text-font'', ''Noto Sans Regular''),
                    (''text-offset'', ''0,0.8''), (''text-size'', ''13'')]\<rparr>"

definition geojson :: "feature list \<Rightarrow> source" where
  "geojson fs = \<lparr>src_kind = GeoJSONSource, src_data = fs\<rparr>"

subsection \<open>Constructor, load handler, destructor\<close>

text \<open>
  Lines 22--45: a new \<^verbatim>\<open>Protocol\<close>, the map, then \<^verbatim>\<open>addProtocol(\"pmtiles\", protocol.tile)\<close>.
  The new object gets the next number of the world; it returns that number.
\<close>

definition TransportMap_new :: "string \<Rightarrow> position \<Rightarrow> nat \<Rightarrow> world \<Rightarrow> nat \<times> world" where
  "TransportMap_new styleURL center container w =
     (let i = w_next w;
          m = new_map styleURL center container 13 True attribution_html
      in (i, w\<lparr>w_maps := (w_maps w)(i \<mapsto> m),
               w_protocols := addProtocol (w_protocols w) ''pmtiles'' i,
               w_next := Suc i\<rparr>))"

text \<open>Lines 41--44, before \<^verbatim>\<open>onLoad(this)\<close>.\<close>

definition TransportMap_on_load :: "engine \<Rightarrow> engine" where
  "TransportMap_on_load e = addControl NavigationControl e"

text \<open>Lines 200--202.\<close>

definition destruct :: "world \<Rightarrow> world" where
  "destruct w = w\<lparr>w_protocols := removeProtocol (w_protocols w) ''pmtiles''\<rparr>"

subsection \<open>setSelectedLine\<close>

text \<open>
  Lines 53--76. The loop over the lines pushes every matching line into one
  collection and, inside the loop, looks the selected source up (throwing if it is
  missing or not a GeoJSON source), replaces its data and fits the viewport to the
  collection built so far.
\<close>

fun select_loop :: "string \<Rightarrow> transport_line list \<Rightarrow> feature list \<Rightarrow> engine \<Rightarrow> js_error + engine" where
  "select_loop k [] coll e = Inr e"
| "select_loop k (l # ls) coll e =
     (if transportLineId l = k then
        (let coll' = coll @ [line_feature l] in
         case getSource ''transport-selected'' e of
           None \<Rightarrow> Inl CouldNotGetSelectedSource
         | Some s \<Rightarrow>
             if src_kind s \<noteq> GeoJSONSource then Inl CouldNotGetSelectedSource
             else select_loop k ls coll'
                    (fitBounds (turf_bbox coll') selection_padding
                       (setData ''transport-selected'' s coll' e)))
      else select_loop k ls coll e)"

definition setSelectedLine :: "string \<Rightarrow> transport_data \<Rightarrow> engine \<Rightarrow> js_error + engine" where
  "setSelectedLine selectedLine d e = select_loop selectedLine (lines d) [] e"

subsection \<open>addTransportLayers\<close>

text \<open>Lines 83--193: the collections (Aggregator), four sources, three layers.\<close>

definition addTransportLayers :: "transport_data \<Rightarrow> engine \<Rightarrow> js_error + engine" where
  "addTransportLayers d e =
     (case build_collections d of (linesC, stationsC, centroidsC) \<Rightarrow>
      ebind (addSource ''transport'' (geojson linesC) e) (\<lambda>e.
      ebind (addSource ''transport-selected'' (geojson []) e) (\<lambda>e.
      ebind (addSource ''stations'' (geojson stationsC) e) (\<lambda>e.
      ebind (addSource ''station-centroids'' (geojson centroidsC) e) (\<lambda>e.
      ebind (addLayer transport_layer e) (\<lambda>e.
      ebind (addLayer selected_layer e) (\<lambda>e.
      addLayer labels_layer e)))))))"

subsection \<open>Reference for setSelectedLine\<close>

text \<open>
  The fit requests the loop makes: one per matching line, each to the box of the
  collection built so far.
\<close>

fun prefix_fits :: "feature list \<Rightarrow> transport_line list \<Rightarrow> (bbox \<times> padding) list" where
  "prefix_fits coll [] = []"
| "prefix_fits coll (l # ls) =
     (turf_bbox (coll @ [line_feature l]), selection_padding) # prefix_fits (coll @ [line_feature l]) ls"

definition matching_lines :: "string \<Rightarrow> transport_data \<Rightarrow> transport_line list" where
  "matching_lines k d = filter (\<lambda>l. transportLineId l = k) (lines d)"

text \<open>
  What \<^verbatim>\<open>setSelectedLine\<close> does, stated over the matching lines: nothing when none
  matches; otherwise the exception when the selected source is missing or not GeoJSON,
  else the source holds exactly the matching lines and one fit per matching line is
  requested.
\<close>

definition select_spec :: "string \<Rightarrow> transport_data \<Rightarrow> engine \<Rightarrow> js_error + engine" where
  "select_spec k d e =
     (let ms = matching_lines k d in
      if ms = [] then Inr e
      else case eng_sources e ''transport-selected'' of
        None \<Rightarrow> Inl CouldNotGetSelectedSource
      | Some s \<Rightarrow>
          if src_kind s \<noteq> GeoJSONSource then Inl CouldNotGetSelectedSource
          else Inr (e\<lparr>eng_sources := (eng_sources e)(''transport-selected'' \<mapsto> s\<lparr>src_data := map line_feature ms\<rparr>),
                      eng_fits := eng_fits e @ prefix_fits [] ms\<rparr>))"

subsection \<open>Lemmas on setSelectedLine\<close>

lemma select_loop_no_match:
  "filter (\<lambda>l. transportLineId l = k) ls = [] \<Longrightarrow> select_loop k ls coll e = Inr e"
  by (induction ls arbitrary: coll) auto

lemma select_loop_bad_source:
  assumes "filter (\<lambda>l. transportLineId l = k) ls \<noteq> []"
    and "case eng_sources e ''transport-selected'' of None \<Rightarrow> True | Some s \<Rightarrow> src_kind s \<noteq> GeoJSONSource"
  shows "select_loop k ls coll e = Inl CouldNotGetSelectedSource"
  using assms
  by (induction ls arbitrary: coll) (auto simp: getSource_def split: option.splits)

lemma select_loop_geojson:
  assumes "eng_sources e ''transport-selected'' = Some s" and "src_kind s = GeoJSONSource"
  shows "select_loop k ls coll e =
    (let ms = filter (\<lambda>l. transportLineId l = k) ls in
     if ms = [] then Inr e
     else Inr (e\<lparr>eng_sources := (eng_sources e)(''transport-selected'' \<mapsto> s\<lparr>src_data := coll @ map line_feature ms\<rparr>),
                 eng_fits := eng_fits e @ prefix_fits coll ms\<rparr>))"
  using assms
proof (induction ls arbitrary: coll e s)
  case Nil
  then show ?case by simp
next
  case (Cons l ls)
  show ?case
  proof (cases "transportLineId l = k")
    case True
    let ?c = "coll @ [line_feature l]"
    let ?e1 = "fitBounds (turf_bbox ?c) selection_padding (setData ''transport-selected'' s ?c e)"
    have src1: "eng_sources ?e1 ''transport-selected'' = Some (s\<lparr>src_data := ?c\<rparr>)"
      by (simp add: setData_def fitBounds_def)
    have step: "select_loop k (l # ls) coll e = select_loop k ls ?c ?e1"
      using True Cons.prems by (simp add: getSource_def Let_def)
    have kind1: "src_kind (s\<lparr>src_data := ?c\<rparr>) = GeoJSONSource"
      using Cons.prems(2) by simp
    show ?thesis
      unfolding step Cons.IH [OF src1 kind1] using True
      by (simp add: setData_def fitBounds_def Let_def)
  next
    case False
    then show ?thesis using Cons by simp
  qed
qed

lemma select_loop_select_spec:
  "select_loop k (lines d) [] e = select_spec k d e"
proof (cases "matching_lines k d = []")
  case True
  then show ?thesis
    by (simp add: select_spec_def matching_lines_def select_loop_no_match)
next
  case False
  show ?thesis
  proof (cases "\<exists>s. eng_sources e ''transport-selected'' = Some s \<and> src_kind s = GeoJSONSource")
    case True
    then obtain s where "eng_sources e ''transport-selected'' = Some s" "src_kind s = GeoJSONSource"
      by blast
    with False show ?thesis
      by (simp add: select_spec_def matching_lines_def select_loop_geojson Let_def)
  next
    case nogeo: False
    then have "case eng_sources e ''transport-selected'' of None \<Rightarrow> True
        | Some s \<Rightarrow> src_kind s \<noteq> GeoJSONSource"
      by (auto split: option.splits)
    with False nogeo show ?thesis
      by (auto simp: select_spec_def matching_lines_def select_loop_bad_source
          split: option.splits)
  qed
qed

lemma length_prefix_fits [simp]: "length (prefix_fits coll ms) = length ms"
  by (induction ms arbitrary: coll) simp_all

lemma prefix_fits_Nil_iff [simp]: "prefix_fits coll ms = [] \<longleftrightarrow> ms = []"
  by (cases ms) simp_all

lemma prefix_fits_last:
  "ms \<noteq> [] \<Longrightarrow> last (prefix_fits coll ms) = (turf_bbox (coll @ map line_feature ms), selection_padding)"
proof (induction ms arbitrary: coll)
  case Nil
  then show ?case by simp
next
  case (Cons l ms)
  then show ?case by (cases "ms = []") simp_all
qed

lemma select_spec_Inr_geojson:
  assumes "matching_lines k d \<noteq> []" and "select_spec k d e = Inr e'"
  shows "\<exists>s. eng_sources e ''transport-selected'' = Some s \<and> src_kind s = GeoJSONSource \<and>
           e' = e\<lparr>eng_sources := (eng_sources e)(''transport-selected'' \<mapsto> s\<lparr>src_data := map line_feature (matching_lines k d)\<rparr>),
                  eng_fits := eng_fits e @ prefix_fits [] (matching_lines k d)\<rparr>"
  using assms by (auto simp: select_spec_def Let_def split: option.splits if_splits)

lemma engine_wf_select_spec:
  "engine_wf e \<Longrightarrow> select_spec k d e = Inr e' \<Longrightarrow> engine_wf e'"
  by (auto simp: select_spec_def engine_wf_def Let_def split: option.splits if_splits)

text \<open>
  C1. \<^verbatim>\<open>setSelectedLine\<close> is the reference \<open>select_spec\<close> on every input: it leaves
  the map untouched when no line has the key; when some do, it throws if the
  \<^verbatim>\<open>transport-selected\<close> source is missing or not a GeoJSON source, and otherwise
  replaces that source's data by exactly the matching lines, in order, and requests one
  viewport fit per matching line.
\<close>

theorem setSelectedLine_refines_spec: "setSelectedLine k d e = select_spec k d e"
  unfolding setSelectedLine_def by (rule select_loop_select_spec)

text \<open>
  C7. When at least one line has the selected key and the call returns, the selected
  source holds one feature per matching line carrying that line's geometry, the
  viewport is the bounding box of all of them with the padding top 100 and 50
  elsewhere, and every other source and the layers are unchanged.
\<close>

theorem setSelectedLine_highlights_matches:
  assumes "matching_lines k d \<noteq> []" and "setSelectedLine k d e = Inr e'"
  shows "(\<exists>s. eng_sources e' ''transport-selected'' = Some s \<and> src_kind s = GeoJSONSource \<and>
            map geometry (src_data s) = map line_geometry (matching_lines k d)) \<and>
         viewport e' = Some (turf_bbox (map line_feature (matching_lines k d)), selection_padding) \<and>
         (\<forall>nm. nm \<noteq> ''transport-selected'' \<longrightarrow> eng_sources e' nm = eng_sources e nm) \<and>
         eng_layers e' = eng_layers e"
proof -
  obtain s where s: "eng_sources e ''transport-selected'' = Some s" "src_kind s = GeoJSONSource"
    and e': "e' = e\<lparr>eng_sources := (eng_sources e)(''transport-selected'' \<mapsto> s\<lparr>src_data := map line_feature (matching_lines k d)\<rparr>),
                  eng_fits := eng_fits e @ prefix_fits [] (matching_lines k d)\<rparr>"
    using select_spec_Inr_geojson [OF assms(1)] assms(2) select_loop_select_spec
    by (metis setSelectedLine_def)
  show ?thesis
    using s assms(1) by (simp add: e' viewport_def prefix_fits_last comp_def line_feature_def)
qed

text \<open>
  C18. When no line has the selected key, \<^verbatim>\<open>setSelectedLine\<close> changes nothing and
  throws nothing, whatever the state of the map: the highlight of an earlier selection
  stays on the map.
\<close>

theorem setSelectedLine_no_match:
  "matching_lines k d = [] \<Longrightarrow> setSelectedLine k d e = Inr e"
  by (simp add: setSelectedLine_def select_loop_select_spec select_spec_def)

text \<open>
  C19. Selecting the same key twice on the same data leaves the sources and the viewport
  as one selection left them.
\<close>

theorem setSelectedLine_idempotent:
  assumes "setSelectedLine k d e = Inr e1"
  shows "\<exists>e2. setSelectedLine k d e1 = Inr e2 \<and> eng_sources e2 = eng_sources e1 \<and>
              viewport e2 = viewport e1 \<and> eng_layers e2 = eng_layers e1"
proof (cases "matching_lines k d = []")
  case True
  then show ?thesis using assms by (simp add: setSelectedLine_def select_loop_select_spec select_spec_def)
next
  case False
  obtain s where s: "eng_sources e ''transport-selected'' = Some s" "src_kind s = GeoJSONSource"
    and e1: "e1 = e\<lparr>eng_sources := (eng_sources e)(''transport-selected'' \<mapsto> s\<lparr>src_data := map line_feature (matching_lines k d)\<rparr>),
                  eng_fits := eng_fits e @ prefix_fits [] (matching_lines k d)\<rparr>"
    using select_spec_Inr_geojson [OF False] assms select_loop_select_spec
    by (metis setSelectedLine_def)
  show ?thesis
    using False s by (simp add: setSelectedLine_def select_loop_select_spec select_spec_def e1
        viewport_def prefix_fits_last Let_def)
qed

text \<open>
  C29. With a matching line, \<^verbatim>\<open>setSelectedLine\<close> throws exactly when the
  \<^verbatim>\<open>transport-selected\<close> source is missing or not a GeoJSON source, and the only
  exception it throws is \<^verbatim>\<open>Could not get transport-selected source\<close>.
\<close>

theorem setSelectedLine_error:
  assumes "matching_lines k d \<noteq> []"
  shows "((\<exists>err. setSelectedLine k d e = Inl err) \<longleftrightarrow>
           \<not> (\<exists>s. eng_sources e ''transport-selected'' = Some s \<and> src_kind s = GeoJSONSource)) \<and>
         (\<forall>err. setSelectedLine k d e = Inl err \<longrightarrow> err = CouldNotGetSelectedSource)"
proof -
  have eq: "setSelectedLine k d e =
      (case eng_sources e ''transport-selected'' of
         None \<Rightarrow> Inl CouldNotGetSelectedSource
       | Some s \<Rightarrow> if src_kind s \<noteq> GeoJSONSource then Inl CouldNotGetSelectedSource
           else Inr (e\<lparr>eng_sources := (eng_sources e)(''transport-selected'' \<mapsto> s\<lparr>src_data := map line_feature (matching_lines k d)\<rparr>),
                      eng_fits := eng_fits e @ prefix_fits [] (matching_lines k d)\<rparr>))"
    using assms by (simp add: setSelectedLine_def select_loop_select_spec select_spec_def Let_def)
  show ?thesis
    unfolding eq by (cases "eng_sources e ''transport-selected''") auto
qed

subsection \<open>Lemmas on addTransportLayers\<close>

lemma addTransportLayers_unfold:
  "addTransportLayers d e =
     ebind (addSource ''transport'' (geojson (map line_feature (lines d))) e) (\<lambda>e.
     ebind (addSource ''transport-selected'' (geojson []) e) (\<lambda>e.
     ebind (addSource ''stations'' (geojson (map station_feature (object_values (stations d)))) e) (\<lambda>e.
     ebind (addSource ''station-centroids'' (geojson (snd (snd (build_collections d)))) e) (\<lambda>e.
     ebind (addLayer transport_layer e) (\<lambda>e.
     ebind (addLayer selected_layer e) (\<lambda>e.
     addLayer labels_layer e))))))"
  by (simp add: addTransportLayers_def build_collections_eq)

lemma addSource_InrD:
  "addSource nm src e = Inr e' \<Longrightarrow>
   eng_loaded e \<and> eng_sources e nm = None \<and> e' = e\<lparr>eng_sources := (eng_sources e)(nm \<mapsto> src)\<rparr>"
  by (simp add: addSource_def split: if_splits)

lemma addLayer_InrD:
  "addLayer l e = Inr e' \<Longrightarrow>
   eng_loaded e \<and> eng_loaded e' \<and> eng_sources e' = eng_sources e \<and> eng_fits e' = eng_fits e"
  by (auto simp: addLayer_def split: if_splits)

lemma addTransportLayers_chain:
  assumes "addTransportLayers d e = Inr e'"
  obtains e1 e2 e3 e4 e5 e6 where
    "addSource ''transport'' (geojson (map line_feature (lines d))) e = Inr e1"
    "addSource ''transport-selected'' (geojson []) e1 = Inr e2"
    "addSource ''stations'' (geojson (map station_feature (object_values (stations d)))) e2 = Inr e3"
    "addSource ''station-centroids'' (geojson (snd (snd (build_collections d)))) e3 = Inr e4"
    "addLayer transport_layer e4 = Inr e5" "addLayer selected_layer e5 = Inr e6"
    "addLayer labels_layer e6 = Inr e'"
  using assms unfolding addTransportLayers_unfold ebind_eq_Inr by blast

lemma addTransportLayers_InrD:
  assumes "addTransportLayers d e = Inr e'"
  shows "eng_loaded e \<and> eng_loaded e' \<and> eng_sources e' ''transport'' \<noteq> None \<and>
    eng_sources e' ''transport-selected'' = Some (geojson []) \<and> eng_fits e' = eng_fits e"
proof -
  obtain e1 e2 e3 e4 e5 e6 where c:
    "addSource ''transport'' (geojson (map line_feature (lines d))) e = Inr e1"
    "addSource ''transport-selected'' (geojson []) e1 = Inr e2"
    "addSource ''stations'' (geojson (map station_feature (object_values (stations d)))) e2 = Inr e3"
    "addSource ''station-centroids'' (geojson (snd (snd (build_collections d)))) e3 = Inr e4"
    "addLayer transport_layer e4 = Inr e5" "addLayer selected_layer e5 = Inr e6"
    "addLayer labels_layer e6 = Inr e'"
    using assms by (rule addTransportLayers_chain)
  have s1: "eng_loaded e" "eng_sources e1 ''transport'' \<noteq> None"
    using addSource_InrD [OF c(1)] by simp_all
  have "eng_sources e4 ''transport'' \<noteq> None" "eng_sources e4 ''transport-selected'' = Some (geojson [])"
      "eng_fits e4 = eng_fits e"
    using s1(2) addSource_InrD [OF c(1)] addSource_InrD [OF c(2)] addSource_InrD [OF c(3)]
      addSource_InrD [OF c(4)] by simp_all
  moreover have "eng_sources e' = eng_sources e4" "eng_fits e' = eng_fits e4" "eng_loaded e'"
    using addLayer_InrD [OF c(5)] addLayer_InrD [OF c(6)] addLayer_InrD [OF c(7)] by simp_all
  ultimately show ?thesis using s1 by simp
qed

lemma engine_wf_addTransportLayers:
  assumes "engine_wf e" and "addTransportLayers d e = Inr e'"
  shows "engine_wf e'"
proof -
  obtain e1 e2 e3 e4 e5 e6 where c:
    "addSource ''transport'' (geojson (map line_feature (lines d))) e = Inr e1"
    "addSource ''transport-selected'' (geojson []) e1 = Inr e2"
    "addSource ''stations'' (geojson (map station_feature (object_values (stations d)))) e2 = Inr e3"
    "addSource ''station-centroids'' (geojson (snd (snd (build_collections d)))) e3 = Inr e4"
    "addLayer transport_layer e4 = Inr e5" "addLayer selected_layer e5 = Inr e6"
    "addLayer labels_layer e6 = Inr e'"
    using assms(2) by (rule addTransportLayers_chain)
  have "engine_wf e4"
    using engine_wf_addSource [OF engine_wf_addSource [OF engine_wf_addSource
        [OF engine_wf_addSource [OF assms(1) c(1)] c(2)] c(3)] c(4)] .
  then show ?thesis
    using engine_wf_addLayer [OF engine_wf_addLayer [OF engine_wf_addLayer [OF _ c(5)] c(6)] c(7)]
    by blast
qed

text \<open>
  C27. On a loaded map that has none of the program's four source names and none of its
  three layer ids, \<^verbatim>\<open>addTransportLayers\<close> adds exactly the four GeoJSON sources
  (all lines, an empty selection, the station points, the name centroids) and then the
  three layers, in that order, and nothing else.
\<close>

theorem addTransportLayers_provisions:
  assumes "eng_loaded e"
    and "eng_sources e ''transport'' = None" "eng_sources e ''transport-selected'' = None"
        "eng_sources e ''stations'' = None" "eng_sources e ''station-centroids'' = None"
    and "set (map layer_id (eng_layers e)) \<inter>
           {''transport'', ''transport-selected'', ''transport-station-labels''} = {}"
  shows "addTransportLayers d e =
    Inr (e\<lparr>eng_sources := (eng_sources e)
             (''transport'' \<mapsto> geojson (map line_feature (lines d)),
              ''transport-selected'' \<mapsto> geojson [],
              ''stations'' \<mapsto> geojson (map station_feature (object_values (stations d))),
              ''station-centroids'' \<mapsto> geojson (snd (snd (build_collections d)))),
           eng_layers := eng_layers e @ [transport_layer, selected_layer, labels_layer]\<rparr>)"
  using assms
  by (simp add: addTransportLayers_unfold addSource_def addLayer_def transport_layer_def
      selected_layer_def labels_layer_def)

text \<open>
  C28. \<^verbatim>\<open>addTransportLayers\<close> throws \<^verbatim>\<open>Style is not done loading\<close> before the
  map has loaded, and a second call on a map where a first call returned throws
  \<^verbatim>\<open>Source "transport" already exists\<close>, whatever the data of either call.
\<close>

theorem addTransportLayers_errors:
  "(\<not> eng_loaded e \<longrightarrow> addTransportLayers d e = Inl StyleNotDoneLoading) \<and>
   (addTransportLayers d e = Inr e' \<longrightarrow>
      addTransportLayers d' e' = Inl (SourceAlreadyExists ''transport''))"
proof -
  have "addTransportLayers d' e' = Inl (SourceAlreadyExists ''transport'')"
    if "addTransportLayers d e = Inr e'"
    using addTransportLayers_InrD [OF that] by (simp add: addTransportLayers_unfold addSource_def)
  moreover have "\<not> eng_loaded e \<Longrightarrow> addTransportLayers d e = Inl StyleNotDoneLoading"
    by (simp add: addTransportLayers_unfold addSource_def)
  ultimately show ?thesis by blast
qed

text \<open>
  Creating a \<^verbatim>\<open>TransportMap\<close> registers the \<^verbatim>\<open>pmtiles\<close> protocol with the new
  object's handler and destroying it unregisters it again.
\<close>

lemma protocol_lifecycle:
  "w_protocols (snd (TransportMap_new styleURL center container w)) ''pmtiles'' = Some (w_next w) \<and>
   w_protocols (destruct (snd (TransportMap_new styleURL center container w))) ''pmtiles'' = None"
  by (simp add: TransportMap_new_def destruct_def addProtocol_def removeProtocol_def Let_def)

text \<open>
  With two maps alive, destroying the first unregisters the protocol although
  the second is still alive: the table keeps one handler per scheme, not one per map.
\<close>

lemma protocol_overlap:
  "let (a, w1) = TransportMap_new styleURL center c1 w;
       (b, w2) = TransportMap_new styleURL center c2 w1
   in w_maps (destruct w2) b \<noteq> None \<and> w_protocols (destruct w2) ''pmtiles'' = None \<and> a \<noteq> b"
  by (simp add: TransportMap_new_def destruct_def addProtocol_def removeProtocol_def Let_def)

end
