(* ===== verification/Combobox.thy ===== *)
theory Combobox
  imports MapSurface
begin

text \<open>
  The selection widget: \<^verbatim>\<open>src/src/components/Combobox.tsx\<close>, the label component
  \<^verbatim>\<open>TransportLineLabel.tsx\<close> and the options that \<^verbatim>\<open>TransportMap.tsx\<close> (lines
  43--52) builds for it. React elements are values of \<open>element\<close>: a
  \<^verbatim>\<open>TransportLineLabel\<close> element with the line it was given, or the placeholder. The
  option map built by \<^verbatim>\<open>reduce\<close> with object spread is a map from option value to
  label in which a later option overwrites an earlier one with the same value. A
  lookup \<^verbatim>\<open>optionMap[value]\<close> reads an own property: every value is a line key,
  which starts with a digit or a minus sign, so it never names a property inherited
  from \<^verbatim>\<open>Object.prototype\<close> (lemma \<open>transportLineId_hd\<close>). The props are a record whose
  \<^verbatim>\<open>onSelect\<close> is the event its call causes. The dropdown state
  and the handlers wired to it are in theory \<open>ComboboxStore\<close>; its contract (spec,
  section 6) is that \<^verbatim>\<open>onSelect\<close> is called with the value of an option the user
  submits.
\<close>

datatype element = LineLabel int string string | PlaceholderEl string

record combo_option =
  opt_value :: string
  opt_label :: element

text \<open>Lines 10--15, the \<^verbatim>\<open>Props\<close> of the component; \<^verbatim>\<open>onSelect\<close> returns nothing,
  and is modelled by the event its call causes in the caller (a type parameter here).\<close>

record 'ev combobox_props =
  cp_className :: string
  cp_options :: "combo_option list"
  cp_value :: "string option"
  cp_onSelect :: "string \<Rightarrow> 'ev"

text \<open>\<^verbatim>\<open>TransportLineLabel.tsx\<close> lines 8--14: the element and the text it renders,
  \<^verbatim>\<open><span>{number}</span> {from} \<close>U+27A4\<^verbatim>\<open> {to}\<close>, the arrow in UTF-8.\<close>

definition TransportLineLabel :: "transport_line \<Rightarrow> element" where
  "TransportLineLabel l = LineLabel (line_number l) (line_from l) (line_to l)"

definition arrow_utf8 :: string where
  "arrow_utf8 = [CHR 0xE2, CHR 0x9E, CHR 0xA4]"

fun element_text :: "element \<Rightarrow> string" where
  "element_text (LineLabel n f t) = js_number_to_string n @ '' '' @ f @ '' '' @ arrow_utf8 @ '' '' @ t"
| "element_text (PlaceholderEl s) = s"

text \<open>\<^verbatim>\<open>TransportMap.tsx\<close> lines 48--51.\<close>

definition options :: "transport_data \<Rightarrow> combo_option list" where
  "options d = map (\<lambda>l. \<lparr>opt_value = transportLineId l, opt_label = TransportLineLabel l\<rparr>) (lines d)"

text \<open>\<^verbatim>\<open>Combobox.tsx\<close> lines 18--21.\<close>

definition optionMap :: "combo_option list \<Rightarrow> string \<rightharpoonup> element" where
  "optionMap opts = foldl (\<lambda>obj opt. obj(opt_value opt \<mapsto> opt_label opt)) Map.empty opts"

definition placeholder :: element where
  "placeholder = PlaceholderEl ''Linie ausw&auml;hlen''"

text \<open>Lines 46--48: \<^verbatim>\<open>(value && optionMap[value]) || <Input.Placeholder>\<close>; the empty
  string is falsy, an element is truthy.\<close>

definition combobox_display :: "combo_option list \<Rightarrow> string option \<Rightarrow> element" where
  "combobox_display opts value =
     (case value of
        None \<Rightarrow> placeholder
      | Some v \<Rightarrow> if v = [] then placeholder
                  else (case optionMap opts v of None \<Rightarrow> placeholder | Some el \<Rightarrow> el))"

text \<open>Lines 32--35 and 54--58: the values the dropdown offers and may submit to \<^verbatim>\<open>onSelect\<close>.\<close>

definition submittable :: "combo_option list \<Rightarrow> string list" where
  "submittable opts = map opt_value opts"

text \<open>Two lines of one dataset whose keys coincide: line 1 from \<^verbatim>\<open>1A\<close> and line 11 from \<^verbatim>\<open>A\<close>.\<close>

definition line_1_1A :: transport_line where
  "line_1_1A = \<lparr>line_number = 1, line_from = ''1A'', line_to = ''B'',
     line_geometry = LineString [(0, 0), (1, 0)], line_stations = []\<rparr>"

definition line_11_A :: transport_line where
  "line_11_A = \<lparr>line_number = 11, line_from = ''A'', line_to = ''B'',
     line_geometry = LineString [(5, 5), (6, 5)], line_stations = []\<rparr>"

definition colliding_data :: transport_data where
  "colliding_data = \<lparr>stations = [], lines = [line_1_1A, line_11_A]\<rparr>"

subsection \<open>Lemmas\<close>

lemma optionMap_map_of: "optionMap opts = map_of (rev (map (\<lambda>x. (opt_value x, opt_label x)) opts))"
proof -
  have "\<And>m. foldl (\<lambda>obj opt. obj(opt_value opt \<mapsto> opt_label opt)) m opts =
      m ++ map_of (rev (map (\<lambda>x. (opt_value x, opt_label x)) opts))"
    by (induction opts) (simp_all add: map_add_def fun_eq_iff split: option.split)
  then show ?thesis by (simp add: optionMap_def)
qed

lemma submittable_options [simp]: "submittable (options d) = map transportLineId (lines d)"
  by (simp add: submittable_def options_def comp_def)

lemma map_of_rev_map_filter:
  "map_of (rev (map (\<lambda>l. (f l, g l)) ls)) k =
     (if filter (\<lambda>l. f l = k) ls = [] then None else Some (g (last (filter (\<lambda>l. f l = k) ls))))"
  by (induction ls rule: rev_induct) auto

lemma transportLineId_hd: "hd (transportLineId l) \<in> set ''-0123456789''"
proof -
  have "\<And>n. hd (digit_string n) \<in> set ''0123456789''"
    using digit_string_digits digit_string_nonempty by (metis hd_in_set is_digit_def)
  then show ?thesis
    by (auto simp: transportLineId_def js_number_to_string_def)
qed

lemma matching_lines_Nil_key [simp]: "matching_lines [] d = []"
  by (simp add: matching_lines_def filter_empty_conv)

text \<open>
  C14. The combobox shows, for a selected key, the label of the last line of the data with
  that key, and the placeholder when no line has it.
\<close>

theorem combobox_display_selected:
  "combobox_display (options d) (Some k) =
     (if matching_lines k d = [] then placeholder else TransportLineLabel (last (matching_lines k d)))"
  by (simp add: combobox_display_def optionMap_map_of options_def comp_def map_of_rev_map_filter
      matching_lines_def)

text \<open>
  Line keys are not unique within a dataset: line 1 from 1A to B and line 11 from A to B
  both have the key 11AB, so choosing either option highlights both lines and the combobox
  shows the label of line 11.
\<close>

lemma line_key_collision:
  "line_1_1A \<noteq> line_11_A \<and> transportLineId line_1_1A = transportLineId line_11_A \<and>
   matching_lines (transportLineId line_1_1A) colliding_data = [line_1_1A, line_11_A] \<and>
   combobox_display (options colliding_data) (Some (transportLineId line_1_1A)) = TransportLineLabel line_11_A"
  by (simp add: line_1_1A_def line_11_A_def colliding_data_def transportLineId_def js_number_to_string_def
      digit_string.simps matching_lines_def combobox_display_def optionMap_def options_def)

end
