(* ===== verification/Controller.thy ===== *)
theory Controller
  imports Combobox
begin

text \<open>
  The reactive glue: the hook \<^verbatim>\<open>useTransportMap\<close> (\<^verbatim>\<open>transport-map.ts\<close>, lines
  212--246), the hook \<^verbatim>\<open>useTransportData\<close> (\<^verbatim>\<open>transport-data.ts\<close>, lines 45--61)
  and the component \<^verbatim>\<open>TransportMap\<close> that calls them (\<^verbatim>\<open>TransportMap.tsx\<close>), run
  under React's rules for function components, which are library behaviour modelled
  from their documentation:
  \<^item> a render reads the state and the ref \<^verbatim>\<open>mapContainer.current\<close> as they are; React
    attaches the ref to the \<^verbatim>\<open>div\<close> during the commit that follows, after the render;
  \<^item> after the commit, the passive effects whose dependency arrays changed (compared
    with \<^verbatim>\<open>Object.is\<close>, here HOL equality) run: first the cleanups of those effects,
    then their bodies, in the order the hooks are called (the fetch effect, then the
    three effects of \<^verbatim>\<open>useTransportMap\<close>), each body seeing the values of the render;
  \<^item> \<^verbatim>\<open>setState\<close> with a different value schedules a re-render, with the same value
    (\<^verbatim>\<open>setLayersAdded(true)\<close> a second time) it does nothing; the loop render, commit,
    effects stops when no update is pending (\<open>settle\<close>, whose termination is proved);
  \<^item> an exception thrown by an effect body is uncaught (there is no error boundary): the
    run stops in a crashed state.
  Dependency values are compared with HOL equality; in this program each one (the data,
  the map object, the container) is set once, so this is \<^verbatim>\<open>Object.is\<close> on the
  references. The environment's events are the component's mount and unmount, the
  arrival of the fetched data or the rejection of the fetch, the \<^verbatim>\<open>load\<close> event of a
  map and a choice in the combobox.
\<close>

record config =
  cfg_style :: string
  cfg_center :: position
  cfg_style_sources :: "string \<rightharpoonup> source"
  cfg_div :: nat

text \<open>
  The state of the component: its \<^verbatim>\<open>useState\<close> cells, its ref, and what React
  remembers of each effect (the dependency values of its last run, \<open>None\<close> before the
  first, and the cleanup the container effect returned).
\<close>

record ui =
  ui_mounted :: bool
  ui_selected :: "string option"
  ui_ref :: "nat option"
  ui_data :: "transport_data option"
  ui_fetch_ran :: bool
  ui_map :: "nat option"
  ui_layersAdded :: bool
  ui_init_deps :: "nat option option"
  ui_init_cleanup :: "nat option"
  ui_layers_deps :: "(transport_data option \<times> nat option) option"
  ui_select_deps :: "(nat option \<times> bool \<times> transport_data option \<times> string option) option"

datatype fetch_state = FetchIdle | FetchPending | FetchDone | FetchFailed

record sys =
  s_ui :: ui
  s_world :: world
  s_fetch :: fetch_state
  s_crashed :: "js_error option"

subsection \<open>Calling a method of a TransportMap\<close>

text \<open>A method call on map \<open>i\<close>; an exception crashes the run, a crashed run does nothing.\<close>

definition world_call :: "nat \<Rightarrow> (engine \<Rightarrow> js_error + engine) \<Rightarrow> sys \<Rightarrow> sys" where
  "world_call i f s =
     (if s_crashed s \<noteq> None then s
      else case w_maps (s_world s) i of
        None \<Rightarrow> s
      | Some e \<Rightarrow>
          (case f e of
             Inl err \<Rightarrow> s\<lparr>s_crashed := Some err\<rparr>
           | Inr e' \<Rightarrow> s\<lparr>s_world := (s_world s)\<lparr>w_maps := (w_maps (s_world s))(i \<mapsto> e')\<rparr>\<rparr>))"

subsection \<open>The effects, given the render's values \<open>r\<close>\<close>

text \<open>\<^verbatim>\<open>transport-data.ts\<close> lines 53--59: dependencies \<^verbatim>\<open>[]\<close>, so it runs once; it starts the fetch.\<close>

definition fetch_effect :: "ui \<Rightarrow> sys \<Rightarrow> sys" where
  "fetch_effect r s =
     (if ui_fetch_ran r then s
      else s\<lparr>s_ui := (s_ui s)\<lparr>ui_fetch_ran := True\<rparr>, s_fetch := FetchPending\<rparr>)"

definition init_changed :: "ui \<Rightarrow> bool" where
  "init_changed r \<longleftrightarrow> ui_init_deps r \<noteq> Some (ui_ref r)"

text \<open>Lines 226--228: the cleanup of the container effect, \<^verbatim>\<open>theMap.destruct()\<close>.\<close>

definition init_cleanup :: "ui \<Rightarrow> sys \<Rightarrow> sys" where
  "init_cleanup r s =
     (if init_changed r \<and> ui_init_cleanup (s_ui s) \<noteq> None
      then s\<lparr>s_world := destruct (s_world s), s_ui := (s_ui s)\<lparr>ui_init_cleanup := None\<rparr>\<rparr>
      else s)"

text \<open>Lines 223--230: a non-null container gets a new \<^verbatim>\<open>TransportMap\<close> with \<^verbatim>\<open>setMap\<close> as \<^verbatim>\<open>onLoad\<close>.\<close>

definition init_effect :: "config \<Rightarrow> ui \<Rightarrow> sys \<Rightarrow> sys" where
  "init_effect cfg r s =
     (if \<not> init_changed r then s
      else case ui_ref r of
        None \<Rightarrow> s\<lparr>s_ui := (s_ui s)\<lparr>ui_init_deps := Some None, ui_init_cleanup := None\<rparr>\<rparr>
      | Some c \<Rightarrow>
          (case TransportMap_new (cfg_style cfg) (cfg_center cfg) c (s_world s) of
             (i, w') \<Rightarrow> s\<lparr>s_world := w',
                           s_ui := (s_ui s)\<lparr>ui_init_deps := Some (Some c), ui_init_cleanup := Some i\<rparr>\<rparr>))"

text \<open>
  Lines 233--238: with a map and data, \<^verbatim>\<open>addTransportLayers\<close>, then
  \<^verbatim>\<open>setLayersAdded(true)\<close> (the flag returned says whether that update was issued).
\<close>

definition layers_effect :: "ui \<Rightarrow> sys \<Rightarrow> sys \<times> bool" where
  "layers_effect r s =
     (if ui_layers_deps r = Some (ui_data r, ui_map r) then (s, False)
      else
        let s1 = s\<lparr>s_ui := (s_ui s)\<lparr>ui_layers_deps := Some (ui_data r, ui_map r)\<rparr>\<rparr>
        in case (ui_map r, ui_data r) of
             (Some m, Some d) \<Rightarrow>
               (let s2 = world_call m (addTransportLayers d) s1 in (s2, s_crashed s2 = None))
           | _ \<Rightarrow> (s1, False))"

text \<open>Lines 241--245: with a map, data, the layers flag and a non-empty selection.\<close>

definition select_effect :: "ui \<Rightarrow> sys \<Rightarrow> sys" where
  "select_effect r s =
     (let deps = (ui_map r, ui_layersAdded r, ui_data r, ui_selected r) in
      if ui_select_deps r = Some deps then s
      else
        let s1 = s\<lparr>s_ui := (s_ui s)\<lparr>ui_select_deps := Some deps\<rparr>\<rparr>
        in case (ui_map r, ui_data r, ui_selected r) of
             (Some m, Some d, Some k) \<Rightarrow>
               if ui_layersAdded r \<and> k \<noteq> [] then world_call m (setSelectedLine k d) s1 else s1
           | _ \<Rightarrow> s1)"

subsection \<open>Commit and the update loop\<close>

text \<open>
  One commit of the component after a render of state \<open>s\<close>: attach the ref, run the
  changed effects, apply \<^verbatim>\<open>setLayersAdded\<close>; the flag says whether a re-render is due.
\<close>

definition commit :: "config \<Rightarrow> sys \<Rightarrow> sys \<times> bool" where
  "commit cfg s =
     (let r = s_ui s;
          s0 = s\<lparr>s_ui := (s_ui s)\<lparr>ui_ref := Some (cfg_div cfg)\<rparr>\<rparr>;
          s1 = init_cleanup r s0;
          s2 = fetch_effect r s1;
          s3 = init_effect cfg r s2
      in case layers_effect r s3 of
           (s4, q) \<Rightarrow>
             (let s5 = select_effect r s4
              in if s_crashed s5 \<noteq> None then (s5, False)
                 else (s5\<lparr>s_ui := (s_ui s5)\<lparr>ui_layersAdded := ui_layersAdded r \<or> q\<rparr>\<rparr>,
                       q \<and> \<not> ui_layersAdded r)))"

function settle :: "config \<Rightarrow> sys \<Rightarrow> sys" where
  "settle cfg s = (case commit cfg s of (s', again) \<Rightarrow> if again then settle cfg s' else s')"
  by pat_completeness auto
termination
  by (relation "measure (\<lambda>(cfg, s). if ui_layersAdded (s_ui s) then 0 else 1)")
     (auto simp: commit_def Let_def split: prod.splits if_splits)

declare settle.simps [simp del]

subsection \<open>Events\<close>

datatype event = Mount | FetchResolved transport_data | FetchRejected | MapLoad nat | Select string | Unmount

definition init_ui :: ui where
  "init_ui = \<lparr>ui_mounted = False, ui_selected = None, ui_ref = None, ui_data = None,
     ui_fetch_ran = False, ui_map = None, ui_layersAdded = False, ui_init_deps = None,
     ui_init_cleanup = None, ui_layers_deps = None, ui_select_deps = None\<rparr>"

definition init_sys :: sys where
  "init_sys = \<lparr>s_ui = init_ui,
     s_world = \<lparr>w_maps = Map.empty, w_protocols = Map.empty, w_next = 0\<rparr>,
     s_fetch = FetchIdle, s_crashed = None\<rparr>"

text \<open>
  One event; \<open>None\<close> when it cannot happen in \<open>s\<close>. The component mounts once; the
  fetch settles once, resolving with the data or rejecting (a network error or a body
  that is not JSON: the rejection of the async function is unhandled, nothing in the
  component reacts to it, spec section 7); a map fires \<^verbatim>\<open>load\<close> once, and its handler calls
  \<^verbatim>\<open>setMap\<close>, ignored once the component is gone; the combobox offers the keys of
  the lines (\<^verbatim>\<open>TransportMap.tsx\<close> lines 43--52, theory \<open>Combobox\<close>), is rendered
  only once the data is there, and its \<^verbatim>\<open>onSelect\<close> is the state setter \<^verbatim>\<open>setSelectedLine\<close> of the component.
\<close>

fun step :: "config \<Rightarrow> sys \<Rightarrow> event \<Rightarrow> sys option" where
  "step cfg s Mount =
     (if ui_mounted (s_ui s) \<or> ui_fetch_ran (s_ui s) then None
      else Some (settle cfg (s\<lparr>s_ui := (s_ui s)\<lparr>ui_mounted := True\<rparr>\<rparr>)))"
| "step cfg s (FetchResolved d) =
     (if s_fetch s \<noteq> FetchPending then None
      else
        let s1 = s\<lparr>s_fetch := FetchDone\<rparr>
        in Some (if ui_mounted (s_ui s) \<and> s_crashed s = None
                 then settle cfg (s1\<lparr>s_ui := (s_ui s1)\<lparr>ui_data := Some d\<rparr>\<rparr>) else s1))"
| "step cfg s FetchRejected =
     (if s_fetch s \<noteq> FetchPending then None else Some (s\<lparr>s_fetch := FetchFailed\<rparr>))"
| "step cfg s (MapLoad i) =
     (case w_maps (s_world s) i of
        None \<Rightarrow> None
      | Some e \<Rightarrow>
          if eng_loaded e then None
          else
            let s1 = s\<lparr>s_world := (s_world s)\<lparr>w_maps := (w_maps (s_world s))
                       (i \<mapsto> TransportMap_on_load (style_loaded (cfg_style_sources cfg) e))\<rparr>\<rparr>
            in Some (if ui_mounted (s_ui s) \<and> s_crashed s = None \<and> ui_map (s_ui s) \<noteq> Some i
                     then settle cfg (s1\<lparr>s_ui := (s_ui s1)\<lparr>ui_map := Some i\<rparr>\<rparr>) else s1))"
| "step cfg s (Select k) =
     (if \<not> ui_mounted (s_ui s) \<or> s_crashed s \<noteq> None then None
      else case ui_data (s_ui s) of
        None \<Rightarrow> None
      | Some d \<Rightarrow>
          if k \<notin> set (submittable (options d)) then None
          else if ui_selected (s_ui s) = Some k then Some s
          else Some (settle cfg (s\<lparr>s_ui := (s_ui s)\<lparr>ui_selected := Some k\<rparr>\<rparr>)))"
| "step cfg s Unmount =
     (if \<not> ui_mounted (s_ui s) \<or> s_crashed s \<noteq> None then None
      else
        let s1 = (if ui_init_cleanup (s_ui s) \<noteq> None then s\<lparr>s_world := destruct (s_world s)\<rparr> else s)
        in Some (s1\<lparr>s_ui := (s_ui s1)\<lparr>ui_mounted := False\<rparr>\<rparr>))"

fun run :: "config \<Rightarrow> sys \<Rightarrow> event list \<Rightarrow> sys option" where
  "run cfg s [] = Some s"
| "run cfg s (e # es) = (case step cfg s e of None \<Rightarrow> None | Some s' \<Rightarrow> run cfg s' es)"

inductive reachable :: "config \<Rightarrow> sys \<Rightarrow> bool" for cfg :: config where
  init: "reachable cfg init_sys"
| step: "reachable cfg s \<Longrightarrow> step cfg s e = Some s' \<Longrightarrow> reachable cfg s'"

subsection \<open>The update loop and method calls\<close>

lemma settle_commit_False: "commit cfg s = (s', False) \<Longrightarrow> settle cfg s = s'"
  by (subst settle.simps) simp

lemma settle_commit_True: "commit cfg s = (s', True) \<Longrightarrow> settle cfg s = settle cfg s'"
  by (subst settle.simps) simp

lemma settle_no_rerender: "snd (commit cfg s) = False \<Longrightarrow> settle cfg s = fst (commit cfg s)"
  by (cases "commit cfg s") (simp add: settle_commit_False)

lemma world_call_Inr:
  "s_crashed s = None \<Longrightarrow> w_maps (s_world s) i = Some e \<Longrightarrow> f e = Inr e' \<Longrightarrow>
   world_call i f s = s\<lparr>s_world := (s_world s)\<lparr>w_maps := (w_maps (s_world s))(i \<mapsto> e')\<rparr>\<rparr>"
  by (simp add: world_call_def)

end
