(* ===== verification/ControllerInvariant.thy ===== *)
theory ControllerInvariant
  imports Controller
begin

text \<open>
  The invariant of the component state machine of theory \<open>Controller\<close> and its
  preservation by every event, proved one event at a time; a Mount commits once, the
  arrival of the data commits once and constructs the map, the map's load commits twice
  (\<^verbatim>\<open>addTransportLayers\<close>, then \<^verbatim>\<open>setLayersAdded(true)\<close> re-renders and the
  selection effect runs), a selection commits once. Its conjuncts cover the crash flag,
  the single map, the effect dependency arrays, the layer stack of a loaded map, the
  \<^verbatim>\<open>pmtiles\<close> protocol pairing and the failed fetch. The result,
  \<open>reachable_sys_inv\<close>, is used by the safety properties of the root theory. The later
  sections add frame lemmas for the part of the state the view reads, the one-event
  lemmas for a selection and for the load, both orders of the two events, and the
  persistence of a failed fetch over any run of events.
\<close>

text \<open>The names of the sources \<^verbatim>\<open>addTransportLayers\<close> adds (\<^verbatim>\<open>transport-map.ts\<close> lines 138--153).\<close>

definition our_sources :: "string list" where
  "our_sources = [''transport'', ''transport-selected'', ''stations'', ''station-centroids'']"

text \<open>The map style does not itself define a source with one of those names (the one assumption on the environment the invariant needs: the spec, section 6, leaves the style opaque).\<close>

definition style_compatible :: "config \<Rightarrow> bool" where
  "style_compatible cfg \<longleftrightarrow> (\<forall>nm \<in> set our_sources. cfg_style_sources cfg nm = None)"

text \<open>A map ready for \<^verbatim>\<open>setSelectedLine\<close>: loaded, with a GeoJSON \<^verbatim>\<open>transport-selected\<close>
  source and exactly the three layers of one \<^verbatim>\<open>addTransportLayers\<close>.\<close>

definition provisioned :: "engine \<Rightarrow> bool" where
  "provisioned e \<longleftrightarrow> eng_loaded e \<and>
     (\<exists>src. eng_sources e ''transport-selected'' = Some src \<and> src_kind src = GeoJSONSource) \<and>
     eng_layers e = [transport_layer, selected_layer, labels_layer]"

text \<open>
  The map shows the selection of key \<open>k\<close> on data \<open>d\<close>: the selected source holds
  the features of the lines with that key and the viewport is their bounding box.
\<close>

definition highlighted :: "string \<Rightarrow> transport_data \<Rightarrow> engine \<Rightarrow> bool" where
  "highlighted k d e \<longleftrightarrow>
     (\<exists>src. eng_sources e ''transport-selected'' = Some src \<and> src_kind src = GeoJSONSource \<and>
        src_data src = map line_feature (matching_lines k d)) \<and>
     viewport e = Some (turf_bbox (map line_feature (matching_lines k d)), selection_padding)"

text \<open>A map as \<^verbatim>\<open>new Map\<close> leaves it until its style has loaded.\<close>

definition fresh_map :: "engine \<Rightarrow> bool" where
  "fresh_map e \<longleftrightarrow> \<not> eng_loaded e \<and> eng_sources e = Map.empty \<and> eng_layers e = [] \<and> eng_fits e = []"

text \<open>The component state with the dependencies of the selection effect brought up to date.\<close>

definition settled_select :: "ui \<Rightarrow> ui" where
  "settled_select u =
     u\<lparr>ui_select_deps := Some (ui_map u, ui_layersAdded u, ui_data u, ui_selected u)\<rparr>"

text \<open>The part of the component state that commits leave alone: mounted, map, data, selection.\<close>

definition ui_core :: "ui \<Rightarrow> bool \<times> nat option \<times> transport_data option \<times> string option" where
  "ui_core u = (ui_mounted u, ui_map u, ui_data u, ui_selected u)"

text \<open>The selected key is one of the keys the combobox offers for the fetched data.\<close>

definition selection_offered :: "ui \<Rightarrow> bool" where
  "selection_offered u \<longleftrightarrow>
     (case ui_selected u of None \<Rightarrow> True
      | Some k \<Rightarrow> \<exists>d. ui_data u = Some d \<and> k \<in> transportLineId ` set (lines d))"

text \<open>The invariant of the reachable states. In words: nothing has crashed; the
  component constructs at most one \<^verbatim>\<open>TransportMap\<close> (number 0), and only once the fetched
  data is there; \<^verbatim>\<open>map\<close> is set only to that map after its \<^verbatim>\<open>load\<close>; before its
  load the map is untouched; while the component is mounted the ref is attached, the
  remembered dependency arrays are those of the last render, and a loaded map carries
  the program's layers, \<^verbatim>\<open>layersAdded\<close> being true.\<close>

definition sys_inv :: "config \<Rightarrow> sys \<Rightarrow> bool" where
  "sys_inv cfg s \<longleftrightarrow>
     s_crashed s = None \<and>
     dom (w_maps (s_world s)) \<subseteq> {0} \<and>
     (w_maps (s_world s) 0 = None \<longleftrightarrow> w_next (s_world s) = 0) \<and>
     w_next (s_world s) \<le> 1 \<and>
     (s_fetch s = FetchIdle \<longleftrightarrow> \<not> ui_fetch_ran (s_ui s)) \<and>
     (ui_fetch_ran (s_ui s) \<or> s = init_sys) \<and>
     (s_fetch s = FetchPending \<longrightarrow> ui_data (s_ui s) = None) \<and>
     (w_maps (s_world s) 0 \<noteq> None \<longrightarrow> ui_data (s_ui s) \<noteq> None) \<and>
     (ui_layersAdded (s_ui s) \<longrightarrow> ui_map (s_ui s) = Some 0) \<and>
     ((case ui_map (s_ui s) of None \<Rightarrow> True
      | Some i \<Rightarrow> i = 0 \<and> (case w_maps (s_world s) 0 of None \<Rightarrow> False | Some e \<Rightarrow> eng_loaded e))) \<and>
     (case w_maps (s_world s) 0 of None \<Rightarrow> True
      | Some e \<Rightarrow> \<not> eng_loaded e \<longrightarrow> fresh_map e \<and> ui_map (s_ui s) = None) \<and>
     (ui_mounted (s_ui s) \<longrightarrow> ui_fetch_ran (s_ui s) \<and> ui_ref (s_ui s) = Some (cfg_div cfg)) \<and>
     (ui_mounted (s_ui s) \<longrightarrow> ui_data (s_ui s) \<noteq> None \<longrightarrow> w_maps (s_world s) 0 \<noteq> None) \<and>
     (ui_mounted (s_ui s) \<longrightarrow>
        ui_init_deps (s_ui s) = Some (if w_maps (s_world s) 0 = None then None else Some (cfg_div cfg)) \<and>
        ui_init_cleanup (s_ui s) = (if w_maps (s_world s) 0 = None then None else Some 0)) \<and>
     (ui_mounted (s_ui s) \<longrightarrow>
        ui_layers_deps (s_ui s) = Some (ui_data (s_ui s), ui_map (s_ui s)) \<and>
        ui_select_deps (s_ui s) =
          Some (ui_map (s_ui s), ui_layersAdded (s_ui s), ui_data (s_ui s), ui_selected (s_ui s))) \<and>
     (ui_mounted (s_ui s) \<longrightarrow> (case w_maps (s_world s) 0 of None \<Rightarrow> True
      | Some e \<Rightarrow> eng_loaded e \<longrightarrow> ui_map (s_ui s) = Some 0 \<and> ui_layersAdded (s_ui s) \<and> provisioned e)) \<and>
     w_protocols (s_world s) ''pmtiles'' =
       (if ui_mounted (s_ui s) \<and> w_maps (s_world s) 0 \<noteq> None then Some 0 else None) \<and>
     (s_fetch s = FetchFailed \<longrightarrow> ui_data (s_ui s) = None)"

subsection \<open>Introduction and projection rules\<close>

text \<open>The invariant is a flat conjunction; these two rules let each case prove and use single conjuncts.\<close>

lemma sys_invI:
  assumes "s_crashed s = None"
    "dom (w_maps (s_world s)) \<subseteq> {0}"
    "w_maps (s_world s) 0 = None \<longleftrightarrow> w_next (s_world s) = 0"
    "w_next (s_world s) \<le> 1"
    "s_fetch s = FetchIdle \<longleftrightarrow> \<not> ui_fetch_ran (s_ui s)"
    "ui_fetch_ran (s_ui s) \<or> s = init_sys"
    "s_fetch s = FetchPending \<longrightarrow> ui_data (s_ui s) = None"
    "w_maps (s_world s) 0 \<noteq> None \<longrightarrow> ui_data (s_ui s) \<noteq> None"
    "ui_layersAdded (s_ui s) \<longrightarrow> ui_map (s_ui s) = Some 0"
    "(case ui_map (s_ui s) of None \<Rightarrow> True
      | Some i \<Rightarrow> i = 0 \<and> (case w_maps (s_world s) 0 of None \<Rightarrow> False | Some e \<Rightarrow> eng_loaded e))"
    "case w_maps (s_world s) 0 of None \<Rightarrow> True
      | Some e \<Rightarrow> \<not> eng_loaded e \<longrightarrow> fresh_map e \<and> ui_map (s_ui s) = None"
    "ui_mounted (s_ui s) \<longrightarrow> ui_fetch_ran (s_ui s) \<and> ui_ref (s_ui s) = Some (cfg_div cfg)"
    "ui_mounted (s_ui s) \<longrightarrow> ui_data (s_ui s) \<noteq> None \<longrightarrow> w_maps (s_world s) 0 \<noteq> None"
    "ui_mounted (s_ui s) \<longrightarrow>
        ui_init_deps (s_ui s) = Some (if w_maps (s_world s) 0 = None then None else Some (cfg_div cfg)) \<and>
        ui_init_cleanup (s_ui s) = (if w_maps (s_world s) 0 = None then None else Some 0)"
    "ui_mounted (s_ui s) \<longrightarrow>
        ui_layers_deps (s_ui s) = Some (ui_data (s_ui s), ui_map (s_ui s)) \<and>
        ui_select_deps (s_ui s) =
          Some (ui_map (s_ui s), ui_layersAdded (s_ui s), ui_data (s_ui s), ui_selected (s_ui s))"
    "ui_mounted (s_ui s) \<longrightarrow> (case w_maps (s_world s) 0 of None \<Rightarrow> True
      | Some e \<Rightarrow> eng_loaded e \<longrightarrow> ui_map (s_ui s) = Some 0 \<and> ui_layersAdded (s_ui s) \<and> provisioned e)"
    "w_protocols (s_world s) ''pmtiles'' =
       (if ui_mounted (s_ui s) \<and> w_maps (s_world s) 0 \<noteq> None then Some 0 else None)"
    "s_fetch s = FetchFailed \<longrightarrow> ui_data (s_ui s) = None"
  shows "sys_inv cfg s"
  unfolding sys_inv_def using assms by (intro conjI) assumption+

lemma sys_invD:
  "sys_inv cfg s \<Longrightarrow> s_crashed s = None"
    "sys_inv cfg s \<Longrightarrow> dom (w_maps (s_world s)) \<subseteq> {0}"
    "sys_inv cfg s \<Longrightarrow> w_maps (s_world s) 0 = None \<longleftrightarrow> w_next (s_world s) = 0"
    "sys_inv cfg s \<Longrightarrow> w_next (s_world s) \<le> 1"
    "sys_inv cfg s \<Longrightarrow> s_fetch s = FetchIdle \<longleftrightarrow> \<not> ui_fetch_ran (s_ui s)"
    "sys_inv cfg s \<Longrightarrow> ui_fetch_ran (s_ui s) \<or> s = init_sys"
    "sys_inv cfg s \<Longrightarrow> s_fetch s = FetchPending \<longrightarrow> ui_data (s_ui s) = None"
    "sys_inv cfg s \<Longrightarrow> w_maps (s_world s) 0 \<noteq> None \<longrightarrow> ui_data (s_ui s) \<noteq> None"
    "sys_inv cfg s \<Longrightarrow> ui_layersAdded (s_ui s) \<longrightarrow> ui_map (s_ui s) = Some 0"
    "sys_inv cfg s \<Longrightarrow> (case ui_map (s_ui s) of None \<Rightarrow> True
      | Some i \<Rightarrow> i = 0 \<and> (case w_maps (s_world s) 0 of None \<Rightarrow> False | Some e \<Rightarrow> eng_loaded e))"
    "sys_inv cfg s \<Longrightarrow> case w_maps (s_world s) 0 of None \<Rightarrow> True
      | Some e \<Rightarrow> \<not> eng_loaded e \<longrightarrow> fresh_map e \<and> ui_map (s_ui s) = None"
    "sys_inv cfg s \<Longrightarrow> ui_mounted (s_ui s) \<longrightarrow> ui_fetch_ran (s_ui s) \<and> ui_ref (s_ui s) = Some (cfg_div cfg)"
    "sys_inv cfg s \<Longrightarrow> ui_mounted (s_ui s) \<longrightarrow> ui_data (s_ui s) \<noteq> None \<longrightarrow> w_maps (s_world s) 0 \<noteq> None"
    "sys_inv cfg s \<Longrightarrow> ui_mounted (s_ui s) \<longrightarrow>
        ui_init_deps (s_ui s) = Some (if w_maps (s_world s) 0 = None then None else Some (cfg_div cfg)) \<and>
        ui_init_cleanup (s_ui s) = (if w_maps (s_world s) 0 = None then None else Some 0)"
    "sys_inv cfg s \<Longrightarrow> ui_mounted (s_ui s) \<longrightarrow>
        ui_layers_deps (s_ui s) = Some (ui_data (s_ui s), ui_map (s_ui s)) \<and>
        ui_select_deps (s_ui s) =
          Some (ui_map (s_ui s), ui_layersAdded (s_ui s), ui_data (s_ui s), ui_selected (s_ui s))"
    "sys_inv cfg s \<Longrightarrow> ui_mounted (s_ui s) \<longrightarrow> (case w_maps (s_world s) 0 of None \<Rightarrow> True
      | Some e \<Rightarrow> eng_loaded e \<longrightarrow> ui_map (s_ui s) = Some 0 \<and> ui_layersAdded (s_ui s) \<and> provisioned e)"
    "sys_inv cfg s \<Longrightarrow> w_protocols (s_world s) ''pmtiles'' =
       (if ui_mounted (s_ui s) \<and> w_maps (s_world s) 0 \<noteq> None then Some 0 else None)"
    "sys_inv cfg s \<Longrightarrow> s_fetch s = FetchFailed \<longrightarrow> ui_data (s_ui s) = None"
  unfolding sys_inv_def by (elim conjE, assumption)+

lemma init_sys_fields [simp]:
  "s_ui init_sys = init_ui" "ui_mounted init_ui = False" "ui_fetch_ran init_ui = False"
  by (simp_all add: init_sys_def init_ui_def)

lemma sys_inv_init: "sys_inv cfg init_sys"
  by (intro sys_invI) (simp_all add: init_sys_def init_ui_def)

lemmas phase_defs = commit_def init_cleanup_def fetch_effect_def init_changed_def init_effect_def
  layers_effect_def select_effect_def

subsection \<open>Mount\<close>

text \<open>The first commit runs the fetch effect and the container effect with a null container: no map is constructed.\<close>

lemma mount_commit:
  "commit cfg (init_sys\<lparr>s_ui := init_ui\<lparr>ui_mounted := True\<rparr>\<rparr>) =
     (init_sys\<lparr>s_ui := init_ui\<lparr>ui_mounted := True, ui_ref := Some (cfg_div cfg), ui_fetch_ran := True,
        ui_init_deps := Some None, ui_layers_deps := Some (None, None),
        ui_select_deps := Some (None, False, None, None)\<rparr>, s_fetch := FetchPending\<rparr>, False)"
  by (simp add: phase_defs init_sys_def init_ui_def Let_def)

lemma step_Mount_init:
  "step cfg init_sys Mount =
     Some (init_sys\<lparr>s_ui := init_ui\<lparr>ui_mounted := True, ui_ref := Some (cfg_div cfg), ui_fetch_ran := True,
        ui_init_deps := Some None, ui_layers_deps := Some (None, None),
        ui_select_deps := Some (None, False, None, None)\<rparr>, s_fetch := FetchPending\<rparr>)"
  using settle_commit_False [OF mount_commit] by (simp add: init_sys_def init_ui_def)

lemma sys_inv_mount: "sys_inv cfg s \<Longrightarrow> step cfg s Mount = Some s' \<Longrightarrow> sys_inv cfg s'"
proof -
  assume inv: "sys_inv cfg s" and st: "step cfg s Mount = Some s'"
  then have s: "s = init_sys" using sys_invD(6) [OF inv] by (auto split: if_splits)
  show ?thesis
    using st step_Mount_init [of cfg] unfolding s
    by (intro sys_invI) (auto simp: init_sys_def init_ui_def)
qed

subsection \<open>The data arrives\<close>

lemma new_map_fresh: "fresh_map (new_map style center c z coop a)"
  and new_map_unloaded: "\<not> eng_loaded (new_map style center c z coop a)"
  by (simp_all add: fresh_map_def new_map_def)

lemma commit_fetch:
  fixes d :: transport_data
  assumes inv: "sys_inv cfg s" and m: "ui_mounted (s_ui s)" and p: "s_fetch s = FetchPending"
  defines "sf \<equiv> s\<lparr>s_fetch := FetchDone, s_ui := (s_ui s)\<lparr>ui_data := Some d\<rparr>\<rparr>"
  shows "snd (commit cfg sf) = False \<and> sys_inv cfg (fst (commit cfg sf))"
proof -
  note I = sys_invD [OF inv]
  have f: "ui_data (s_ui s) = None" "w_maps (s_world s) 0 = None" "w_next (s_world s) = 0"
      "ui_map (s_ui s) = None" "\<not> ui_layersAdded (s_ui s)" "ui_fetch_ran (s_ui s)"
      "ui_ref (s_ui s) = Some (cfg_div cfg)" "ui_init_deps (s_ui s) = Some None"
      "ui_init_cleanup (s_ui s) = None" "ui_layers_deps (s_ui s) = Some (None, None)"
      "ui_select_deps (s_ui s) = Some (None, False, None, ui_selected (s_ui s))"
      "s_crashed s = None"
    using I m p by auto
  have em: "w_maps (s_world s) = Map.empty"
    using I(2) f(2) by (rule dom_sub0_empty)
  have c: "commit cfg sf = (sf\<lparr>
      s_world := (s_world s)\<lparr>w_maps := (w_maps (s_world s))(0 \<mapsto>
         new_map (cfg_style cfg) (cfg_center cfg) (cfg_div cfg) 13 True attribution_html),
         w_protocols := addProtocol (w_protocols (s_world s)) ''pmtiles'' 0, w_next := 1\<rparr>,
      s_ui := (s_ui s)\<lparr>ui_data := Some d, ui_ref := Some (cfg_div cfg), ui_init_deps := Some (Some (cfg_div cfg)),
         ui_init_cleanup := Some 0, ui_layers_deps := Some (Some d, None),
         ui_select_deps := Some (None, False, Some d, ui_selected (s_ui s))\<rparr>\<rparr>, False)"
    using f unfolding sf_def by (simp add: phase_defs Let_def TransportMap_new_def)
  show ?thesis
    unfolding c using f em p m
    by (intro conjI sys_invI) (simp_all add: sf_def new_map_fresh new_map_unloaded addProtocol_def)
qed

subsection \<open>The methods on a prepared map\<close>

lemma addTransportLayers_fresh_Inr:
  assumes "eng_loaded e" "\<forall>nm \<in> set our_sources. eng_sources e nm = None" "eng_layers e = []"
  shows "\<exists>e'. addTransportLayers d e = Inr e' \<and> provisioned e'"
  using assms
  by (simp add: addTransportLayers_unfold addSource_def addLayer_def our_sources_def provisioned_def
      transport_layer_def selected_layer_def labels_layer_def geojson_def)

lemma setSelectedLine_provisioned:
  assumes "provisioned e"
  shows "\<exists>e'. setSelectedLine k d e = Inr e' \<and> provisioned e'"
  using assms
  by (auto simp: setSelectedLine_def select_loop_select_spec select_spec_def provisioned_def Let_def)

lemma setSelectedLine_highlighted:
  "matching_lines k d \<noteq> [] \<Longrightarrow> setSelectedLine k d e = Inr e' \<Longrightarrow> highlighted k d e'"
  using select_spec_Inr_geojson [of k d e e']
  by (auto simp: setSelectedLine_def select_loop_select_spec highlighted_def viewport_def prefix_fits_last)

lemma sys_inv_map_fetch_ran:
  assumes inv: "sys_inv cfg s" and m: "w_maps (s_world s) 0 \<noteq> None"
  shows "ui_fetch_ran (s_ui s)"
proof (rule ccontr)
  assume "\<not> ui_fetch_ran (s_ui s)"
  then have "s = init_sys" using sys_invD(6) [OF inv] by simp
  then show False using m by (simp add: init_sys_def)
qed

lemma sys_inv_replace_engine:
  assumes inv: "sys_inv cfg s" and e0: "w_maps (s_world s) 0 = Some e0" "eng_loaded e0"
    and e1: "provisioned e1"
  shows "sys_inv cfg (s\<lparr>s_world := (s_world s)\<lparr>w_maps := (w_maps (s_world s))(0 \<mapsto> e1)\<rparr>\<rparr>)"
proof -
  note I = sys_invD [OF inv]
  have l1: "eng_loaded e1" using e1 by (simp add: provisioned_def)
  have fr: "ui_fetch_ran (s_ui s)" using sys_inv_map_fetch_ran [OF inv] e0 by simp
  show ?thesis
    using I(1-5,7-18) fr e0 e1 l1
    by (intro sys_invI) (simp_all add: insert_dom split: option.splits)
qed

subsection \<open>Commits that only run the selection effect\<close>

lemma select_effect_layersAdded [simp]:
  "ui_layersAdded (s_ui (select_effect r s)) = ui_layersAdded (s_ui s)"
  by (simp add: select_effect_def world_call_def Let_def split: option.split prod.split sum.split)

lemma ref_settled:
  "ui_ref (s_ui s) = Some c \<Longrightarrow> s\<lparr>s_ui := (s_ui s)\<lparr>ui_ref := Some c\<rparr>\<rparr> = s"
  by (cases s, cases "s_ui s") simp

lemma commit_select_eq:
  assumes "s_crashed s = None" "ui_fetch_ran (s_ui s)" "ui_ref (s_ui s) = Some (cfg_div cfg)"
      "ui_init_deps (s_ui s) = Some (Some (cfg_div cfg))"
      "ui_layers_deps (s_ui s) = Some (ui_data (s_ui s), ui_map (s_ui s))"
  shows "commit cfg s = (select_effect (s_ui s) s, False)"
  using assms
  by (simp add: commit_def init_cleanup_def fetch_effect_def init_changed_def init_effect_def
      layers_effect_def Let_def ref_settled)

lemma select_effect_idle:
  assumes m0: "ui_map (s_ui s) \<noteq> None \<longrightarrow> ui_map (s_ui s) = Some 0"
    and nr: "\<not> (ui_map (s_ui s) = Some 0 \<and> ui_layersAdded (s_ui s) \<and>
           (\<exists>d k. ui_data (s_ui s) = Some d \<and> ui_selected (s_ui s) = Some k \<and> k \<noteq> [] \<and>
              ui_select_deps (s_ui s) \<noteq> Some (Some 0, True, Some d, Some k)))"
  shows "select_effect (s_ui s) s = s\<lparr>s_ui := settled_select (s_ui s)\<rparr>"
proof (cases "ui_select_deps (s_ui s) =
    Some (ui_map (s_ui s), ui_layersAdded (s_ui s), ui_data (s_ui s), ui_selected (s_ui s))")
  case True
  then show ?thesis
    by (cases s, cases "s_ui s") (simp add: select_effect_def settled_select_def)
next
  case False
  define sv where "sv = s\<lparr>s_ui := settled_select (s_ui s)\<rparr>"
  have sv: "sv = s\<lparr>s_ui := (s_ui s)\<lparr>ui_select_deps :=
      Some (ui_map (s_ui s), ui_layersAdded (s_ui s), ui_data (s_ui s), ui_selected (s_ui s))\<rparr>\<rparr>"
    by (simp add: sv_def settled_select_def)
  have se: "select_effect (s_ui s) s =
      (case (ui_map (s_ui s), ui_data (s_ui s), ui_selected (s_ui s)) of
         (Some m, Some d, Some k) \<Rightarrow>
           if ui_layersAdded (s_ui s) \<and> k \<noteq> [] then world_call m (setSelectedLine k d) sv else sv
       | _ \<Rightarrow> sv)"
    using False by (simp add: select_effect_def sv [symmetric] Let_def)
  show ?thesis
  proof (cases "ui_map (s_ui s) = Some 0 \<and> ui_layersAdded (s_ui s) \<and> (\<exists>d k. ui_data (s_ui s) = Some d \<and>
      ui_selected (s_ui s) = Some k \<and> k \<noteq> [])")
    case True
    then show ?thesis using nr False by auto
  next
    case no: False
    show ?thesis
      unfolding se sv_def [symmetric] using no m0 by (auto split: option.split)
  qed
qed

lemma select_effect_runs:
  assumes inv: "sys_inv cfg (s\<lparr>s_ui := settled_select (s_ui s)\<rparr>)" and m: "ui_mounted (s_ui s)"
    and r: "ui_map (s_ui s) = Some 0" "ui_layersAdded (s_ui s)" "ui_data (s_ui s) = Some d"
      "ui_selected (s_ui s) = Some k" "k \<noteq> []"
      "ui_select_deps (s_ui s) \<noteq> Some (Some 0, True, Some d, Some k)"
  shows "\<exists>e0 e1. w_maps (s_world s) 0 = Some e0 \<and> setSelectedLine k d e0 = Inr e1 \<and> provisioned e1 \<and>
     eng_loaded e0 \<and> select_effect (s_ui s) s = (s\<lparr>s_ui := settled_select (s_ui s)\<rparr>)\<lparr>s_world :=
       (s_world s)\<lparr>w_maps := (w_maps (s_world s))(0 \<mapsto> e1)\<rparr>\<rparr>"
proof -
  note I = sys_invD [OF inv]
  obtain e0 where e0: "w_maps (s_world s) 0 = Some e0"
    using I(13) m r(3) by (auto simp: settled_select_def)
  have l0: "eng_loaded e0" using I(10) r(1) e0 by (simp add: settled_select_def)
  have p0: "provisioned e0" using I(16) m l0 e0 by (simp add: settled_select_def)
  obtain e1 where e1: "setSelectedLine k d e0 = Inr e1" "provisioned e1"
    using setSelectedLine_provisioned [OF p0] by blast
  have "select_effect (s_ui s) s = (s\<lparr>s_ui := settled_select (s_ui s)\<rparr>)\<lparr>s_world :=
       (s_world s)\<lparr>w_maps := (w_maps (s_world s))(0 \<mapsto> e1)\<rparr>\<rparr>"
    using r e0 e1(1) I(1)
    by (simp add: select_effect_def settled_select_def Let_def world_call_def)
  then show ?thesis using e0 e1 l0 by blast
qed

lemma commit_settled_select:
  assumes inv: "sys_inv cfg (s\<lparr>s_ui := settled_select (s_ui s)\<rparr>)"
    and m: "ui_mounted (s_ui s)" and d: "ui_data (s_ui s) \<noteq> None"
  shows "commit cfg s = (select_effect (s_ui s) s, False)"
proof -
  note I = sys_invD [OF inv]
  have f: "s_crashed s = None" "ui_fetch_ran (s_ui s)" "ui_ref (s_ui s) = Some (cfg_div cfg)"
      "w_maps (s_world s) 0 \<noteq> None"
    using I(1) I(12) I(13) m d by (simp_all add: settled_select_def)
  have f2: "ui_init_deps (s_ui s) = Some (Some (cfg_div cfg))"
      "ui_layers_deps (s_ui s) = Some (ui_data (s_ui s), ui_map (s_ui s))"
    using I(14) I(15) m f(4) by (simp_all add: settled_select_def)
  show ?thesis
    using f(1-3) f2 by (rule commit_select_eq)
qed

lemma commit_select_only:
  assumes inv: "sys_inv cfg (s\<lparr>s_ui := settled_select (s_ui s)\<rparr>)"
    and m: "ui_mounted (s_ui s)" and d: "ui_data (s_ui s) \<noteq> None"
  shows "snd (commit cfg s) = False \<and> sys_inv cfg (fst (commit cfg s))"
proof -
  note I = sys_invD [OF inv]
  have c: "commit cfg s = (select_effect (s_ui s) s, False)"
    using commit_settled_select [OF inv m d] .
  have map0: "ui_map (s_ui s) \<noteq> None \<longrightarrow> ui_map (s_ui s) = Some 0"
    using I(10) by (auto simp: settled_select_def split: option.splits)
  have "sys_inv cfg (select_effect (s_ui s) s)"
  proof (cases "ui_map (s_ui s) = Some 0 \<and> ui_layersAdded (s_ui s) \<and>
           (\<exists>d k. ui_data (s_ui s) = Some d \<and> ui_selected (s_ui s) = Some k \<and> k \<noteq> [] \<and>
              ui_select_deps (s_ui s) \<noteq> Some (Some 0, True, Some d, Some k))")
    case True
    then obtain e0 e1 where "w_maps (s_world s) 0 = Some e0" "provisioned e1" "eng_loaded e0"
        "select_effect (s_ui s) s = (s\<lparr>s_ui := settled_select (s_ui s)\<rparr>)\<lparr>s_world :=
           (s_world s)\<lparr>w_maps := (w_maps (s_world s))(0 \<mapsto> e1)\<rparr>\<rparr>"
      using select_effect_runs [OF inv m] by blast
    then show ?thesis
      using sys_inv_replace_engine [OF inv, of e0 e1] by simp
  next
    case False
    then show ?thesis using select_effect_idle [OF map0] inv by simp
  qed
  then show ?thesis
    using c by simp
qed

lemma commit_select_highlights:
  assumes inv: "sys_inv cfg (s\<lparr>s_ui := settled_select (s_ui s)\<rparr>)" and m: "ui_mounted (s_ui s)"
    and r: "ui_map (s_ui s) = Some 0" "ui_layersAdded (s_ui s)" "ui_data (s_ui s) = Some d"
      "ui_selected (s_ui s) = Some k" "k \<noteq> []"
      "ui_select_deps (s_ui s) \<noteq> Some (Some 0, True, Some d, Some k)"
    and mt: "matching_lines k d \<noteq> []"
  shows "\<exists>e0 e. w_maps (s_world s) 0 = Some e0 \<and> setSelectedLine k d e0 = Inr e \<and>
     w_maps (s_world (settle cfg s)) 0 = Some e \<and> highlighted k d e"
proof -
  obtain e0 e1 where e: "setSelectedLine k d e0 = Inr e1" "w_maps (s_world s) 0 = Some e0"
      "select_effect (s_ui s) s = (s\<lparr>s_ui := settled_select (s_ui s)\<rparr>)\<lparr>s_world :=
         (s_world s)\<lparr>w_maps := (w_maps (s_world s))(0 \<mapsto> e1)\<rparr>\<rparr>"
    using select_effect_runs [OF inv m r] by blast
  have "settle cfg s = select_effect (s_ui s) s"
    using commit_settled_select [OF inv m] r(3) by (simp add: settle_commit_False)
  then show ?thesis
    using e setSelectedLine_highlighted [OF mt e(1)] by simp
qed

subsection \<open>Selecting a line\<close>

lemma sys_inv_reselect:
  assumes inv: "sys_inv cfg s" and m: "ui_mounted (s_ui s)"
  shows "sys_inv cfg (s\<lparr>s_ui := settled_select ((s_ui s)\<lparr>ui_selected := x\<rparr>)\<rparr>)"
proof -
  note I = sys_invD [OF inv]
  show ?thesis
    using I(1-5,7-18) m
    by (intro sys_invI) (simp_all add: settled_select_def split: option.splits)
qed

lemma sys_inv_select:
  assumes inv: "sys_inv cfg s" and st: "step cfg s (Select k) = Some s'"
  shows "sys_inv cfg s'"
proof (cases "s' = s")
  case True
  then show ?thesis using inv by simp
next
  case False
  define t where "t = s\<lparr>s_ui := (s_ui s)\<lparr>ui_selected := Some k\<rparr>\<rparr>"
  have m: "ui_mounted (s_ui s)" and d: "ui_data (s_ui s) \<noteq> None" and s': "s' = settle cfg t"
    using st False by (auto simp: t_def split: if_splits option.splits)
  have "sys_inv cfg (t\<lparr>s_ui := settled_select (s_ui t)\<rparr>)"
    using sys_inv_reselect [OF inv m, of "Some k"] by (simp add: t_def)
  then have "snd (commit cfg t) = False \<and> sys_inv cfg (fst (commit cfg t))"
    using m d by (intro commit_select_only) (simp_all add: t_def)
  then show ?thesis
    using s' settle_no_rerender by simp
qed

subsection \<open>The load event: two commits\<close>

lemma loaded_engine_ready:
  assumes "fresh_map e" "style_compatible cfg"
  shows "eng_loaded (TransportMap_on_load (style_loaded (cfg_style_sources cfg) e))"
    "\<forall>nm \<in> set our_sources.
       eng_sources (TransportMap_on_load (style_loaded (cfg_style_sources cfg) e)) nm = None"
    "eng_layers (TransportMap_on_load (style_loaded (cfg_style_sources cfg) e)) = []"
  using assms
  by (simp_all add: TransportMap_on_load_def style_loaded_def addControl_def fresh_map_def
      style_compatible_def)

lemma provisioned_loaded: "provisioned e \<Longrightarrow> eng_loaded e"
  by (simp add: provisioned_def)

lemma commit_load:
  assumes inv: "sys_inv cfg s" and m: "ui_mounted (s_ui s)"
    and e: "w_maps (s_world s) 0 = Some e" "\<not> eng_loaded e" and sc: "style_compatible cfg"
  defines "e' \<equiv> TransportMap_on_load (style_loaded (cfg_style_sources cfg) e)"
  defines "t \<equiv> s\<lparr>s_world := (s_world s)\<lparr>w_maps := (w_maps (s_world s))(0 \<mapsto> e')\<rparr>,
                   s_ui := (s_ui s)\<lparr>ui_map := Some 0\<rparr>\<rparr>"
  shows "\<exists>t2. commit cfg t = (t2, True) \<and> sys_inv cfg (t2\<lparr>s_ui := settled_select (s_ui t2)\<rparr>) \<and>
     ui_mounted (s_ui t2) \<and> ui_data (s_ui t2) = ui_data (s_ui s) \<and> ui_data (s_ui s) \<noteq> None \<and>
     ui_map (s_ui t2) = Some 0 \<and> ui_layersAdded (s_ui t2) \<and> ui_selected (s_ui t2) = ui_selected (s_ui s) \<and>
     ui_select_deps (s_ui t2) = Some (Some 0, False, ui_data (s_ui s), ui_selected (s_ui s)) \<and>
     (\<exists>e2. addTransportLayers (the (ui_data (s_ui s))) e' = Inr e2 \<and> w_maps (s_world t2) 0 = Some e2)"
proof -
  note I = sys_invD [OF inv]
  have fe: "fresh_map e" and f: "ui_map (s_ui s) = None" using I(11) e by simp_all
  obtain d where d: "ui_data (s_ui s) = Some d" using I(8) e by auto
  have f2: "s_crashed s = None" "ui_fetch_ran (s_ui s)" "ui_ref (s_ui s) = Some (cfg_div cfg)"
      "\<not> ui_layersAdded (s_ui s)" "ui_init_deps (s_ui s) = Some (Some (cfg_div cfg))"
      "ui_init_cleanup (s_ui s) = Some 0" "ui_layers_deps (s_ui s) = Some (Some d, None)"
      "ui_select_deps (s_ui s) = Some (None, False, Some d, ui_selected (s_ui s))"
    using I(1,9,12,14,15) m e f d by simp_all
  obtain e2 where e2: "addTransportLayers d e' = Inr e2" "provisioned e2"
    using addTransportLayers_fresh_Inr [OF loaded_engine_ready [OF fe sc]] unfolding e'_def by blast
  define t2 where "t2 = t\<lparr>s_world := (s_world s)\<lparr>w_maps := (w_maps (s_world s))(0 \<mapsto> e2)\<rparr>,
      s_ui := (s_ui t)\<lparr>ui_layers_deps := Some (Some d, Some 0),
        ui_select_deps := Some (Some 0, False, Some d, ui_selected (s_ui s)), ui_layersAdded := True\<rparr>\<rparr>"
  have c: "commit cfg t = (t2, True)"
    using f2 d e2(1)
    by (simp add: t_def t2_def phase_defs Let_def world_call_def split: option.split)
  have "sys_inv cfg (t2\<lparr>s_ui := settled_select (s_ui t2)\<rparr>)"
    using I(2-5,7,10,13,17,18) m e f2 d e2(2) provisioned_loaded [OF e2(2)]
    by (intro sys_invI) (simp_all add: t_def t2_def settled_select_def insert_dom)
  then show ?thesis
    using c m d e2(1) by (simp add: t2_def t_def)
qed

lemma mapload_commit2:
  assumes inv: "sys_inv cfg s" and sc: "style_compatible cfg" and m: "ui_mounted (s_ui s)"
    and e: "w_maps (s_world s) 0 = Some e" "\<not> eng_loaded e"
  shows "\<exists>t2. step cfg s (MapLoad 0) = Some (settle cfg t2) \<and>
     sys_inv cfg (t2\<lparr>s_ui := settled_select (s_ui t2)\<rparr>) \<and>
     ui_mounted (s_ui t2) \<and> ui_data (s_ui t2) = ui_data (s_ui s) \<and> ui_data (s_ui s) \<noteq> None \<and>
     ui_map (s_ui t2) = Some 0 \<and> ui_layersAdded (s_ui t2) \<and> ui_selected (s_ui t2) = ui_selected (s_ui s) \<and>
     ui_select_deps (s_ui t2) = Some (Some 0, False, ui_data (s_ui s), ui_selected (s_ui s)) \<and>
     (\<exists>e2. addTransportLayers (the (ui_data (s_ui s))) (TransportMap_on_load (style_loaded (cfg_style_sources cfg) e)) = Inr e2 \<and>
        w_maps (s_world t2) 0 = Some e2)"
proof -
  note I = sys_invD [OF inv]
  have f: "s_crashed s = None" "ui_map (s_ui s) = None" using I(1) I(11) e by simp_all
  define e' where "e' = TransportMap_on_load (style_loaded (cfg_style_sources cfg) e)"
  obtain t2 where t2: "commit cfg (s\<lparr>s_world := (s_world s)\<lparr>w_maps := (w_maps (s_world s))(0 \<mapsto> e')\<rparr>,
                   s_ui := (s_ui s)\<lparr>ui_map := Some 0\<rparr>\<rparr>) = (t2, True)"
      and p: "sys_inv cfg (t2\<lparr>s_ui := settled_select (s_ui t2)\<rparr>) \<and>
     ui_mounted (s_ui t2) \<and> ui_data (s_ui t2) = ui_data (s_ui s) \<and> ui_data (s_ui s) \<noteq> None \<and>
     ui_map (s_ui t2) = Some 0 \<and> ui_layersAdded (s_ui t2) \<and> ui_selected (s_ui t2) = ui_selected (s_ui s) \<and>
     ui_select_deps (s_ui t2) = Some (Some 0, False, ui_data (s_ui s), ui_selected (s_ui s)) \<and>
     (\<exists>e2. addTransportLayers (the (ui_data (s_ui s))) (TransportMap_on_load (style_loaded (cfg_style_sources cfg) e)) = Inr e2 \<and>
        w_maps (s_world t2) 0 = Some e2)"
    using commit_load [OF inv m e sc] unfolding e'_def by blast
  have "step cfg s (MapLoad 0) = Some (settle cfg (s\<lparr>s_world := (s_world s)\<lparr>w_maps := (w_maps (s_world s))(0 \<mapsto> e')\<rparr>,
                   s_ui := (s_ui s)\<lparr>ui_map := Some 0\<rparr>\<rparr>))"
    using e f m by (simp add: Let_def e'_def)
  then have "step cfg s (MapLoad 0) = Some (settle cfg t2)"
    using settle_commit_True [OF t2] by simp
  then show ?thesis using p by blast
qed

lemma sys_inv_mapload:
  assumes inv: "sys_inv cfg s" and sc: "style_compatible cfg"
    and st: "step cfg s (MapLoad i) = Some s'"
  shows "sys_inv cfg s'"
proof -
  note I = sys_invD [OF inv]
  obtain e where e: "w_maps (s_world s) i = Some e" "\<not> eng_loaded e"
    using st by (auto split: option.splits if_splits)
  have i0: "i = 0" using I(2) e(1) by auto
  have e0: "w_maps (s_world s) 0 = Some e" using e(1) i0 by simp
  have f: "s_crashed s = None" "ui_map (s_ui s) = None" "fresh_map e"
    using I(1) I(11) e0 e(2) by simp_all
  define e' where "e' = TransportMap_on_load (style_loaded (cfg_style_sources cfg) e)"
  show ?thesis
  proof (cases "ui_mounted (s_ui s)")
    case True
    obtain t2 where t2: "step cfg s (MapLoad 0) = Some (settle cfg t2)"
        "sys_inv cfg (t2\<lparr>s_ui := settled_select (s_ui t2)\<rparr>)" "ui_mounted (s_ui t2)" "ui_data (s_ui t2) \<noteq> None"
      using mapload_commit2 [OF inv sc True e0 e(2)] by auto
    have "s' = settle cfg t2" using st t2(1) i0 by simp
    then show ?thesis
      using commit_select_only [OF t2(2-4)] settle_no_rerender by simp
  next
    case False
    have l': "eng_loaded e'" using loaded_engine_ready(1) [OF f(3) sc] by (simp add: e'_def)
    have "s' = s\<lparr>s_world := (s_world s)\<lparr>w_maps := (w_maps (s_world s))(0 \<mapsto> e')\<rparr>\<rparr>"
      using st e i0 False by (simp add: Let_def e'_def)
    then show ?thesis
      using I(1-5,7-9,17,18) f(2) False e0 l' sys_inv_map_fetch_ran [OF inv]
      by (intro sys_invI) (simp_all add: insert_dom)
  qed
qed

subsection \<open>Remaining events and the reachable states\<close>

lemma sys_inv_fetch:
  assumes inv: "sys_inv cfg s" and st: "step cfg s (FetchResolved d) = Some s'"
  shows "sys_inv cfg s'"
proof -
  note I = sys_invD [OF inv]
  have p: "s_fetch s = FetchPending" using st by (simp split: if_splits)
  show ?thesis
  proof (cases "ui_mounted (s_ui s)")
    case True
    have "s' = settle cfg (s\<lparr>s_fetch := FetchDone, s_ui := (s_ui s)\<lparr>ui_data := Some d\<rparr>\<rparr>)"
      using st p True I(1) by (simp add: Let_def)
    then show ?thesis
      using commit_fetch [OF inv True p, of d] settle_no_rerender by simp
  next
    case False
    have "s' = s\<lparr>s_fetch := FetchDone\<rparr>" using st p False by (simp add: Let_def)
    then show ?thesis
      using I(1-5,7-18) p False by (intro sys_invI) (simp_all split: option.splits)
  qed
qed

lemma sys_inv_reject:
  assumes inv: "sys_inv cfg s" and st: "step cfg s FetchRejected = Some s'"
  shows "sys_inv cfg s'"
proof -
  note I = sys_invD [OF inv]
  have p: "s_fetch s = FetchPending" and s': "s' = s\<lparr>s_fetch := FetchFailed\<rparr>"
    using st by (simp_all split: if_splits)
  show ?thesis
    unfolding s' using I(1-5,7-17) p by (intro sys_invI) (simp_all split: option.splits)
qed

lemma sys_inv_unmount:
  assumes inv: "sys_inv cfg s" and st: "step cfg s Unmount = Some s'"
  shows "sys_inv cfg s'"
proof -
  note I = sys_invD [OF inv]
  have m: "ui_mounted (s_ui s)" using st by (simp split: if_splits)
  have fr: "ui_fetch_ran (s_ui s)" using I(12) m by simp
  have "s' = s\<lparr>s_world := (s_world s)\<lparr>w_protocols := (if ui_init_cleanup (s_ui s) \<noteq> None
        then removeProtocol (w_protocols (s_world s)) ''pmtiles'' else w_protocols (s_world s))\<rparr>,
      s_ui := (s_ui s)\<lparr>ui_mounted := False\<rparr>\<rparr>"
    using st by (simp add: Let_def destruct_def split: if_splits)
  then show ?thesis
    using I(1-5,7-11,14,17,18) fr m by (intro sys_invI) (simp_all add: removeProtocol_def split: option.splits)
qed

lemma sys_inv_step:
  assumes inv: "sys_inv cfg s" and sc: "style_compatible cfg" and st: "step cfg s ev = Some s'"
  shows "sys_inv cfg s'"
proof (cases ev)
  case Mount
  show ?thesis using st unfolding Mount by (rule sys_inv_mount [OF inv])
next
  case (FetchResolved d)
  show ?thesis using st unfolding FetchResolved by (rule sys_inv_fetch [OF inv])
next
  case FetchRejected
  show ?thesis using st unfolding FetchRejected by (rule sys_inv_reject [OF inv])
next
  case (MapLoad i)
  show ?thesis using st unfolding MapLoad by (rule sys_inv_mapload [OF inv sc])
next
  case (Select k)
  show ?thesis using st unfolding Select by (rule sys_inv_select [OF inv])
next
  case Unmount
  show ?thesis using st unfolding Unmount by (rule sys_inv_unmount [OF inv])
qed

lemma reachable_sys_inv:
  assumes "reachable cfg s" and sc: "style_compatible cfg"
  shows "sys_inv cfg s"
  using assms(1)
proof (induction rule: reachable.induct)
  case init
  show ?case by (rule sys_inv_init)
next
  case (step s e s')
  show ?case by (rule sys_inv_step [OF step.IH sc step.hyps(2)])
qed

subsection \<open>What a commit keeps, and runs\<close>

lemma world_call_ui [simp]: "s_ui (world_call i f s) = s_ui s"
  by (simp add: world_call_def split: option.split sum.split)

lemma phase_ui_core [simp]:
  "ui_core (s_ui (init_cleanup r s)) = ui_core (s_ui s)"
  "ui_core (s_ui (fetch_effect r s)) = ui_core (s_ui s)"
  "ui_core (s_ui (init_effect cfg r s)) = ui_core (s_ui s)"
  "ui_core (s_ui (fst (layers_effect r s))) = ui_core (s_ui s)"
  "ui_core (s_ui (select_effect r s)) = ui_core (s_ui s)"
  by (simp_all add: ui_core_def init_cleanup_def fetch_effect_def init_effect_def layers_effect_def
      select_effect_def Let_def split: option.split prod.split)

lemma layers_effect_ui_core:
  "layers_effect r s = (s4, q) \<Longrightarrow> ui_core (s_ui s4) = ui_core (s_ui s)"
  using phase_ui_core(4) [of r s] by simp

lemma ui_core_layersAdded [simp]: "ui_core (u\<lparr>ui_layersAdded := b\<rparr>) = ui_core u"
  and ui_core_ref [simp]: "ui_core (u\<lparr>ui_ref := c\<rparr>) = ui_core u"
  by (simp_all add: ui_core_def)

lemma commit_ui_core: "ui_core (s_ui (fst (commit cfg s))) = ui_core (s_ui s)"
  by (auto simp: commit_def Let_def dest!: layers_effect_ui_core split: prod.split)

lemma settle_ui_core: "ui_core (s_ui (settle cfg s)) = ui_core (s_ui s)"
proof (induction cfg s rule: settle.induct)
  case (1 cfg s)
  show ?case
  proof (cases "commit cfg s")
    case (Pair s' again)
    then show ?thesis
      using 1 commit_ui_core [of cfg s]
      by (cases again) (simp_all add: settle_commit_True settle_commit_False)
  qed
qed

lemma settle_fields [simp]:
  "ui_mounted (s_ui (settle cfg s)) = ui_mounted (s_ui s)" "ui_map (s_ui (settle cfg s)) = ui_map (s_ui s)"
  "ui_data (s_ui (settle cfg s)) = ui_data (s_ui s)" "ui_selected (s_ui (settle cfg s)) = ui_selected (s_ui s)"
  using settle_ui_core [of cfg s] by (simp_all add: ui_core_def)

lemma run_reachable: "reachable cfg s \<Longrightarrow> run cfg s es = Some s' \<Longrightarrow> reachable cfg s'"
proof (induction es arbitrary: s)
  case Nil
  then show ?case by simp
next
  case (Cons ev es)
  then obtain s1 where "step cfg s ev = Some s1" "run cfg s1 es = Some s'"
    by (auto split: option.splits)
  then show ?case using Cons reachable.step by blast
qed

subsection \<open>The selection, the re-render, and the two event orders\<close>

lemma selection_offered_step:
  assumes inv: "sys_inv cfg s" and so: "selection_offered (s_ui s)" and st: "step cfg s ev = Some s'"
  shows "selection_offered (s_ui s')"
proof (cases ev)
  case Mount
  then show ?thesis using st so
    by (auto simp: selection_offered_def split: if_splits option.splits)
next
  case (FetchResolved d)
  have "ui_selected (s_ui s) = None" if "s_fetch s = FetchPending"
    using so sys_invD(7) [OF inv] that by (simp add: selection_offered_def split: option.splits)
  then show ?thesis using st so FetchResolved
    by (auto simp: selection_offered_def Let_def split: if_splits option.splits)
next
  case FetchRejected
  then show ?thesis using st so by (auto simp: selection_offered_def split: if_splits option.splits)
next
  case (MapLoad i)
  then show ?thesis using st so
    by (auto simp: selection_offered_def Let_def split: if_splits option.splits)
next
  case (Select k)
  then show ?thesis using st so
    by (auto simp: selection_offered_def split: if_splits option.splits)
next
  case Unmount
  then show ?thesis using st so
    by (auto simp: selection_offered_def Let_def split: if_splits option.splits)
qed

lemma selection_offered_invariant:
  assumes "reachable cfg s" and sc: "style_compatible cfg"
  shows "selection_offered (s_ui s)"
  using assms(1)
proof (induction rule: reachable.induct)
  case init
  show ?case by (simp add: selection_offered_def init_sys_def init_ui_def)
next
  case (step s e s')
  show ?case
    by (rule selection_offered_step [OF reachable_sys_inv [OF step.hyps(1) sc] step.IH step.hyps(2)])
qed

lemma commit_again_layers: "snd (commit cfg s) \<Longrightarrow> ui_layersAdded (s_ui (fst (commit cfg s)))"
  by (auto simp: commit_def Let_def split: prod.splits if_splits)

lemma commit_no_again: "ui_layersAdded (s_ui s) \<Longrightarrow> \<not> snd (commit cfg s)"
  by (simp add: commit_def Let_def split: prod.split)

lemma keys_matching: "k \<in> set (map transportLineId (lines d)) \<Longrightarrow> matching_lines k d \<noteq> []"
  by (auto simp: matching_lines_def filter_empty_conv)

lemma keys_nonempty: "k \<in> set (map transportLineId (lines d)) \<Longrightarrow> k \<noteq> []"
  by auto

lemma settled_loaded_layers:
  assumes inv: "sys_inv cfg s" and m: "ui_mounted (s_ui s)" and mp: "ui_map (s_ui s) = Some 0"
  shows "ui_layersAdded (s_ui s) \<and> (\<exists>e. w_maps (s_world s) 0 = Some e \<and> provisioned e)"
  using sys_invD(10,16) [OF inv] m mp by (auto split: option.splits)


lemma select_step_highlights:
  assumes inv: "sys_inv cfg s"
    and la: "ui_layersAdded (s_ui s)" and d: "ui_data (s_ui s) = Some d"
    and new: "ui_selected (s_ui s) \<noteq> Some k" and st: "step cfg s (Select k) = Some s'"
  shows "\<exists>e0 e. w_maps (s_world s) 0 = Some e0 \<and> setSelectedLine k d e0 = Inr e \<and>
     w_maps (s_world s') 0 = Some e \<and> highlighted k d e"
proof -
  note I = sys_invD [OF inv]
  define t where "t = s\<lparr>s_ui := (s_ui s)\<lparr>ui_selected := Some k\<rparr>\<rparr>"
  have m: "ui_mounted (s_ui s)" and key: "k \<in> set (map transportLineId (lines d))"
    and s': "s' = settle cfg t"
    using st d new by (auto simp: t_def split: if_splits)
  have mp: "ui_map (s_ui s) = Some 0" using I(9) la by simp
  have deps: "ui_select_deps (s_ui s) = Some (Some 0, True, Some d, ui_selected (s_ui s))"
    using I(15) m mp la d by simp
  have it: "sys_inv cfg (t\<lparr>s_ui := settled_select (s_ui t)\<rparr>)"
    using sys_inv_reselect [OF inv m, of "Some k"] by (simp add: t_def)
  show ?thesis
    unfolding s'
    using commit_select_highlights [OF it] m mp la d deps new keys_nonempty [OF key] keys_matching [OF key]
    by (simp add: t_def)
qed

lemma load_step_highlights:
  assumes inv: "sys_inv cfg s" and sc: "style_compatible cfg" and m: "ui_mounted (s_ui s)"
    and d: "ui_data (s_ui s) = Some d" and k: "ui_selected (s_ui s) = Some k"
    and key: "k \<in> set (map transportLineId (lines d))"
    and e: "w_maps (s_world s) 0 = Some e" "\<not> eng_loaded e"
  shows "\<exists>s' e2 e'. step cfg s (MapLoad 0) = Some s' \<and> ui_layersAdded (s_ui s') \<and>
     addTransportLayers d (TransportMap_on_load (style_loaded (cfg_style_sources cfg) e)) = Inr e2 \<and> setSelectedLine k d e2 = Inr e' \<and>
     w_maps (s_world s') 0 = Some e' \<and> highlighted k d e'"
proof -
  obtain t2 e2 where t2: "step cfg s (MapLoad 0) = Some (settle cfg t2)"
      "sys_inv cfg (t2\<lparr>s_ui := settled_select (s_ui t2)\<rparr>)" "ui_mounted (s_ui t2)"
      "ui_data (s_ui t2) = Some d" "ui_map (s_ui t2) = Some 0" "ui_layersAdded (s_ui t2)"
      "ui_selected (s_ui t2) = Some k" "ui_select_deps (s_ui t2) = Some (Some 0, False, Some d, Some k)"
      "addTransportLayers d (TransportMap_on_load (style_loaded (cfg_style_sources cfg) e)) = Inr e2" "w_maps (s_world t2) 0 = Some e2"
    using mapload_commit2 [OF inv sc m e] d k by auto
  obtain e' where e': "setSelectedLine k d e2 = Inr e'" "w_maps (s_world (settle cfg t2)) 0 = Some e'"
      "highlighted k d e'"
    using commit_select_highlights [OF t2(2,3,5,6,4,7) keys_nonempty [OF key]] t2(8,10)
      keys_matching [OF key] by auto
  have "sys_inv cfg (settle cfg t2)" by (rule sys_inv_step [OF inv sc t2(1)])
  then have "ui_layersAdded (s_ui (settle cfg t2))"
    using settled_loaded_layers t2(3,5) by simp
  then show ?thesis using t2(1,9) e' by blast
qed

lemma select_step_waits:
  assumes inv: "sys_inv cfg s" and la: "\<not> ui_layersAdded (s_ui s)" and d: "ui_data (s_ui s) = Some d"
    and st: "step cfg s (Select k) = Some s'"
  shows "w_maps (s_world s') = w_maps (s_world s) \<and> ui_selected (s_ui s') = Some k"
proof (cases "ui_selected (s_ui s) = Some k")
  case True
  then show ?thesis using st d by (simp split: if_splits)
next
  case False
  note I = sys_invD [OF inv]
  define t where "t = s\<lparr>s_ui := (s_ui s)\<lparr>ui_selected := Some k\<rparr>\<rparr>"
  have m: "ui_mounted (s_ui s)" and s': "s' = settle cfg t"
    using st d False by (auto simp: t_def split: if_splits)
  have it: "sys_inv cfg (t\<lparr>s_ui := settled_select (s_ui t)\<rparr>)"
    using sys_inv_reselect [OF inv m, of "Some k"] by (simp add: t_def)
  have map0: "ui_map (s_ui t) \<noteq> None \<longrightarrow> ui_map (s_ui t) = Some 0"
    using I(10) by (auto simp: t_def split: option.splits)
  have "settle cfg t = select_effect (s_ui t) t"
    using commit_settled_select [OF it] m d by (simp add: t_def settle_commit_False)
  also have "\<dots> = t\<lparr>s_ui := settled_select (s_ui t)\<rparr>"
    using select_effect_idle [OF map0] la by (simp add: t_def)
  finally show ?thesis using s' by (simp add: t_def settled_select_def)
qed

lemma load_step_no_selection:
  assumes inv: "sys_inv cfg s" and sc: "style_compatible cfg" and m: "ui_mounted (s_ui s)"
    and d: "ui_data (s_ui s) = Some d" and ns: "ui_selected (s_ui s) = None"
    and e: "w_maps (s_world s) 0 = Some e" "\<not> eng_loaded e"
  shows "\<exists>s' e2. step cfg s (MapLoad 0) = Some s' \<and> addTransportLayers d (TransportMap_on_load (style_loaded (cfg_style_sources cfg) e)) = Inr e2 \<and>
     w_maps (s_world s') 0 = Some e2 \<and> ui_selected (s_ui s') = None"
proof -
  obtain t2 e2 where t2: "step cfg s (MapLoad 0) = Some (settle cfg t2)"
      "sys_inv cfg (t2\<lparr>s_ui := settled_select (s_ui t2)\<rparr>)" "ui_mounted (s_ui t2)"
      "ui_data (s_ui t2) = Some d" "ui_map (s_ui t2) = Some 0" "ui_selected (s_ui t2) = None"
      "addTransportLayers d (TransportMap_on_load (style_loaded (cfg_style_sources cfg) e)) = Inr e2" "w_maps (s_world t2) 0 = Some e2"
    using mapload_commit2 [OF inv sc m e] d ns by auto
  have "settle cfg t2 = select_effect (s_ui t2) t2"
    using commit_settled_select [OF t2(2,3)] t2(4) by (simp add: settle_commit_False)
  also have "\<dots> = t2\<lparr>s_ui := settled_select (s_ui t2)\<rparr>"
    using select_effect_idle [of t2] t2(5,6) by simp
  finally show ?thesis using t2(1,6-8) by (simp add: settled_select_def)
qed

lemma select_then_load:
  assumes inv: "sys_inv cfg s" and sc: "style_compatible cfg" and m: "ui_mounted (s_ui s)"
    and d: "ui_data (s_ui s) = Some d" and e: "w_maps (s_world s) 0 = Some e" "\<not> eng_loaded e"
    and key: "k \<in> set (map transportLineId (lines d))" and new: "ui_selected (s_ui s) \<noteq> Some k"
  shows "\<exists>sA e2 eA. run cfg s [Select k, MapLoad 0] = Some sA \<and>
     addTransportLayers d (TransportMap_on_load (style_loaded (cfg_style_sources cfg) e)) = Inr e2 \<and> setSelectedLine k d e2 = Inr eA \<and>
     w_maps (s_world sA) 0 = Some eA \<and> highlighted k d eA"
proof -
  note I = sys_invD [OF inv]
  have la: "\<not> ui_layersAdded (s_ui s)" using I(9,11) e by simp
  define s1 where "s1 = settle cfg (s\<lparr>s_ui := (s_ui s)\<lparr>ui_selected := Some k\<rparr>\<rparr>)"
  have st1: "step cfg s (Select k) = Some s1" using m I(1) d key new by (simp add: s1_def)
  have inv1: "sys_inv cfg s1" by (rule sys_inv_step [OF inv sc st1])
  have w1: "w_maps (s_world s1) = w_maps (s_world s)" "ui_selected (s_ui s1) = Some k"
    using select_step_waits [OF inv la d st1] by simp_all
  have f1: "ui_mounted (s_ui s1)" "ui_data (s_ui s1) = Some d" using m d by (simp_all add: s1_def)
  show ?thesis
    using load_step_highlights [OF inv1 sc f1 w1(2) key] w1(1) e st1 by auto
qed

lemma load_then_select:
  assumes inv: "sys_inv cfg s" and sc: "style_compatible cfg" and m: "ui_mounted (s_ui s)"
    and d: "ui_data (s_ui s) = Some d" and e: "w_maps (s_world s) 0 = Some e" "\<not> eng_loaded e"
    and key: "k \<in> set (map transportLineId (lines d))" and new: "ui_selected (s_ui s) \<noteq> Some k"
  shows "\<exists>sB eB. run cfg s [MapLoad 0, Select k] = Some sB \<and> w_maps (s_world sB) 0 = Some eB \<and>
     highlighted k d eB \<and> (ui_selected (s_ui s) = None \<longrightarrow>
       (\<exists>e2. addTransportLayers d (TransportMap_on_load (style_loaded (cfg_style_sources cfg) e)) = Inr e2 \<and> setSelectedLine k d e2 = Inr eB))"
proof -
  obtain t2 where t2: "step cfg s (MapLoad 0) = Some (settle cfg t2)" "ui_mounted (s_ui t2)"
      "ui_map (s_ui t2) = Some 0" "ui_data (s_ui t2) = Some d" "ui_selected (s_ui t2) = ui_selected (s_ui s)"
    using mapload_commit2 [OF inv sc m e] d by auto
  define s2 where "s2 = settle cfg t2"
  have inv2: "sys_inv cfg s2" unfolding s2_def by (rule sys_inv_step [OF inv sc t2(1)])
  have la2: "ui_layersAdded (s_ui s2)" using settled_loaded_layers [OF inv2] t2(2,3) by (simp add: s2_def)
  have f2: "ui_data (s_ui s2) = Some d" "ui_selected (s_ui s2) \<noteq> Some k" "ui_mounted (s_ui s2)"
    using t2(2,4,5) new by (simp_all add: s2_def)
  define sB where "sB = settle cfg (s2\<lparr>s_ui := (s_ui s2)\<lparr>ui_selected := Some k\<rparr>\<rparr>)"
  have stB: "step cfg s2 (Select k) = Some sB"
    using f2 sys_invD(1) [OF inv2] key by (simp add: sB_def)
  obtain e0 eB where B: "w_maps (s_world s2) 0 = Some e0" "setSelectedLine k d e0 = Inr eB"
      "w_maps (s_world sB) 0 = Some eB" "highlighted k d eB"
    using select_step_highlights [OF inv2 la2 f2(1,2) stB] by blast
  have "ui_selected (s_ui s) = None \<Longrightarrow> addTransportLayers d (TransportMap_on_load (style_loaded (cfg_style_sources cfg) e)) = Inr e0"
    using load_step_no_selection [OF inv sc m d _ e] t2(1) B(1) by (auto simp: s2_def)
  then show ?thesis
    using t2(1) stB B by (auto simp: s2_def)
qed

lemma run_init_reachable: "run cfg init_sys es = Some s \<Longrightarrow> reachable cfg s"
  by (rule run_reachable [OF reachable.init])

lemma step_keeps_failed:
  assumes inv: "sys_inv cfg s" and f: "s_fetch s = FetchFailed" and st: "step cfg s ev = Some s'"
  shows "s_fetch s' = FetchFailed"
proof -
  note I = sys_invD [OF inv]
  have nd: "ui_data (s_ui s) = None" and nm: "w_maps (s_world s) 0 = None" and fr: "ui_fetch_ran (s_ui s)"
    using I(5,8,18) f by auto
  have nmi: "w_maps (s_world s) i = None" for i
    using I(2) nm by (cases "i = 0") auto
  show ?thesis
    using st f nd nmi fr by (cases ev) (auto simp: Let_def split: if_splits)
qed

lemma run_keeps_failed:
  "reachable cfg s \<Longrightarrow> style_compatible cfg \<Longrightarrow> s_fetch s = FetchFailed \<Longrightarrow>
   run cfg s es = Some s' \<Longrightarrow> reachable cfg s' \<and> s_fetch s' = FetchFailed"
proof (induction es arbitrary: s)
  case Nil
  then show ?case by simp
next
  case (Cons ev es)
  then obtain s1 where s1: "step cfg s ev = Some s1" "run cfg s1 es = Some s'"
    by (auto split: option.splits)
  have "reachable cfg s1" using Cons.prems(1) s1(1) by (rule reachable.step)
  moreover have "s_fetch s1 = FetchFailed"
    using step_keeps_failed [OF reachable_sys_inv [OF Cons.prems(1,2)] Cons.prems(3) s1(1)] .
  ultimately show ?case using Cons.IH Cons.prems(2) s1(2) by blast
qed

subsection \<open>A style that defines one of the program's source names\<close>

text \<open>\<^verbatim>\<open>addTransportLayers\<close> on a loaded map that already has one of the four source names
  throws at the first \<^verbatim>\<open>addSource\<close> of such a name, in the code's order.\<close>

lemma addTransportLayers_clash:
  assumes l: "eng_loaded e" and c: "filter (\<lambda>nm. eng_sources e nm \<noteq> None) our_sources \<noteq> []"
  shows "addTransportLayers d e =
    Inl (SourceAlreadyExists (hd (filter (\<lambda>nm. eng_sources e nm \<noteq> None) our_sources)))"
  using l c
  by (cases "eng_sources e ''transport''"; cases "eng_sources e ''transport-selected''";
      cases "eng_sources e ''stations''"; cases "eng_sources e ''station-centroids''")
     (simp_all add: addTransportLayers_unfold addSource_def our_sources_def)

lemma commit_load_clash:
  assumes inv: "sys_inv cfg s" and m: "ui_mounted (s_ui s)"
    and e: "w_maps (s_world s) 0 = Some e" "\<not> eng_loaded e"
    and d: "ui_data (s_ui s) = Some d"
    and err: "addTransportLayers d (TransportMap_on_load (style_loaded (cfg_style_sources cfg) e)) = Inl x"
  shows "\<exists>s'. step cfg s (MapLoad 0) = Some s' \<and> s_crashed s' = Some x"
proof -
  note I = sys_invD [OF inv]
  have f: "ui_map (s_ui s) = None" using I(10) e by (auto split: option.splits)
  have f2: "s_crashed s = None" "ui_fetch_ran (s_ui s)" "ui_ref (s_ui s) = Some (cfg_div cfg)"
      "\<not> ui_layersAdded (s_ui s)" "ui_init_deps (s_ui s) = Some (Some (cfg_div cfg))"
      "ui_layers_deps (s_ui s) = Some (Some d, None)"
      "ui_select_deps (s_ui s) = Some (None, False, Some d, ui_selected (s_ui s))"
    using I(1,9,12,14,15) m e f d by simp_all
  define t where "t = s\<lparr>s_world := (s_world s)\<lparr>w_maps := (w_maps (s_world s))
      (0 \<mapsto> TransportMap_on_load (style_loaded (cfg_style_sources cfg) e))\<rparr>, s_ui := (s_ui s)\<lparr>ui_map := Some 0\<rparr>\<rparr>"
  have st: "step cfg s (MapLoad 0) = Some (settle cfg t)"
    using e f f2(1) m by (simp add: t_def Let_def)
  have c: "snd (commit cfg t) = False \<and> s_crashed (fst (commit cfg t)) = Some x"
    using f2 d err
    by (simp add: t_def phase_defs Let_def world_call_def select_effect_def split: option.split prod.split)
  then have "settle cfg t = fst (commit cfg t)" by (simp add: settle_no_rerender)
  then show ?thesis using st c by simp
qed

end
