(* ===== verification/ComponentSpec.thy ===== *)
theory ComponentSpec
  imports ControllerInvariant
begin

text \<open>
  An abstract specification of the component, in the words of the spec (sections 4 and
  5): what the page is in (mounted, the fetch, the data, the chosen line, whether the map
  has been constructed and has loaded), how each event of the environment changes it,
  and what the map shows in each such state. The React state, the effect dependency
  arrays, the ref and the engine objects are not part of it. The abstraction
  \<open>abs_view\<close> reads the view off a state of theory \<open>Controller\<close>; the refinement lemmas
  show that on every reachable state a concrete step is possible exactly when the
  abstract one is, and that the two agree on the new view (a functional simulation in
  the style of an event-system refinement with an invariant), and that the map shows
  what \<open>shown\<close> prescribes.
\<close>

record comp_view =
  v_mounted :: bool
  v_fetch :: fetch_state
  v_data :: "transport_data option"
  v_selected :: "string option"
  v_map :: bool
  v_loaded :: bool

definition init_view :: comp_view where
  "init_view = \<lparr>v_mounted = False, v_fetch = FetchIdle, v_data = None, v_selected = None,
     v_map = False, v_loaded = False\<rparr>"

text \<open>
  The abstract events: the component mounts once and starts the fetch; the fetch settles
  once, and when it brings data to a mounted component the map is constructed; the one
  map loads once; a line can be chosen among the keys of the data while mounted.
\<close>

fun astep :: "comp_view \<Rightarrow> event \<Rightarrow> comp_view option" where
  "astep v Mount =
     (if v_mounted v \<or> v_fetch v \<noteq> FetchIdle then None
      else Some (v\<lparr>v_mounted := True, v_fetch := FetchPending\<rparr>))"
| "astep v (FetchResolved d) =
     (if v_fetch v \<noteq> FetchPending then None
      else Some (if v_mounted v then v\<lparr>v_fetch := FetchDone, v_data := Some d, v_map := True\<rparr>
                 else v\<lparr>v_fetch := FetchDone\<rparr>))"
| "astep v FetchRejected =
     (if v_fetch v \<noteq> FetchPending then None else Some (v\<lparr>v_fetch := FetchFailed\<rparr>))"
| "astep v (MapLoad i) =
     (if i \<noteq> 0 \<or> \<not> v_map v \<or> v_loaded v then None else Some (v\<lparr>v_loaded := True\<rparr>))"
| "astep v (Select k) =
     (if \<not> v_mounted v then None
      else case v_data v of
        None \<Rightarrow> None
      | Some d \<Rightarrow> if k \<in> set (map transportLineId (lines d)) then Some (v\<lparr>v_selected := Some k\<rparr>) else None)"
| "astep v Unmount = (if \<not> v_mounted v then None else Some (v\<lparr>v_mounted := False\<rparr>))"

fun arun :: "comp_view \<Rightarrow> event list \<Rightarrow> comp_view option" where
  "arun v [] = Some v"
| "arun v (e # es) = (case astep v e of None \<Rightarrow> None | Some v' \<Rightarrow> arun v' es)"

text \<open>
  What the mounted component's loaded map shows: the features of the selected source and
  the viewport. With no choice the selection is empty and the camera has not moved; with
  a choice it is every line of that key and the box around them (spec section 4.2).
\<close>

definition shown :: "comp_view \<Rightarrow> (feature list \<times> (bbox \<times> padding) option) option" where
  "shown v =
     (if v_mounted v \<and> v_loaded v then
        (case v_data v of
           None \<Rightarrow> None
         | Some d \<Rightarrow> Some (case v_selected v of
             None \<Rightarrow> ([], None)
           | Some k \<Rightarrow> (map line_feature (matching_lines k d),
                         Some (turf_bbox (map line_feature (matching_lines k d)), selection_padding))))
      else None)"

definition abs_view :: "sys \<Rightarrow> comp_view" where
  "abs_view s = \<lparr>v_mounted = ui_mounted (s_ui s), v_fetch = s_fetch s, v_data = ui_data (s_ui s),
     v_selected = ui_selected (s_ui s), v_map = (w_maps (s_world s) 0 \<noteq> None),
     v_loaded = (case w_maps (s_world s) 0 of None \<Rightarrow> False | Some e \<Rightarrow> eng_loaded e)\<rparr>"

definition observed :: "sys \<Rightarrow> (feature list \<times> (bbox \<times> padding) option) option" where
  "observed s =
     (if ui_mounted (s_ui s) then
        (case w_maps (s_world s) 0 of
           None \<Rightarrow> None
         | Some e \<Rightarrow> if eng_loaded e
             then map_option (\<lambda>src. (src_data src, viewport e)) (eng_sources e ''transport-selected'')
             else None)
      else None)"

subsection \<open>The view of an invariant state\<close>

lemma sys_inv_fetch_done:
  assumes inv: "sys_inv cfg s" and d: "ui_data (s_ui s) \<noteq> None"
  shows "s_fetch s = FetchDone"
proof -
  note I = sys_invD [OF inv]
  have "ui_fetch_ran (s_ui s)" using I(6) d by (auto simp: init_sys_def init_ui_def)
  then show ?thesis using I(5,7,18) d by (cases "s_fetch s") simp_all
qed

text \<open>While mounted, the map exists exactly when the data does, and it has loaded exactly when the component holds it.\<close>

lemma abs_view_mounted:
  assumes inv: "sys_inv cfg s" and m: "ui_mounted (s_ui s)"
  shows "abs_view s = \<lparr>v_mounted = True, v_fetch = s_fetch s, v_data = ui_data (s_ui s),
     v_selected = ui_selected (s_ui s), v_map = (ui_data (s_ui s) \<noteq> None),
     v_loaded = (ui_map (s_ui s) = Some 0)\<rparr>"
proof -
  note I = sys_invD [OF inv]
  have "(w_maps (s_world s) 0 \<noteq> None) = (ui_data (s_ui s) \<noteq> None)" using I(8,13) m by blast
  moreover have "(case w_maps (s_world s) 0 of None \<Rightarrow> False | Some e \<Rightarrow> eng_loaded e) = (ui_map (s_ui s) = Some 0)"
    using I(10,16) m by (auto split: option.splits)
  ultimately show ?thesis using m by (simp add: abs_view_def)
qed

lemma abs_view_settled:
  assumes inv: "sys_inv cfg s'" and m: "ui_mounted (s_ui s')" and d: "ui_data (s_ui s') = Some d"
  shows "abs_view s' = \<lparr>v_mounted = True, v_fetch = FetchDone, v_data = Some d,
     v_selected = ui_selected (s_ui s'), v_map = True, v_loaded = (ui_map (s_ui s') = Some 0)\<rparr>"
  using abs_view_mounted [OF inv m] sys_inv_fetch_done [OF inv] d by simp

subsection \<open>Each event refines its abstract event\<close>

lemma refines_Mount:
  assumes inv: "sys_inv cfg s"
  shows "map_option abs_view (step cfg s Mount) = astep (abs_view s) Mount"
proof (cases "ui_mounted (s_ui s) \<or> ui_fetch_ran (s_ui s)")
  case True
  then show ?thesis using sys_invD(5) [OF inv] by (auto simp: abs_view_def)
next
  case False
  then have s: "s = init_sys" using sys_invD(6) [OF inv] by simp
  show ?thesis
    unfolding s step_Mount_init by (simp add: abs_view_def init_sys_def init_ui_def)
qed

lemma refines_FetchResolved:
  assumes inv: "sys_inv cfg s"
  shows "map_option abs_view (step cfg s (FetchResolved d)) = astep (abs_view s) (FetchResolved d)"
proof (cases "s_fetch s = FetchPending")
  case False
  then show ?thesis by (simp add: abs_view_def)
next
  case p: True
  note I = sys_invD [OF inv]
  have nd: "ui_data (s_ui s) = None" and nm: "w_maps (s_world s) 0 = None" and nu: "ui_map (s_ui s) = None"
    using I(7,8,10) p by (auto split: option.splits)
  show ?thesis
  proof (cases "ui_mounted (s_ui s)")
    case m: True
    define t where "t = s\<lparr>s_fetch := FetchDone, s_ui := (s_ui s)\<lparr>ui_data := Some d\<rparr>\<rparr>"
    have st: "step cfg s (FetchResolved d) = Some (settle cfg t)"
      using p m I(1) by (simp add: t_def Let_def)
    have inv': "sys_inv cfg (settle cfg t)" by (rule sys_inv_fetch [OF inv st])
    show ?thesis
      using abs_view_settled [OF inv', of d] st m p nm nu by (simp add: t_def abs_view_def)
  next
    case False
    then show ?thesis using p by (simp add: Let_def abs_view_def)
  qed
qed

lemma refines_FetchRejected:
  "map_option abs_view (step cfg s FetchRejected) = astep (abs_view s) FetchRejected"
  by (simp add: abs_view_def)

lemma refines_Unmount:
  assumes inv: "sys_inv cfg s"
  shows "map_option abs_view (step cfg s Unmount) = astep (abs_view s) Unmount"
  using sys_invD(1) [OF inv] by (simp add: Let_def abs_view_def destruct_def)

lemma on_load_loaded [simp]: "eng_loaded (TransportMap_on_load (style_loaded ss e))"
  by (simp add: TransportMap_on_load_def style_loaded_def addControl_def)

lemma refines_MapLoad:
  assumes inv: "sys_inv cfg s" and sc: "style_compatible cfg"
  shows "map_option abs_view (step cfg s (MapLoad i)) = astep (abs_view s) (MapLoad i)"
proof (cases "w_maps (s_world s) i")
  case None
  then show ?thesis by (cases "i = 0") (simp_all add: abs_view_def)
next
  case (Some e)
  note I = sys_invD [OF inv]
  have i0: "i = 0" using I(2) Some by auto
  have e0: "w_maps (s_world s) 0 = Some e" using Some i0 by simp
  show ?thesis
  proof (cases "eng_loaded e")
    case True
    then show ?thesis using e0 i0 by (simp add: abs_view_def)
  next
    case nl: False
    have nu: "ui_map (s_ui s) = None" using I(10) e0 nl by (auto split: option.splits)
    show ?thesis
    proof (cases "ui_mounted (s_ui s)")
      case m: True
      obtain t2 where t2: "step cfg s (MapLoad 0) = Some (settle cfg t2)" "ui_mounted (s_ui t2)"
          "ui_data (s_ui t2) = ui_data (s_ui s)" "ui_data (s_ui s) \<noteq> None" "ui_map (s_ui t2) = Some 0"
          "ui_selected (s_ui t2) = ui_selected (s_ui s)"
        using mapload_commit2 [OF inv sc m e0 nl] by blast
      obtain d where d: "ui_data (s_ui s) = Some d" using t2(4) by blast
      have inv': "sys_inv cfg (settle cfg t2)" by (rule sys_inv_step [OF inv sc t2(1)])
      show ?thesis
        using abs_view_settled [OF inv', of d] abs_view_settled [OF inv m d] t2 d nu e0 nl i0
        by simp
    next
      case False
      then show ?thesis using e0 nl i0 by (simp add: Let_def abs_view_def)
    qed
  qed
qed

lemma refines_Select:
  assumes inv: "sys_inv cfg s" and sc: "style_compatible cfg"
  shows "map_option abs_view (step cfg s (Select k)) = astep (abs_view s) (Select k)"
proof (cases "ui_mounted (s_ui s) \<and> ui_data (s_ui s) \<noteq> None")
  case False
  then show ?thesis using sys_invD(1) [OF inv] by (auto simp: abs_view_def)
next
  case True
  then obtain d where m: "ui_mounted (s_ui s)" and d: "ui_data (s_ui s) = Some d" by blast
  have c: "s_crashed s = None" using sys_invD(1) [OF inv] .
  show ?thesis
  proof (cases "k \<in> set (map transportLineId (lines d)) \<and> ui_selected (s_ui s) \<noteq> Some k")
    case False
    then show ?thesis using m d c by (auto simp: abs_view_def)
  next
    case True
    define t where "t = s\<lparr>s_ui := (s_ui s)\<lparr>ui_selected := Some k\<rparr>\<rparr>"
    have st: "step cfg s (Select k) = Some (settle cfg t)" using m d c True by (simp add: t_def)
    have inv': "sys_inv cfg (settle cfg t)" by (rule sys_inv_step [OF inv sc st])
    show ?thesis
      using abs_view_settled [OF inv', of d] abs_view_settled [OF inv m d] st m d True
      by (simp add: t_def)
  qed
qed

lemma refines_step:
  assumes inv: "sys_inv cfg s" and sc: "style_compatible cfg"
  shows "map_option abs_view (step cfg s ev) = astep (abs_view s) ev"
  using refines_Mount [OF inv] refines_FetchResolved [OF inv] refines_FetchRejected
    refines_MapLoad [OF inv sc] refines_Select [OF inv sc] refines_Unmount [OF inv]
  by (cases ev) simp_all

subsection \<open>What the map shows\<close>

lemma observed_idle:
  "\<not> (v_mounted (abs_view s) \<and> v_loaded (abs_view s)) \<Longrightarrow> observed s = None \<and> shown (abs_view s) = None"
  by (auto simp: observed_def shown_def abs_view_def split: option.splits)

lemma observed_selected:
  assumes "ui_mounted (s_ui s)" "w_maps (s_world s) 0 = Some e" "eng_loaded e"
    "ui_data (s_ui s) = Some d" "ui_selected (s_ui s) = Some k" "highlighted k d e"
  shows "observed s = shown (abs_view s)"
  using assms by (auto simp: observed_def shown_def abs_view_def highlighted_def)

lemma observed_unselected:
  assumes "ui_mounted (s_ui s)" "w_maps (s_world s) 0 = Some e" "eng_loaded e"
    "ui_data (s_ui s) = Some d" "ui_selected (s_ui s) = None"
    "eng_sources e ''transport-selected'' = Some (geojson [])" "eng_fits e = []"
  shows "observed s = shown (abs_view s)"
  using assms by (simp add: observed_def shown_def abs_view_def geojson_def viewport_def)

lemma on_load_fits [simp]: "eng_fits (TransportMap_on_load (style_loaded ss e)) = eng_fits e"
  by (simp add: TransportMap_on_load_def style_loaded_def addControl_def)

lemma step_abs_view:
  "sys_inv cfg s \<Longrightarrow> style_compatible cfg \<Longrightarrow> step cfg s ev = Some s' \<Longrightarrow>
   astep (abs_view s) ev = Some (abs_view s')"
  using refines_step [of cfg s ev] by simp

lemma observed_MapLoad:
  assumes inv: "sys_inv cfg s" and sc: "style_compatible cfg" and so: "selection_offered (s_ui s)"
    and st: "step cfg s (MapLoad i) = Some s'"
  shows "observed s' = shown (abs_view s')"
proof (cases "ui_mounted (s_ui s)")
  case False
  then show ?thesis using step_abs_view [OF inv sc st] observed_idle [of s']
    by (simp add: abs_view_def split: if_splits)
next
  case m: True
  note I = sys_invD [OF inv]
  have av: "astep (abs_view s) (MapLoad i) = Some (abs_view s')" by (rule step_abs_view [OF inv sc st])
  obtain e where e: "w_maps (s_world s) 0 = Some e" "\<not> eng_loaded e" and i0: "i = 0"
    using av by (auto simp: abs_view_def split: if_splits option.splits)
  obtain d where d: "ui_data (s_ui s) = Some d" using I(8) e(1) by auto
  have v': "ui_mounted (s_ui s')" "ui_data (s_ui s') = Some d" "ui_selected (s_ui s') = ui_selected (s_ui s)"
      "case w_maps (s_world s') 0 of None \<Rightarrow> False | Some e \<Rightarrow> eng_loaded e"
    using av m d e by (auto simp: abs_view_def split: if_splits)
  show ?thesis
  proof (cases "ui_selected (s_ui s)")
    case None
    obtain s2 e2 where s2: "step cfg s (MapLoad 0) = Some s2"
        "addTransportLayers d (TransportMap_on_load (style_loaded (cfg_style_sources cfg) e)) = Inr e2"
        "w_maps (s_world s2) 0 = Some e2"
      using load_step_no_selection [OF inv sc m d None e] by blast
    have w: "w_maps (s_world s') 0 = Some e2" using s2(1,3) st i0 by simp
    have "eng_fits e = []" using I(11) e by (simp add: fresh_map_def)
    then show ?thesis
      using observed_unselected [OF v'(1) w _ v'(2)] addTransportLayers_InrD [OF s2(2)] v'(3) None
      by simp
  next
    case (Some k)
    have key: "k \<in> set (map transportLineId (lines d))" using so Some d by (simp add: selection_offered_def)
    obtain s2 e' where s2: "step cfg s (MapLoad 0) = Some s2" "w_maps (s_world s2) 0 = Some e'" "highlighted k d e'"
      using load_step_highlights [OF inv sc m d Some key e] by blast
    have w: "w_maps (s_world s') 0 = Some e'" using s2(1,2) st i0 by simp
    then show ?thesis using observed_selected [OF v'(1) w _ v'(2) _ s2(3)] v'(3,4) Some by simp
  qed
qed

lemma observed_Select:
  assumes inv: "sys_inv cfg s" and sc: "style_compatible cfg" and ob: "observed s = shown (abs_view s)"
    and st: "step cfg s (Select k) = Some s'"
  shows "observed s' = shown (abs_view s')"
proof (cases "s' = s")
  case True
  then show ?thesis using ob by simp
next
  case new: False
  note I = sys_invD [OF inv]
  have av: "astep (abs_view s) (Select k) = Some (abs_view s')" by (rule step_abs_view [OF inv sc st])
  obtain d where m: "ui_mounted (s_ui s)" and d: "ui_data (s_ui s) = Some d"
    using av by (auto simp: abs_view_def split: if_splits option.splits)
  have ns: "ui_selected (s_ui s) \<noteq> Some k" using st new m d by (auto split: if_splits)
  have v': "v_mounted (abs_view s') = v_mounted (abs_view s)" "v_loaded (abs_view s') = v_loaded (abs_view s)"
      "ui_data (s_ui s') = Some d" "ui_selected (s_ui s') = Some k" "ui_mounted (s_ui s')"
    using av m d by (auto simp: abs_view_def split: if_splits)
  show ?thesis
  proof (cases "v_loaded (abs_view s)")
    case False
    then show ?thesis using observed_idle [of s'] v'(2) by simp
  next
    case True
    then obtain e0 where e0: "w_maps (s_world s) 0 = Some e0" "eng_loaded e0"
      by (auto simp: abs_view_def split: option.splits)
    have la: "ui_layersAdded (s_ui s)" using I(16) m e0 by simp
    obtain e where e: "w_maps (s_world s') 0 = Some e" "highlighted k d e"
      using select_step_highlights [OF inv la d ns st] by blast
    have "eng_loaded e" using v'(2) True e(1) by (simp add: abs_view_def)
    then show ?thesis using observed_selected [OF v'(5) e(1) _ v'(3,4) e(2)] by simp
  qed
qed

text \<open>What an abstract event leaves alone: only the load event loads the map, only mounting and
  unmounting change \<open>v_mounted\<close>, and the fetch events need the fetch in the matching phase.\<close>

lemma v_fetch_abs_view: "v_fetch (abs_view s) = s_fetch s"
  by (simp add: abs_view_def)

lemma astep_frame:
  "astep v ev = Some v' \<Longrightarrow>
     v_loaded v' = (v_loaded v \<or> (\<exists>i. ev = MapLoad i)) \<and>
     v_mounted v' = (if ev = Mount then True else if ev = Unmount then False else v_mounted v) \<and>
     (ev = Mount \<longrightarrow> v_fetch v = FetchIdle) \<and>
     ((\<exists>d. ev = FetchResolved d) \<or> ev = FetchRejected \<longrightarrow> v_fetch v = FetchPending)"
  by (cases ev) (auto split: if_splits option.splits)

text \<open>Before the fetch has settled there is no map, so the view has not loaded.\<close>

lemma sys_inv_unsettled_unloaded:
  assumes inv: "sys_inv cfg s" and f: "s_fetch s = FetchIdle \<or> s_fetch s = FetchPending"
  shows "\<not> v_loaded (abs_view s)"
proof -
  note I = sys_invD [OF inv]
  have "ui_data (s_ui s) = None"
  proof (cases "s_fetch s = FetchIdle")
    case True
    then have "s = init_sys" using I(5,6) by simp
    then show ?thesis by (simp add: init_sys_def init_ui_def)
  next
    case False
    then show ?thesis using I(7) f by simp
  qed
  then show ?thesis using I(8) by (auto simp: abs_view_def split: option.splits)
qed

lemma observed_step:
  assumes inv: "sys_inv cfg s" and sc: "style_compatible cfg" and so: "selection_offered (s_ui s)"
    and ob: "observed s = shown (abs_view s)" and st: "step cfg s ev = Some s'"
  shows "observed s' = shown (abs_view s')"
proof -
  have av: "astep (abs_view s) ev = Some (abs_view s')" by (rule step_abs_view [OF inv sc st])
  show ?thesis
  proof (cases ev)
    case (MapLoad i)
    show ?thesis using observed_MapLoad [OF inv sc so] st unfolding MapLoad .
  next
    case (Select k)
    show ?thesis using observed_Select [OF inv sc ob] st unfolding Select .
  next
    case FetchRejected
    then show ?thesis
      using astep_frame [OF av] observed_idle [of s'] sys_inv_unsettled_unloaded [OF inv] v_fetch_abs_view by simp
  next
    case Unmount
    then show ?thesis using astep_frame [OF av] observed_idle [of s'] by simp
  next
    case Mount
    then show ?thesis
      using astep_frame [OF av] observed_idle [of s'] sys_inv_unsettled_unloaded [OF inv] v_fetch_abs_view by simp
  next
    case (FetchResolved d)
    then show ?thesis
      using astep_frame [OF av] observed_idle [of s'] sys_inv_unsettled_unloaded [OF inv] v_fetch_abs_view by simp
  qed
qed

lemma reachable_observed:
  assumes "reachable cfg s" and sc: "style_compatible cfg"
  shows "observed s = shown (abs_view s)"
  using assms(1)
proof (induction rule: reachable.induct)
  case init
  show ?case by (simp add: observed_def shown_def abs_view_def init_sys_def init_ui_def)
next
  case (step s e s')
  show ?case
    using observed_step [OF reachable_sys_inv [OF step.hyps(1) sc] sc
        selection_offered_invariant [OF step.hyps(1) sc] step.IH step.hyps(2)] .
qed

lemma abs_view_init [simp]: "abs_view init_sys = init_view"
  by (simp add: abs_view_def init_view_def init_sys_def init_ui_def)

lemma run_abs_view:
  assumes "reachable cfg s" and sc: "style_compatible cfg"
  shows "map_option abs_view (run cfg s es) = arun (abs_view s) es"
  using assms(1)
proof (induction es arbitrary: s)
  case Nil
  then show ?case by simp
next
  case (Cons ev es)
  show ?case
  proof (cases "step cfg s ev")
    case None
    then show ?thesis using refines_step [OF reachable_sys_inv [OF Cons.prems sc] sc, of ev] by simp
  next
    case (Some s1)
    have "astep (abs_view s) ev = Some (abs_view s1)"
      using step_abs_view [OF reachable_sys_inv [OF Cons.prems sc] sc Some] .
    then show ?thesis using Cons.IH [OF reachable.step [OF Cons.prems Some]] Some by simp
  qed
qed

subsection \<open>Refinement\<close>

text \<open>
  C3. Refinement. On every reachable state of the component an event is possible exactly
  when the abstract specification allows it, and the view after it is the one the
  specification prescribes: \<open>abs_view\<close> is a functional simulation of \<open>step\<close> by \<open>astep\<close>.
\<close>

theorem component_refines:
  assumes "style_compatible cfg" and "reachable cfg s"
  shows "map_option abs_view (step cfg s ev) = astep (abs_view s) ev"
  using refines_step [OF reachable_sys_inv [OF assms(2,1)] assms(1)] .

text \<open>
  C4. Functional. After any sequence of events the map shows what the specification
  prescribes for the resulting view: nothing before its load or after the unmount, an
  empty selection and the initial camera until a line is chosen, and the lines of the
  chosen key with the camera on their bounding box after.
\<close>

theorem run_shows_spec:
  assumes sc: "style_compatible cfg"
  shows "map_option observed (run cfg init_sys es) = map_option shown (arun init_view es)"
proof (cases "run cfg init_sys es")
  case None
  then show ?thesis using run_abs_view [OF reachable.init sc, of es] by simp
next
  case (Some s)
  have "observed s = shown (abs_view s)"
    using reachable_observed [OF run_init_reachable [OF Some] sc] .
  moreover have "arun init_view es = Some (abs_view s)"
    using run_abs_view [OF reachable.init sc, of es] Some by simp
  ultimately show ?thesis using Some by simp
qed

end
