(* ===== verification/ComboboxStore.thy ===== *)
theory ComboboxStore
  imports Combobox
begin

text \<open>
  The dropdown state of the selection widget: the store \<^verbatim>\<open>useCombobox\<close> returns
  (\<^verbatim>\<open>Combobox.tsx\<close> lines 23--25) and the handlers the component wires to it (lines
  29--45). The store is Mantine library code, modelled from its documentation: whether the
  dropdown is open, and the index of the option highlighted for the keyboard
  (\<^verbatim>\<open>-1\<close> for none, an integer as in the library); \<^verbatim>\<open>openDropdown\<close> and
  \<^verbatim>\<open>closeDropdown\<close> act only on a change and \<^verbatim>\<open>closeDropdown\<close> then calls the
  \<^verbatim>\<open>onDropdownClose\<close> callback; \<^verbatim>\<open>selectNextOption\<close> and \<^verbatim>\<open>selectPreviousOption\<close>
  move the highlight with wrap-around (the default \<^verbatim>\<open>loop\<close>); the target turns
  ArrowDown and ArrowUp into these moves while the dropdown is open, and into opening it
  otherwise (the option list is not in the document yet, so the highlight is left as it
  is), Enter into a click on the highlighted option, and Escape and a click outside into
  \<^verbatim>\<open>closeDropdown\<close>. An Enter with no highlighted option activates the focused
  \<^verbatim>\<open>button\<close>, which is a click on the target. The options are rendered, and can be
  clicked, only while the dropdown is open. A step returns the new store and the value
  passed to \<^verbatim>\<open>onSelect\<close>, if any.
\<close>

record combo_store =
  cs_opened :: bool
  cs_selected_index :: int

definition init_store :: combo_store where
  "init_store = \<lparr>cs_opened = False, cs_selected_index = -1\<rparr>"

datatype combo_event = TargetClick | OptionClick nat | ArrowDown | ArrowUp | EnterKey | EscapeKey | ClickOutside

subsection \<open>The library's store operations\<close>

definition openDropdown :: "combo_store \<Rightarrow> combo_store" where
  "openDropdown st = (if cs_opened st then st else st\<lparr>cs_opened := True\<rparr>)"

definition closeDropdown :: "(combo_store \<Rightarrow> combo_store) \<Rightarrow> combo_store \<Rightarrow> combo_store" where
  "closeDropdown on_close st = (if cs_opened st then on_close (st\<lparr>cs_opened := False\<rparr>) else st)"

definition toggleDropdown :: "(combo_store \<Rightarrow> combo_store) \<Rightarrow> combo_store \<Rightarrow> combo_store" where
  "toggleDropdown on_close st = (if cs_opened st then closeDropdown on_close st else openDropdown st)"

definition resetSelectedOption :: "combo_store \<Rightarrow> combo_store" where
  "resetSelectedOption st = st\<lparr>cs_selected_index := -1\<rparr>"

definition selectNextOption :: "nat \<Rightarrow> combo_store \<Rightarrow> combo_store" where
  "selectNextOption n st =
     st\<lparr>cs_selected_index :=
       (if cs_selected_index st + 1 < int n then cs_selected_index st + 1
        else if 0 < n then 0 else cs_selected_index st)\<rparr>"

definition selectPreviousOption :: "nat \<Rightarrow> combo_store \<Rightarrow> combo_store" where
  "selectPreviousOption n st =
     st\<lparr>cs_selected_index :=
       (if 0 \<le> cs_selected_index st - 1 then cs_selected_index st - 1
        else if 0 < n then int n - 1 else cs_selected_index st)\<rparr>"

subsection \<open>The component's handlers\<close>

text \<open>Line 24: \<^verbatim>\<open>onDropdownClose: () => combobox.resetSelectedOption()\<close>.\<close>

definition onDropdownClose :: "combo_store \<Rightarrow> combo_store" where
  "onDropdownClose st = resetSelectedOption st"

text \<open>Lines 32--35: \<^verbatim>\<open>onSelect(val)\<close>, then \<^verbatim>\<open>combobox.closeDropdown()\<close>.\<close>

definition onOptionSubmit :: "string \<Rightarrow> combo_store \<Rightarrow> combo_store \<times> string option" where
  "onOptionSubmit val st = (closeDropdown onDropdownClose st, Some val)"

text \<open>Lines 29--45 and 52--58: one user event on the widget with options \<open>opts\<close>; line 43 is
  \<^verbatim>\<open>onClick={() => combobox.toggleDropdown()}\<close>.\<close>

fun combo_step :: "combo_option list \<Rightarrow> combo_store \<Rightarrow> combo_event \<Rightarrow> (combo_store \<times> string option) option" where
  "combo_step opts st TargetClick = Some (toggleDropdown onDropdownClose st, None)"
| "combo_step opts st (OptionClick i) =
     (if cs_opened st \<and> i < length opts then Some (onOptionSubmit (opt_value (opts ! i)) st) else None)"
| "combo_step opts st ArrowDown =
     Some (if cs_opened st then selectNextOption (length opts) st else openDropdown st, None)"
| "combo_step opts st ArrowUp =
     Some (if cs_opened st then selectPreviousOption (length opts) st else openDropdown st, None)"
| "combo_step opts st EnterKey =
     (if cs_opened st \<and> 0 \<le> cs_selected_index st \<and> cs_selected_index st < int (length opts)
      then Some (onOptionSubmit (opt_value (opts ! nat (cs_selected_index st))) st)
      else Some (toggleDropdown onDropdownClose st, None))"
| "combo_step opts st EscapeKey = Some (closeDropdown onDropdownClose st, None)"
| "combo_step opts st ClickOutside = Some (closeDropdown onDropdownClose st, None)"

text \<open>A sequence of user events, with the values submitted to \<^verbatim>\<open>onSelect\<close> in order.\<close>

fun combo_run :: "combo_option list \<Rightarrow> combo_store \<Rightarrow> combo_event list \<Rightarrow> (combo_store \<times> string list) option" where
  "combo_run opts st [] = Some (st, [])"
| "combo_run opts st (ev # evs) =
     (case combo_step opts st ev of
        None \<Rightarrow> None
      | Some (st', out) \<Rightarrow>
          map_option (\<lambda>(st'', outs). (st'', (case out of None \<Rightarrow> outs | Some v \<Rightarrow> v # outs)))
            (combo_run opts st' evs))"

inductive combo_reachable :: "combo_option list \<Rightarrow> combo_store \<Rightarrow> bool" for opts where
  init: "combo_reachable opts init_store"
| step: "combo_reachable opts st \<Longrightarrow> combo_step opts st ev = Some (st', out) \<Longrightarrow> combo_reachable opts st'"

text \<open>The invariant of the store: a closed dropdown highlights nothing, and the highlight is
  \<^verbatim>\<open>-1\<close> or the index of an option.\<close>

definition combo_inv :: "combo_option list \<Rightarrow> combo_store \<Rightarrow> bool" where
  "combo_inv opts st \<longleftrightarrow>
     (\<not> cs_opened st \<longrightarrow> cs_selected_index st = -1) \<and>
     -1 \<le> cs_selected_index st \<and> cs_selected_index st < int (length opts)"

subsection \<open>Lemmas\<close>

lemmas store_defs = openDropdown_def closeDropdown_def toggleDropdown_def resetSelectedOption_def
  onDropdownClose_def onOptionSubmit_def

lemma closeDropdown_opened [simp]:
  "cs_opened st \<Longrightarrow> closeDropdown onDropdownClose st = init_store"
  by (simp add: store_defs init_store_def)

lemma combo_inv_init: "combo_inv opts init_store"
  by (simp add: combo_inv_def init_store_def)

lemma combo_inv_closed: "combo_inv opts st \<Longrightarrow> \<not> cs_opened st \<Longrightarrow> st = init_store"
  by (simp add: combo_inv_def init_store_def)

lemma combo_inv_step:
  assumes inv: "combo_inv opts st" and st: "combo_step opts st ev = Some (st', out)"
  shows "combo_inv opts st'"
proof (cases ev)
  case ArrowDown
  then show ?thesis using inv st
    by (auto simp: combo_inv_def selectNextOption_def openDropdown_def split: if_splits)
next
  case ArrowUp
  then show ?thesis using inv st
    by (auto simp: combo_inv_def selectPreviousOption_def openDropdown_def split: if_splits)
qed (use inv st in \<open>auto simp: combo_inv_def store_defs split: if_splits\<close>)

lemma combo_submit_step:
  "combo_step opts st ev = Some (st', Some v) \<Longrightarrow>
   v \<in> set (submittable opts) \<and> cs_opened st \<and> st' = init_store"
proof (cases ev)
  case EnterKey
  assume "combo_step opts st ev = Some (st', Some v)"
  then have "cs_opened st \<and> 0 \<le> cs_selected_index st \<and> cs_selected_index st < int (length opts) \<and>
      v = opt_value (opts ! nat (cs_selected_index st)) \<and> st' = init_store"
    unfolding EnterKey
    by (auto simp: onOptionSubmit_def toggleDropdown_def openDropdown_def split: if_splits)
  then show ?thesis by (auto simp: submittable_def)
qed (auto simp: onOptionSubmit_def submittable_def toggleDropdown_def openDropdown_def
  split: if_splits)

lemma combo_run_arrows:
  assumes "cs_opened st" and "-1 \<le> cs_selected_index st"
    and "cs_selected_index st + int k < int (length opts)"
  shows "combo_run opts st (replicate k ArrowDown @ rest) =
    combo_run opts (st\<lparr>cs_selected_index := cs_selected_index st + int k\<rparr>) rest"
  using assms
proof (induction k arbitrary: st)
  case 0
  then show ?case by simp
next
  case (Suc k)
  let ?st1 = "st\<lparr>cs_selected_index := cs_selected_index st + 1\<rparr>"
  have "combo_step opts st ArrowDown = Some (?st1, None)"
    using Suc.prems by (simp add: selectNextOption_def)
  moreover have "combo_run opts ?st1 (replicate k ArrowDown @ rest) =
      combo_run opts (?st1\<lparr>cs_selected_index := cs_selected_index ?st1 + int k\<rparr>) rest"
    using Suc.IH [of ?st1] Suc.prems by simp
  ultimately show ?case by (simp add: algebra_simps option.map_id)
qed

lemma combo_reachable_inv: "combo_reachable opts st \<Longrightarrow> combo_inv opts st"
proof (induction rule: combo_reachable.induct)
  case init
  show ?case by (rule combo_inv_init)
next
  case (step st ev st' out)
  show ?case by (rule combo_inv_step [OF step.IH step.hyps(2)])
qed

subsection \<open>Properties\<close>

text \<open>
  C15. Invariant. Closing the dropdown, in any way, forgets the highlighted option: every
  reachable store with a closed dropdown is the initial one, so reopening it never starts
  from a stale highlight (this is what the \<^verbatim>\<open>onDropdownClose\<close> callback of line 24 is for).
\<close>

theorem combo_closed_forgets:
  assumes "combo_reachable opts st" and "\<not> cs_opened st"
  shows "st = init_store"
  using combo_inv_closed [OF combo_reachable_inv [OF assms(1)] assms(2)] .

text \<open>
  C17. Functional. Whenever the widget calls \<^verbatim>\<open>onSelect\<close>, by a click on an option or
  by Enter on the highlighted one, the value is one of the option values, the dropdown was
  open, and it is left closed with nothing highlighted.
\<close>

theorem combo_submits_offered:
  assumes "combo_step opts st ev = Some (st', Some v)"
  shows "v \<in> set (submittable opts) \<and> cs_opened st \<and> st' = init_store"
  using combo_submit_step [OF assms] .

text \<open>
  C16. Liveness. From any reachable store with a closed dropdown, every option can be chosen
  with the keyboard alone after opening: a click on the target, \<open>i + 1\<close> presses of
  ArrowDown and Enter submit exactly the value of option \<open>i\<close>, and close the dropdown.
\<close>

theorem combo_keyboard_select:
  assumes r: "combo_reachable opts st" and c: "\<not> cs_opened st" and i: "i < length opts"
  shows "combo_run opts st (TargetClick # replicate (Suc i) ArrowDown @ [EnterKey]) =
    Some (init_store, [opt_value (opts ! i)])"
proof -
  have st: "st = init_store" using combo_inv_closed [OF combo_reachable_inv [OF r] c] .
  define so where "so = \<lparr>cs_opened = True, cs_selected_index = -1\<rparr>"
  have t: "combo_step opts st TargetClick = Some (so, None)"
    by (simp add: st so_def init_store_def toggleDropdown_def openDropdown_def)
  have a: "combo_run opts so (replicate (Suc i) ArrowDown @ [EnterKey]) =
      combo_run opts (so\<lparr>cs_selected_index := int i\<rparr>) [EnterKey]"
    using combo_run_arrows [of so "Suc i" opts "[EnterKey]"] i by (simp add: so_def)
  have "combo_run opts (so\<lparr>cs_selected_index := int i\<rparr>) [EnterKey] = Some (init_store, [opt_value (opts ! i)])"
    using i by (simp add: so_def onOptionSubmit_def)
  then show ?thesis using t a by simp
qed

end
