(* ===== verification/Page.thy ===== *)
theory Page
  imports ComponentSpec ComboboxStore
begin

text \<open>
  The page: the component of theory \<open>Controller\<close> together with the dropdown store of
  the widget it renders (theory \<open>ComboboxStore\<close>). \<^verbatim>\<open>TransportMap.tsx\<close> renders the
  \<^verbatim>\<open>Combobox\<close> only once the data is there (line 43), with the options of the data and
  the state setter \<^verbatim>\<open>setSelectedLine\<close> as \<^verbatim>\<open>onSelect\<close> (lines 44--51); so a user event
  on the widget is possible only while the component is mounted with data, and a value the
  widget submits is the component's \<open>Select\<close> event. After an uncaught exception React
  unmounts the whole tree, so the widget takes no more events. Events of the environment
  leave the widget's store alone.
\<close>

text \<open>Lines 44--52: the props the component passes to the \<^verbatim>\<open>Combobox\<close>; the class name
  is the CSS module's \<^verbatim>\<open>styles.controls\<close>.\<close>

definition transport_combobox_props :: "transport_data \<Rightarrow> string option \<Rightarrow> event combobox_props" where
  "transport_combobox_props d selectedLine =
     \<lparr>cp_className = ''controls'', cp_options = options d, cp_value = selectedLine, cp_onSelect = Select\<rparr>"

record page =
  pg_sys :: sys
  pg_store :: combo_store

datatype page_event = Env event | Widget combo_event

fun page_step :: "config \<Rightarrow> page \<Rightarrow> page_event \<Rightarrow> page option" where
  "page_step cfg p (Env ev) = map_option (\<lambda>s'. p\<lparr>pg_sys := s'\<rparr>) (step cfg (pg_sys p) ev)"
| "page_step cfg p (Widget we) =
     (if \<not> ui_mounted (s_ui (pg_sys p)) \<or> s_crashed (pg_sys p) \<noteq> None then None
      else case ui_data (s_ui (pg_sys p)) of
        None \<Rightarrow> None
      | Some d \<Rightarrow>
          (let props = transport_combobox_props d (ui_selected (s_ui (pg_sys p)))
           in case combo_step (cp_options props) (pg_store p) we of
             None \<Rightarrow> None
           | Some (st', None) \<Rightarrow> Some (p\<lparr>pg_store := st'\<rparr>)
           | Some (st', Some v) \<Rightarrow>
               map_option (\<lambda>s'. \<lparr>pg_sys = s', pg_store = st'\<rparr>) (step cfg (pg_sys p) (cp_onSelect props v))))"

fun page_run :: "config \<Rightarrow> page \<Rightarrow> page_event list \<Rightarrow> page option" where
  "page_run cfg p [] = Some p"
| "page_run cfg p (e # es) = (case page_step cfg p e of None \<Rightarrow> None | Some p' \<Rightarrow> page_run cfg p' es)"

subsection \<open>Lemmas\<close>

lemma transport_combobox_props_sel [simp]:
  "cp_options (transport_combobox_props d sel) = options d"
  "cp_value (transport_combobox_props d sel) = sel"
  "cp_onSelect (transport_combobox_props d sel) = Select"
  by (simp_all add: transport_combobox_props_def)

lemma select_offered_Some:
  assumes inv: "sys_inv cfg s" and m: "ui_mounted (s_ui s)" and d: "ui_data (s_ui s) = Some d"
    and v: "v \<in> set (submittable (options d))"
  shows "\<exists>s'. step cfg s (Select v) = Some s' \<and> ui_selected (s_ui s') = Some v"
  using sys_invD(1) [OF inv] m d v by (auto simp: settle_fields)

lemma page_submit:
  assumes inv: "sys_inv cfg (pg_sys p)" and m: "ui_mounted (s_ui (pg_sys p))"
    and d: "ui_data (s_ui (pg_sys p)) = Some d"
    and w: "combo_step (options d) (pg_store p) we = Some (st', Some v)"
  shows "\<exists>s'. page_step cfg p (Widget we) = Some \<lparr>pg_sys = s', pg_store = st'\<rparr> \<and>
    step cfg (pg_sys p) (Select v) = Some s' \<and> ui_selected (s_ui s') = Some v"
proof -
  have "v \<in> set (submittable (options d))" using combo_submit_step [OF w] by blast
  then obtain s' where s': "step cfg (pg_sys p) (Select v) = Some s'" "ui_selected (s_ui s') = Some v"
    using select_offered_Some [OF inv m d] by blast
  then show ?thesis using m d w sys_invD(1) [OF inv] by simp
qed

lemma length_options [simp]: "length (options d) = length (lines d)"
  by (simp add: options_def)

lemma options_nth_value: "i < length (lines d) \<Longrightarrow> opt_value (options d ! i) = transportLineId (lines d ! i)"
  by (simp add: options_def)

lemma shown_select:
  assumes "v_mounted v" "v_loaded v" "v_data v = Some d"
  shows "shown (v\<lparr>v_selected := Some k\<rparr>) =
    Some (map line_feature (matching_lines k d), Some (turf_bbox (map line_feature (matching_lines k d)), selection_padding))"
  using assms by (simp add: shown_def)

lemma click_highlights:
  assumes sc: "style_compatible cfg" and r: "reachable cfg (pg_sys p)"
    and m: "ui_mounted (s_ui (pg_sys p))" and d: "ui_data (s_ui (pg_sys p)) = Some d"
    and e: "w_maps (s_world (pg_sys p)) 0 = Some e" "eng_loaded e"
    and c: "\<not> cs_opened (pg_store p)" and i: "i < length (lines d)"
  defines "k \<equiv> transportLineId (lines d ! i)"
  shows "\<exists>p'. page_run cfg p [Widget TargetClick, Widget (OptionClick i)] = Some p' \<and>
    observed (pg_sys p') =
      Some (map line_feature (matching_lines k d), Some (turf_bbox (map line_feature (matching_lines k d)), selection_padding))"
proof -
  define p1 where "p1 = p\<lparr>pg_store := openDropdown (pg_store p)\<rparr>"
  have s1: "page_step cfg p (Widget TargetClick) = Some p1"
    using m d c sys_invD(1) [OF reachable_sys_inv [OF r sc]] by (simp add: p1_def toggleDropdown_def)
  have w: "combo_step (options d) (pg_store p1) (OptionClick i) = Some (init_store, Some k)"
    using i by (simp add: p1_def openDropdown_def onOptionSubmit_def options_nth_value k_def)
  have f1: "sys_inv cfg (pg_sys p1)" "ui_mounted (s_ui (pg_sys p1))" "ui_data (s_ui (pg_sys p1)) = Some d"
    using reachable_sys_inv [OF r sc] m d by (simp_all add: p1_def)
  obtain s' where s': "page_step cfg p1 (Widget (OptionClick i)) = Some \<lparr>pg_sys = s', pg_store = init_store\<rparr>"
      "step cfg (pg_sys p) (Select k) = Some s'"
    using page_submit [OF f1 w] by (auto simp: p1_def)
  have "astep (abs_view (pg_sys p)) (Select k) = Some (abs_view s')"
    by (rule step_abs_view [OF reachable_sys_inv [OF r sc] sc s'(2)])
  moreover have "v_mounted (abs_view (pg_sys p))" "v_data (abs_view (pg_sys p)) = Some d"
    using m d by (simp_all add: abs_view_def)
  ultimately have av: "abs_view s' = (abs_view (pg_sys p))\<lparr>v_selected := Some k\<rparr>"
    by (simp split: if_splits)
  have "observed s' = shown (abs_view s')"
    by (rule reachable_observed [OF reachable.step [OF r s'(2)] sc])
  also have "\<dots> = Some (map line_feature (matching_lines k d),
      Some (turf_bbox (map line_feature (matching_lines k d)), selection_padding))"
    unfolding av by (rule shown_select) (simp_all add: abs_view_def m d e)
  finally show ?thesis using s1 s'(1) by simp
qed

text \<open>Environment events on the page are the component's run.\<close>

lemma page_run_env:
  "page_run cfg p (map Env es @ rest) =
     (case run cfg (pg_sys p) es of None \<Rightarrow> None | Some s \<Rightarrow> page_run cfg (p\<lparr>pg_sys := s\<rparr>) rest)"
proof (induction es arbitrary: p)
  case Nil
  then show ?case by simp
next
  case (Cons ev es)
  then show ?case by (cases "step cfg (pg_sys p) ev") (simp_all split: option.split)
qed

subsection \<open>Properties\<close>

text \<open>
  C5. Functional (composition). On a reachable state whose map has loaded, a click on the
  closed combobox and a click on option \<open>i\<close> leave the map showing every line with the key
  of the \<open>i\<close>-th line, with the camera on their bounding box.
\<close>

theorem page_click_highlights:
  assumes sc: "style_compatible cfg" and r: "reachable cfg (pg_sys p)"
    and m: "ui_mounted (s_ui (pg_sys p))" and d: "ui_data (s_ui (pg_sys p)) = Some d"
    and e: "w_maps (s_world (pg_sys p)) 0 = Some e" "eng_loaded e"
    and c: "\<not> cs_opened (pg_store p)" and i: "i < length (lines d)"
  defines "k \<equiv> transportLineId (lines d ! i)"
  shows "\<exists>p'. page_run cfg p [Widget TargetClick, Widget (OptionClick i)] = Some p' \<and>
    observed (pg_sys p') =
      Some (map line_feature (matching_lines k d), Some (turf_bbox (map line_feature (matching_lines k d)), selection_padding))"
  using click_highlights [OF sc r m d e c i] unfolding k_def .

text \<open>
  C6. Liveness (the whole page). From the first render, with any data and any of its lines,
  the page can be brought to show that line: the mount, the arrival of the data, the
  map's load, a click on the combobox and a click on the option leave the map showing
  every line of its key with the camera on their bounding box.
\<close>

theorem page_reaches_selection:
  assumes sc: "style_compatible cfg" and i: "i < length (lines d)"
  defines "k \<equiv> transportLineId (lines d ! i)"
  shows "\<exists>p'. page_run cfg \<lparr>pg_sys = init_sys, pg_store = init_store\<rparr>
      [Env Mount, Env (FetchResolved d), Env (MapLoad 0), Widget TargetClick, Widget (OptionClick i)] = Some p' \<and>
    observed (pg_sys p') =
      Some (map line_feature (matching_lines k d), Some (turf_bbox (map line_feature (matching_lines k d)), selection_padding))"
proof -
  let ?es = "[Mount, FetchResolved d, MapLoad 0]"
  have "arun init_view ?es = Some (init_view\<lparr>v_mounted := True, v_fetch := FetchDone, v_data := Some d,
      v_map := True, v_loaded := True\<rparr>)"
    by (simp add: init_view_def)
  then obtain s3 where s3: "run cfg init_sys ?es = Some s3"
      and v: "abs_view s3 = init_view\<lparr>v_mounted := True, v_fetch := FetchDone, v_data := Some d,
      v_map := True, v_loaded := True\<rparr>"
    using run_abs_view [OF reachable.init sc, of ?es] by (cases "run cfg init_sys ?es") auto
  have r: "reachable cfg s3" by (rule run_init_reachable [OF s3])
  have m: "ui_mounted (s_ui s3)" and dd: "ui_data (s_ui s3) = Some d"
    using v by (simp_all add: abs_view_def init_view_def)
  obtain e where e: "w_maps (s_world s3) 0 = Some e" "eng_loaded e"
    using v by (auto simp: abs_view_def init_view_def split: option.splits)
  have c: "\<not> cs_opened (pg_store \<lparr>pg_sys = s3, pg_store = init_store\<rparr>)" by (simp add: init_store_def)
  obtain p' where p': "page_run cfg \<lparr>pg_sys = s3, pg_store = init_store\<rparr> [Widget TargetClick, Widget (OptionClick i)] = Some p'"
      "observed (pg_sys p') =
       Some (map line_feature (matching_lines k d), Some (turf_bbox (map line_feature (matching_lines k d)), selection_padding))"
    using click_highlights [of cfg "\<lparr>pg_sys = s3, pg_store = init_store\<rparr>", OF sc _ _ _ _ _ c i] r m dd e
    unfolding k_def by auto
  have "page_run cfg \<lparr>pg_sys = init_sys, pg_store = init_store\<rparr>
      (map Env ?es @ [Widget TargetClick, Widget (OptionClick i)]) =
      page_run cfg (\<lparr>pg_sys = init_sys, pg_store = init_store\<rparr>\<lparr>pg_sys := s3\<rparr>) [Widget TargetClick, Widget (OptionClick i)]"
    by (simp only: page_run_env page.select_convs s3 option.case)
  also have "\<dots> = Some p'" using p'(1) by simp
  finally show ?thesis using p'(2) by auto
qed

end
