(* ===== verification/BuildScript.thy ===== *)
theory BuildScript
  imports JsRuntime
begin

text \<open>
  The build script \<^verbatim>\<open>src/esbuild.cjs\<close>: it reads \<^verbatim>\<open>dependencies\<close> and
  \<^verbatim>\<open>peerDependencies\<close> of \<^verbatim>\<open>package.json\<close>, marks every name in them as external,
  bundles \<^verbatim>\<open>TransportMap.tsx\<close> into an ES module and exits with status 1 when the
  build rejects. A JSON object is its entries in wire order (\<open>None\<close> for a missing field,
  \<^verbatim>\<open>undefined\<close>); \<^verbatim>\<open>Object.keys\<close> is modelled from the language specification: the
  keys that are array indices in ascending numeric order, then the other keys in the order
  they were first created. esbuild itself is a parameter: a function saying whether the
  build with given options succeeds. An exception that escapes the script's top level
  ends the process (status 1, with the error printed) before any build is started.
\<close>

record package_json =
  pkg_dependencies :: "(string \<times> string) list option"
  pkg_peerDependencies :: "(string \<times> string) list option"

datatype script_error = TypeError string | ModuleNotFound string

record build_options =
  bo_entryPoints :: "string list"
  bo_outfile :: string
  bo_bundle :: bool
  bo_format :: string
  bo_target :: string
  bo_plugins :: "string list"
  bo_external :: "string list"

datatype script_result = Exit nat | Uncaught script_error

subsection \<open>Object.keys\<close>

text \<open>A canonical array index: decimal digits without a leading zero, below \<open>2\<^sup>3\<^sup>2 - 1\<close>.\<close>

definition is_array_index :: "string \<Rightarrow> bool" where
  "is_array_index s \<longleftrightarrow>
     s \<noteq> [] \<and> list_all is_digit s \<and> (s = ''0'' \<or> hd s \<noteq> CHR ''0'') \<and>
     int (fst (read_digits 0 s)) < 2 ^ 32 - 1"

definition object_keys :: "(string \<times> 'a) list \<Rightarrow> string list" where
  "object_keys kvs =
     (let ks = first_occurrences (map fst kvs)
      in sort_key (\<lambda>s. fst (read_digits 0 s)) (filter is_array_index ks) @ filter (\<lambda>s. \<not> is_array_index s) ks)"

text \<open>\<^verbatim>\<open>Object.keys(v)\<close>: a \<^verbatim>\<open>TypeError\<close> on \<^verbatim>\<open>undefined\<close>.\<close>

definition Object_keys :: "(string \<times> 'a) list option \<Rightarrow> script_error + string list" where
  "Object_keys v =
     (case v of None \<Rightarrow> Inl (TypeError ''Cannot convert undefined or null to object'') | Some kvs \<Rightarrow> Inr (object_keys kvs))"

subsection \<open>The script\<close>

text \<open>Lines 13--16: \<^verbatim>\<open>[].concat.apply([], [Object.keys(dependencies), Object.keys(peerDependencies)])\<close>,
  the arguments evaluated left to right.\<close>

definition externals :: "package_json \<Rightarrow> script_error + string list" where
  "externals pkg =
     ebind (Object_keys (pkg_dependencies pkg)) (\<lambda>ds.
     ebind (Object_keys (pkg_peerDependencies pkg)) (\<lambda>ps. Inr ([] @ ds @ ps)))"

text \<open>Lines 6--17: the options passed to \<^verbatim>\<open>esbuild.build\<close>.\<close>

definition build_config :: "string list \<Rightarrow> build_options" where
  "build_config ext =
     \<lparr>bo_entryPoints = [''./src/components/TransportMap.tsx''], bo_outfile = ''dist/index.js'',
      bo_bundle = True, bo_format = ''esm'', bo_target = ''es6'', bo_plugins = [''nodeExternalsPlugin''],
      bo_external = ext\<rparr>"

text \<open>Lines 1--18: \<^verbatim>\<open>require("./package.json")\<close> (\<open>None\<close> when the file is missing), the
  externals, then \<^verbatim>\<open>esbuild.build(...).catch(() => process.exit(1))\<close>.\<close>

definition esbuild_script :: "package_json option \<Rightarrow> (build_options \<Rightarrow> bool) \<Rightarrow> script_result" where
  "esbuild_script pj build =
     (case pj of
        None \<Rightarrow> Uncaught (ModuleNotFound ''./package.json'')
      | Some pkg \<Rightarrow>
          (case externals pkg of
             Inl err \<Rightarrow> Uncaught err
           | Inr ext \<Rightarrow> if build (build_config ext) then Exit 0 else Exit 1))"

subsection \<open>Lemmas\<close>

lemma set_object_keys [simp]: "set (object_keys kvs) = fst ` set kvs"
  by (auto simp: object_keys_def Let_def)

lemma distinct_object_keys: "distinct (object_keys kvs)"
  by (auto simp: object_keys_def Let_def distinct_sort)

lemma externals_Some:
  "pkg_dependencies pkg = Some ds \<Longrightarrow> pkg_peerDependencies pkg = Some ps \<Longrightarrow>
   externals pkg = Inr (object_keys ds @ object_keys ps)"
  by (simp add: externals_def Object_keys_def)

subsection \<open>Properties\<close>

text \<open>
  C25. Functional. With both fields present, the script builds with every name of
  \<^verbatim>\<open>dependencies\<close> and \<^verbatim>\<open>peerDependencies\<close> marked external and no other, the
  dependencies first, each list without duplicates, and exits with status 0 exactly when
  the build succeeds and 1 otherwise.
\<close>

theorem esbuild_externals:
  assumes "pkg_dependencies pkg = Some ds" and "pkg_peerDependencies pkg = Some ps"
  shows "esbuild_script (Some pkg) build =
      (if build (build_config (object_keys ds @ object_keys ps)) then Exit 0 else Exit 1) \<and>
    set (object_keys ds @ object_keys ps) = fst ` set ds \<union> fst ` set ps \<and>
    distinct (object_keys ds) \<and> distinct (object_keys ps)"
  using externals_Some [OF assms] by (simp add: esbuild_script_def distinct_object_keys)

text \<open>
  C26. Error. When \<^verbatim>\<open>package.json\<close> has no \<^verbatim>\<open>dependencies\<close> or no
  \<^verbatim>\<open>peerDependencies\<close>, \<^verbatim>\<open>Object.keys\<close> throws a \<^verbatim>\<open>TypeError\<close> at the top level:
  the build is never started, whatever esbuild would do, and the \<^verbatim>\<open>.catch\<close> handler is
  not reached.
\<close>

theorem esbuild_missing_field:
  assumes "pkg_dependencies pkg = None \<or> pkg_peerDependencies pkg = None"
  shows "esbuild_script (Some pkg) build = Uncaught (TypeError ''Cannot convert undefined or null to object'')"
  using assms by (cases "pkg_dependencies pkg")
    (auto simp: esbuild_script_def externals_def Object_keys_def)

end
