(* ===== verification/LintConfig.thy ===== *)
theory LintConfig
  imports Main
begin

text \<open>
  The lint configuration \<^verbatim>\<open>src/eslint.config.js\<close>: an ESLint flat configuration, the
  array the module exports. Its entries are a settings object (the React version to
  assume, detected from the installed package) and the presets of the libraries, which
  are library data and stay opaque: a preset is named, and the spread
  \<^verbatim>\<open>...ts.configs.recommended\<close> contributes the entries of typescript-eslint's list, a
  parameter here. ESLint applies the entries in array order, a later entry overriding an
  earlier one; no code of the program runs in it.
\<close>

datatype lint_entry = SettingsEntry "(string \<times> string) list" | PresetEntry string

text \<open>Lines 6--17: \<^verbatim>\<open>[{settings: {react: {version: "detect"}}}, js.configs.recommended,
  ...ts.configs.recommended, reactRecommended]\<close>.\<close>

definition eslint_config :: "lint_entry list \<Rightarrow> lint_entry list" where
  "eslint_config ts_recommended =
     [SettingsEntry [(''react.version'', ''detect'')], PresetEntry ''@eslint/js recommended'']
     @ ts_recommended @ [PresetEntry ''eslint-plugin-react recommended'']"

end
