(* ===== verification/Spec2Isabelle.thy ===== *)
theory Spec2Isabelle
  imports Page BuildScript LintConfig
begin

text \<open>
  \<^bold>\<open>Verification development of the Frankfurt tram-lines map.\<close>
  The program (\<^verbatim>\<open>src/src/components\<close>) is one React component, \<^verbatim>\<open>TransportMap\<close>
  (\<^verbatim>\<open>TransportMap.tsx\<close>), that fetches the tram network as JSON
  (\<^verbatim>\<open>useTransportData\<close> in \<^verbatim>\<open>transport-data.ts\<close>), shows it on a MapLibre
  map owned by an object of class \<^verbatim>\<open>TransportMap\<close> (\<^verbatim>\<open>transport-map.ts\<close>), and
  lets the user pick a line in a combobox (\<^verbatim>\<open>Combobox.tsx\<close>, labels from
  \<^verbatim>\<open>TransportLineLabel.tsx\<close>). The hook \<^verbatim>\<open>useTransportMap\<close> glues them: one
  effect constructs the map object when the container is known, one adds the layers
  once map and data are there, one highlights the selected line once the layers are
  added. The build script \<^verbatim>\<open>src/esbuild.cjs\<close> bundles the component. Every part
  with behaviour is modelled; the theories, in import order:

  \<^item> \<open>Prelude\<close>: the error monad (\<open>js_error + 'a\<close>, an exception is \<open>Inl\<close>), the
    accumulate-and-push loop \<open>push_loop\<close>, first occurrences, generic list and map lemmas.
  \<^item> \<open>JsRuntime\<close>, \<open>GeoJSON\<close>, \<open>Engine\<close>: the library code the program calls, modelled
    from the specifications: the decimal rendering of a number in a template literal and
    its inverse \<open>read_digits\<close>, \<^verbatim>\<open>Object.values\<close> on integer keys, the insertion-ordered
    \<^verbatim>\<open>Map\<close>; GeoJSON with Turf's \<^verbatim>\<open>bbox\<close> and \<^verbatim>\<open>centroid\<close>; the MapLibre map as a
    record \<open>engine\<close> (sources, layers, controls, loaded flag, the log of
    \<^verbatim>\<open>fitBounds\<close> requests whose last entry is the viewport) with \<^verbatim>\<open>addSource\<close>,
    \<^verbatim>\<open>addLayer\<close>, \<^verbatim>\<open>getSource\<close>/\<^verbatim>\<open>setData\<close>, \<^verbatim>\<open>fitBounds\<close>,
    \<^verbatim>\<open>addControl\<close> and the process-wide protocol table.
  \<^item> \<open>TransportData\<close>: the types of \<^verbatim>\<open>transport-data.ts\<close> as records and the line
    key \<open>transportLineId\<close>.
  \<^item> \<open>Aggregator\<close>: the loops at the start of \<^verbatim>\<open>addTransportLayers\<close> (lines 84--136)
    that build the line, station and centroid collections; each loop is proved equal to
    a reference list expression, and the centroids are one per station name at the mean
    of the group (\<open>centroid_per_name\<close>).
  \<^item> \<open>MapSurface\<close>: the class \<^verbatim>\<open>TransportMap\<close>: its constructor and \<^verbatim>\<open>destruct\<close>
    on a \<open>world\<close> of all maps and the protocol table, \<^verbatim>\<open>addTransportLayers\<close>
    (four sources, three layers), and \<^verbatim>\<open>setSelectedLine\<close> as the loop \<open>select_loop\<close>
    that the source writes, proved equal to the reference \<open>select_spec\<close>
    (\<open>setSelectedLine_refines_spec\<close>); its lemmas give the highlight, the no-match
    case, idempotence, the exceptions and the well-formedness of the map.
  \<^item> \<open>Combobox\<close>: the options built from the lines, the option map built with
    \<^verbatim>\<open>reduce\<close> and object spread, the label shown for the selected value, and
    \<^verbatim>\<open>TransportLineLabel\<close>.
  \<^item> \<open>ComboboxStore\<close>: the dropdown store of \<^verbatim>\<open>useCombobox\<close> (open flag and
    highlighted index, Mantine's store operations from its documentation) and the
    component's handlers (\<^verbatim>\<open>Combobox.tsx\<close> lines 23--45) as \<open>combo_step\<close> on user
    events; its invariant, that a closed dropdown highlights nothing, by rule induction.
  \<^item> \<open>Controller\<close>: the component under React's rules as a state machine. The
    state \<open>sys\<close> holds the component's \<^verbatim>\<open>useState\<close> cells and ref and what React
    remembers of each effect (\<open>ui\<close>), the \<open>world\<close>, the progress of the fetch and a
    crash. \<open>commit\<close> runs, after a render, the cleanup and the bodies of the effects
    whose dependency arrays changed, in hook order (\<open>fetch_effect\<close>, \<open>init_effect\<close>,
    \<open>layers_effect\<close>, \<open>select_effect\<close> for the effects at
    \<^verbatim>\<open>transport-data.ts\<close> 53--59 and \<^verbatim>\<open>transport-map.ts\<close> 223--230, 233--238,
    241--245); \<open>settle\<close> re-renders while \<^verbatim>\<open>setLayersAdded\<close> is pending; \<open>step\<close>
    takes one event of the page (mount, the fetched data, a map's load, a choice in the
    combobox, unmount) and \<open>reachable\<close> collects the states events lead to.
  \<^item> \<open>ControllerInvariant\<close>: the invariant \<open>sys_inv\<close> of the reachable states, proved
    by rule induction with one preservation lemma per event (\<open>reachable_sys_inv\<close>), and
    the invariant that the selected key is an offered one.
  \<^item> \<open>ComponentSpec\<close>: an abstract specification of the component (a view of six
    fields, an abstract step per event, and \<open>shown\<close>, what the map shows in a view) and
    the refinement: \<open>abs_view\<close> is a functional simulation of \<open>step\<close> on the
    reachable states, for single events and for whole runs, and the map shows what
    \<open>shown\<close> prescribes.
  \<^item> \<open>Page\<close>: the component with the widget's store; a value the widget submits
    is the component's \<open>Select\<close> event.
  \<^item> \<open>BuildScript\<close>: \<^verbatim>\<open>esbuild.cjs\<close>, with \<^verbatim>\<open>Object.keys\<close> from the language
    specification and esbuild as a parameter.
  \<^item> \<open>LintConfig\<close>: the array \<^verbatim>\<open>eslint.config.js\<close> exports, with the library presets
    opaque; it is data only, and no property is stated of it.
  \<^item> This theory: the properties of the whole component, the example data of the spec,
    and the witnesses.

  \<^bold>\<open>What is proved.\<close> For the pure parts: equivalence of each loop with its
  reference definition, the functional behaviour of every method on every branch
  including its exceptions, and the centroid and bounding-box properties. For the
  component, assuming only that the map style does not itself define the program's
  source names (\<open>style_compatible\<close>): no reachable state has crashed, at most one map is
  constructed, the map exists exactly when the data has arrived, the layers are added
  exactly when the map has loaded, a choice made before or after the map's load ends in
  the same highlight, from every state with data one event adds the layers, and the
  \<^verbatim>\<open>pmtiles\<close> protocol is registered exactly while the component is mounted with a map.
  The assumption is needed: for every style that defines one of the four source names,
  mount, data and load crash the component on the first such name
  (\<open>style_clash_crashes\<close>). The component refines its abstract specification: on every
  reachable state an event is possible exactly when the specification allows it and the
  views agree after it (\<open>component_refines\<close>), and after any sequence of events the map
  shows what the specification prescribes (\<open>run_shows_spec\<close>). For the widget and the
  page: closing the dropdown forgets the highlight, every submitted value is an option's
  and closes the dropdown, every option can be chosen with the keyboard, two clicks
  highlight the chosen line on a loaded map, and from the first render every line of any
  data can be brought onto the map (\<open>page_reaches_selection\<close>). For the build: the
  externals are exactly the declared dependencies, the exit status follows the build,
  and a missing field of \<^verbatim>\<open>package.json\<close> throws before the build. Lemmas that are
  not among the properties record the example run of the spec (\<open>central_example_run\<close>),
  the collision of line keys (\<open>line_key_collision\<close>), the shared protocol table
  (\<open>protocol_overlap\<close>) and the page after a failed fetch (\<open>fetch_failure_no_map\<close>).

  \<^bold>\<open>Termination and bounds.\<close> Every loop of the source is structural recursion
  over a list. The only unbounded-looking construct is React's re-render loop
  \<open>settle\<close>: it is a \<open>function\<close> whose termination is proved with the measure that is
  1 while \<^verbatim>\<open>layersAdded\<close> is false and 0 after (the only state update an effect
  issues is \<^verbatim>\<open>setLayersAdded(true)\<close>, a no-op the second time), and
  \<open>settle_two_commits\<close> shows it performs at most two commits. No fuel is used. Line
  numbers are integral JS numbers (\<open>int\<close>), coordinates are \<open>real\<close>.

  \<^bold>\<open>Not modelled.\<close> Floating-point rounding (coordinates are real numbers, the
  spec asks for the mean within tolerance); the HTTP request and JSON parsing, which
  arrive as one event with the parsed data or as the rejection of the fetch; the drawing of the map, its tiles and
  the behaviour of the pmtiles protocol handler (only its registration is modelled);
  inside Mantine, the rendering of the dropdown, its scrolling and focus handling, and
  the highlight Mantine may set when an arrow key opens a closed dropdown (modelled as
  opening only: the option list is not in the document at that moment); esbuild's
  bundling itself (a parameter of \<open>esbuild_script\<close>) and the plugin
  \<^verbatim>\<open>nodeExternalsPlugin\<close>; React's development-mode double invocation of
  effects; CSS; what ESLint does with its configuration (the presets' rules are library
  data); the type declaration file, which only declares a library function's type.

  \<^bold>\<open>Modelling assumptions.\<close> The events of \<open>step\<close> are the page's own: a re-render
  of the component by its parent, and a change of its props (the style, the data URL),
  are not events, so \<open>map_waits_for_data\<close> and \<open>fetch_failure_no_map\<close> speak of a
  component whose parent does not re-render it. The decimal rendering of a line number in
  \<open>transportLineId\<close> is the plain one, which JavaScript uses for integers below
  \<open>10\<^sup>2\<^sup>1\<close>; larger numbers, printed with an exponent, are outside the
  model (real line numbers are small). The option map of the combobox is a plain
  association list: keys that collide with \<^verbatim>\<open>Object.prototype\<close> properties
  are not modelled. \<^verbatim>\<open>addLayer\<close> is modelled from MapLibre's documentation,
  throwing on a duplicate layer id.
\<close>

section \<open>Example data\<close>

text \<open>The datasets of the spec's examples (section 8).\<close>

definition line_1AB :: transport_line where
  "line_1AB = \<lparr>line_number = 1, line_from = ''A'', line_to = ''B'',
     line_geometry = MultiLineString [[(0, 0), (1, 1)]], line_stations = []\<rparr>"

definition line_2CD :: transport_line where
  "line_2CD = \<lparr>line_number = 2, line_from = ''C'', line_to = ''D'',
     line_geometry = MultiLineString [[(5, 5), (6, 7)]], line_stations = []\<rparr>"

definition two_lines_data :: transport_data where
  "two_lines_data = \<lparr>stations = [], lines = [line_1AB, line_2CD]\<rparr>"

text \<open>A loaded map whose only source is an empty GeoJSON \<^verbatim>\<open>transport-selected\<close> source.\<close>

definition selectable_engine :: engine where
  "selectable_engine =
     (new_map ''style.json'' (8, 50) 0 13 True attribution_html)
       \<lparr>eng_loaded := True, eng_sources := [''transport-selected'' \<mapsto> geojson []]\<rparr>"

text \<open>The same map after \<^verbatim>\<open>1AB\<close> was selected on \<open>two_lines_data\<close>.\<close>

definition selected_engine :: engine where
  "selected_engine = selectable_engine\<lparr>
     eng_sources := [''transport-selected'' \<mapsto> geojson [line_feature line_1AB]],
     eng_fits := [(Some (0, 0, 1, 1), selection_padding)]\<rparr>"

text \<open>A map before its style has loaded, and the same map loaded, with no style source.\<close>

definition unloaded_engine :: engine where
  "unloaded_engine = new_map ''style.json'' (8, 50) 0 13 True attribution_html"

definition loaded_engine :: engine where
  "loaded_engine = unloaded_engine\<lparr>eng_loaded := True\<rparr>"

text \<open>The component run on the two-station example of the spec, with a style without sources.\<close>

definition demo_cfg :: config where
  "demo_cfg = \<lparr>cfg_style = ''style.json'', cfg_center = (8, 50), cfg_style_sources = Map.empty, cfg_div = 7\<rparr>"

definition central_data :: transport_data where
  "central_data = \<lparr>stations = [(1, \<lparr>station_id = 1, name = ''Central'', position = (0, 0)\<rparr>),
                                (2, \<lparr>station_id = 2, name = ''Central'', position = (2, 0)\<rparr>)],
     lines = [\<lparr>line_number = 5, line_from = ''Central'', line_to = ''North'',
               line_geometry = MultiLineString [[(0, 0), (2, 3)]], line_stations = [1, 2]\<rparr>]\<rparr>"

definition fetched_state :: sys where
  "fetched_state = the (run demo_cfg init_sys [Mount, FetchResolved central_data])"

definition loaded_state :: sys where
  "loaded_state = the (run demo_cfg init_sys [Mount, FetchResolved central_data, MapLoad 0])"

definition preselected_state :: sys where
  "preselected_state =
     the (run demo_cfg init_sys [Mount, FetchResolved central_data, Select ''5CentralNorth''])"

definition unmounted_state :: sys where
  "unmounted_state =
     the (run demo_cfg init_sys [Mount, FetchResolved central_data, MapLoad 0, Unmount])"

definition failed_state :: sys where
  "failed_state = the (run demo_cfg init_sys [Mount, FetchRejected])"

text \<open>The same run with a style that itself defines a source named \<^verbatim>\<open>transport\<close>.\<close>

definition clashing_cfg :: config where
  "clashing_cfg = demo_cfg\<lparr>cfg_style_sources := [''transport'' \<mapsto> \<lparr>src_kind = VectorSource, src_data = []\<rparr>]\<rparr>"

text \<open>The combobox store with the dropdown open and the first option highlighted.\<close>

definition first_highlighted :: combo_store where
  "first_highlighted = \<lparr>cs_opened = True, cs_selected_index = 0\<rparr>"

text \<open>A \<^verbatim>\<open>package.json\<close> with two dependencies and two peer dependencies.\<close>

definition demo_package :: package_json where
  "demo_package = \<lparr>pkg_dependencies = Some [(''maplibre-gl'', ''^4.0.0''), (''pmtiles'', ''^3.0.0'')],
     pkg_peerDependencies = Some [(''react'', ''^18.0.0''), (''@mantine/core'', ''^7.0.0'')]\<rparr>"

section \<open>Properties of the component\<close>

text \<open>
  C2. Safety. With a style that does not itself define the program's source names, no reachable state of the component has crashed: no effect body throws, so \<^verbatim>\<open>addTransportLayers\<close> is never called before the map has loaded and \<^verbatim>\<open>setSelectedLine\<close> never before the layers were added.
\<close>

theorem reachable_no_crash:
  assumes "style_compatible cfg" and "reachable cfg s"
  shows "s_crashed s = None"
  using sys_invD(1) [OF reachable_sys_inv [OF assms(2,1)]] .

text \<open>
  C22. Bounds. At most one \<^verbatim>\<open>TransportMap\<close> is ever constructed (the counter of constructed maps stays at most 1), so the overlap of two live maps on the shared protocol table cannot occur in this program.
\<close>

theorem reachable_single_map:
  assumes "style_compatible cfg" and "reachable cfg s"
  shows "dom (w_maps (s_world s)) \<subseteq> {0} \<and> w_next (s_world s) \<le> 1"
  using sys_invD(2,4) [OF reachable_sys_inv [OF assms(2,1)]] by simp

text \<open>
  C12. Ordering. While the component is mounted, the map exists exactly when the transport data has arrived: the container ref is read during render, so the map is constructed only in the re-render that the data triggers, and its load event always comes after the data.
\<close>

theorem map_waits_for_data:
  assumes "style_compatible cfg" and "reachable cfg s" and "ui_mounted (s_ui s)"
  shows "w_maps (s_world s) 0 \<noteq> None \<longleftrightarrow> ui_data (s_ui s) \<noteq> None"
  using sys_invD(8,13) [OF reachable_sys_inv [OF assms(2,1)]] assms(3) by blast

text \<open>
  C13. Sequencing. While the component is mounted, \<^verbatim>\<open>layersAdded\<close> holds exactly when the map exists and has loaded with a GeoJSON \<^verbatim>\<open>transport-selected\<close> source.
\<close>

theorem layers_iff_provisioned:
  assumes "style_compatible cfg" and "reachable cfg s" and "ui_mounted (s_ui s)"
  shows "ui_layersAdded (s_ui s) \<longleftrightarrow> (\<exists>e. w_maps (s_world s) 0 = Some e \<and> provisioned e)"
proof -
  note I = sys_invD [OF reachable_sys_inv [OF assms(2,1)]]
  show ?thesis
    using I(9) I(10) I(16) assms(3) provisioned_loaded by (auto split: option.splits)
qed

text \<open>
  C20. Termination. The update loop after an event stops after at most two commits: the only update an effect issues is \<^verbatim>\<open>setLayersAdded(true)\<close>, which does nothing the second time.
\<close>

theorem settle_two_commits:
  "settle cfg s = (case commit cfg s of (s1, again) \<Rightarrow> if again then fst (commit cfg s1) else s1)"
proof (cases "commit cfg s")
  case (Pair s1 again)
  show ?thesis
  proof (cases again)
    case True
    have "\<not> snd (commit cfg s1)"
      using commit_no_again commit_again_layers [of cfg s] Pair True by simp
    then show ?thesis
      using Pair True settle_commit_True [of cfg s s1] settle_no_rerender [of cfg s1] by simp
  next
    case False
    then show ?thesis using Pair settle_commit_False by simp
  qed
qed

text \<open>
  C9. Functional. Once the layers are added, choosing a new line key in the combobox makes the map show exactly the lines with that key, with the viewport fitted to them.
\<close>

theorem select_event_highlights:
  assumes sc: "style_compatible cfg" and r: "reachable cfg s"
    and la: "ui_layersAdded (s_ui s)" and d: "ui_data (s_ui s) = Some d"
    and new: "ui_selected (s_ui s) \<noteq> Some k" and st: "step cfg s (Select k) = Some s'"
  shows "\<exists>e. w_maps (s_world s') 0 = Some e \<and> highlighted k d e"
  using select_step_highlights [OF reachable_sys_inv [OF r sc] la d new st] by blast

text \<open>
  C10. Functional. A line chosen before the map has loaded is shown when the map loads: the load event adds the layers and then applies the pending selection.
\<close>

theorem load_event_highlights:
  assumes sc: "style_compatible cfg" and r: "reachable cfg s" and m: "ui_mounted (s_ui s)"
    and d: "ui_data (s_ui s) = Some d" and k: "ui_selected (s_ui s) = Some k"
    and e: "w_maps (s_world s) 0 = Some e" "\<not> eng_loaded e"
  shows "\<exists>s' e'. step cfg s (MapLoad 0) = Some s' \<and> ui_layersAdded (s_ui s') \<and>
     w_maps (s_world s') 0 = Some e' \<and> highlighted k d e'"
proof -
  have key: "k \<in> set (map transportLineId (lines d))"
    using selection_offered_invariant [OF r sc] d k by (simp add: selection_offered_def)
  show ?thesis using load_step_highlights [OF reachable_sys_inv [OF r sc] sc m d k key e] by blast
qed

text \<open>
  C21. Liveness. From any reachable mounted state with data, at most one more event (the map's load) leads to a state with the layers added and the map ready for a selection.
\<close>

theorem load_completes:
  assumes sc: "style_compatible cfg" and r: "reachable cfg s" and m: "ui_mounted (s_ui s)"
    and d: "ui_data (s_ui s) \<noteq> None"
  shows "\<exists>es s'. length es \<le> 1 \<and> run cfg s es = Some s' \<and> ui_layersAdded (s_ui s') \<and>
     (\<exists>e. w_maps (s_world s') 0 = Some e \<and> provisioned e)"
proof -
  have inv: "sys_inv cfg s" by (rule reachable_sys_inv [OF r sc])
  note I = sys_invD [OF inv]
  obtain e where e: "w_maps (s_world s) 0 = Some e" using I(13) m d by auto
  show ?thesis
  proof (cases "eng_loaded e")
    case True
    then have "ui_layersAdded (s_ui s) \<and> provisioned e" using I(16) m e by simp
    then show ?thesis using e by (intro exI [of _ "[]"]) auto
  next
    case False
    obtain t2 where t2: "step cfg s (MapLoad 0) = Some (settle cfg t2)" "ui_mounted (s_ui t2)"
        "ui_map (s_ui t2) = Some 0"
      using mapload_commit2 [OF inv sc m e False] by auto
    have "sys_inv cfg (settle cfg t2)" by (rule sys_inv_step [OF inv sc t2(1)])
    then have "ui_layersAdded (s_ui (settle cfg t2)) \<and>
        (\<exists>e. w_maps (s_world (settle cfg t2)) 0 = Some e \<and> provisioned e)"
      using settled_loaded_layers t2(2,3) by simp
    then show ?thesis using t2(1) by (intro exI [of _ "[MapLoad 0]"]) auto
  qed
qed


text \<open>
  C11. Ordering. Choosing a line before or after the map's load event gives the same highlight on the map: both orders show exactly the lines with the chosen key, with the same viewport; when nothing was selected before, both orders end with the same map.
\<close>

theorem select_load_order:
  assumes sc: "style_compatible cfg" and r: "reachable cfg s" and m: "ui_mounted (s_ui s)"
    and d: "ui_data (s_ui s) = Some d" and e: "w_maps (s_world s) 0 = Some e" "\<not> eng_loaded e"
    and key: "k \<in> set (map transportLineId (lines d))" and new: "ui_selected (s_ui s) \<noteq> Some k"
  shows "\<exists>sA sB eA eB. run cfg s [Select k, MapLoad 0] = Some sA \<and> run cfg s [MapLoad 0, Select k] = Some sB \<and>
     w_maps (s_world sA) 0 = Some eA \<and> highlighted k d eA \<and>
     w_maps (s_world sB) 0 = Some eB \<and> highlighted k d eB \<and>
     (ui_selected (s_ui s) = None \<longrightarrow> eA = eB)"
proof -
  have inv: "sys_inv cfg s" by (rule reachable_sys_inv [OF r sc])
  obtain sA e2 eA where A: "run cfg s [Select k, MapLoad 0] = Some sA"
      "addTransportLayers d (TransportMap_on_load (style_loaded (cfg_style_sources cfg) e)) = Inr e2"
      "setSelectedLine k d e2 = Inr eA" "w_maps (s_world sA) 0 = Some eA" "highlighted k d eA"
    using select_then_load [OF inv sc m d e key new] by blast
  from load_then_select [OF inv sc m d e key new] obtain sB eB
    where B: "run cfg s [MapLoad 0, Select k] = Some sB" "w_maps (s_world sB) 0 = Some eB"
      "highlighted k d eB"
    and B4: "ui_selected (s_ui s) = None \<Longrightarrow> setSelectedLine k d e2 = Inr eB"
    using A(2) by fastforce
  have eq: "ui_selected (s_ui s) = None \<longrightarrow> eA = eB" using A(3) B4 by auto
  show ?thesis
    by (intro exI conjI) (rule A(1), rule B(1), rule A(4), rule A(5), rule B(2), rule B(3), rule eq)
qed

text \<open>
  End to end (spec, section 8): on the two-station example, after mount, data, load and the
  choice of \<^verbatim>\<open>5CentralNorth\<close>, nothing has crashed, the centroid source holds one point named
  Central at (1, 0), the selected source holds line 5, and the viewport is its bounding box.
\<close>

lemma central_example_run:
  "case run demo_cfg init_sys [Mount, FetchResolved central_data, MapLoad 0, Select ''5CentralNorth''] of
     None \<Rightarrow> False
   | Some S \<Rightarrow> s_crashed S = None \<and>
       (case w_maps (s_world S) 0 of None \<Rightarrow> False
        | Some e \<Rightarrow>
            map_option (map geometry \<circ> src_data) (eng_sources e ''station-centroids'') = Some [Point (1, 0)] \<and>
            map_option (map properties \<circ> src_data) (eng_sources e ''station-centroids'') =
              Some [[(''name'', ''Central'')]] \<and>
            map_option (map geometry \<circ> src_data) (eng_sources e ''transport-selected'') =
              Some [MultiLineString [[(0, 0), (2, 3)]]] \<and>
            viewport e = Some (Some (0, 0, 2, 3), selection_padding))"
  by code_simp


text \<open>
  C23. Safety (the 1:1 pairing of spec section 5). In every reachable state the
  \<^verbatim>\<open>pmtiles\<close> protocol is registered, with the handler of the component's map, exactly
  while the component is mounted and its map exists: unmounting leaves no handler behind,
  and no handler is registered twice.
\<close>

theorem protocol_paired:
  assumes "style_compatible cfg" and "reachable cfg s"
  shows "w_protocols (s_world s) ''pmtiles'' =
    (if ui_mounted (s_ui s) \<and> w_maps (s_world s) 0 \<noteq> None then Some 0 else None)"
  using sys_invD(17) [OF reachable_sys_inv [OF assms(2,1)]] .

text \<open>
  After the fetch has failed no event ever constructs the map: the map waits
  for the re-render that only the data triggers, so the page keeps an empty container
  (and no data) for good.
\<close>

lemma fetch_failure_no_map:
  assumes "style_compatible cfg" and "reachable cfg s" and "s_fetch s = FetchFailed"
    and "run cfg s es = Some s'"
  shows "w_maps (s_world s') 0 = None \<and> ui_data (s_ui s') = None"
proof -
  have "reachable cfg s' \<and> s_fetch s' = FetchFailed"
    using run_keeps_failed [OF assms(2,1,3,4)] .
  then show ?thesis
    using sys_invD(8,18) [OF reachable_sys_inv [OF _ assms(1)]] by blast
qed

text \<open>
  C24. Error. The hypothesis on the style is needed: for any style that already defines one of
  the program's four source names, and any data, the mount, the arrival of the data and the
  map's load leave the component crashed: \<^verbatim>\<open>addTransportLayers\<close> throws from the
  \<^verbatim>\<open>addSource\<close> of the first such name in the code's order, and nothing catches it.
\<close>

theorem style_clash_crashes:
  assumes nc: "\<not> style_compatible cfg"
  defines "nm \<equiv> hd (filter (\<lambda>nm. cfg_style_sources cfg nm \<noteq> None) our_sources)"
  shows "\<exists>s'. run cfg init_sys [Mount, FetchResolved d, MapLoad 0] = Some s' \<and>
    s_crashed s' = Some (SourceAlreadyExists nm) \<and> nm \<in> set our_sources \<and> cfg_style_sources cfg nm \<noteq> None"
proof -
  obtain s1 where s1: "step cfg init_sys Mount = Some s1" using step_Mount_init by blast
  have inv1: "sys_inv cfg s1" by (rule sys_inv_mount [OF sys_inv_init s1])
  have f1: "ui_mounted (s_ui s1)" "s_fetch s1 = FetchPending" "s_crashed s1 = None" "ui_map (s_ui s1) = None"
    using s1 step_Mount_init [of cfg] by (auto simp: init_sys_def init_ui_def)
  define s2 where "s2 = settle cfg (s1\<lparr>s_fetch := FetchDone, s_ui := (s_ui s1)\<lparr>ui_data := Some d\<rparr>\<rparr>)"
  have st2: "step cfg s1 (FetchResolved d) = Some s2" using f1 by (simp add: s2_def Let_def)
  have inv2: "sys_inv cfg s2" by (rule sys_inv_fetch [OF inv1 st2])
  note I = sys_invD [OF inv2]
  have m: "ui_mounted (s_ui s2)" and dd: "ui_data (s_ui s2) = Some d" and nu: "ui_map (s_ui s2) = None"
    using f1 by (simp_all add: s2_def)
  obtain e where e: "w_maps (s_world s2) 0 = Some e" using I(13) m dd by auto
  have nl: "\<not> eng_loaded e" using I(16) m e nu by auto
  let ?e' = "TransportMap_on_load (style_loaded (cfg_style_sources cfg) e)"
  have src: "eng_sources ?e' = cfg_style_sources cfg"
    by (simp add: TransportMap_on_load_def style_loaded_def addControl_def)
  have ne: "filter (\<lambda>nm. cfg_style_sources cfg nm \<noteq> None) our_sources \<noteq> []"
    using nc by (auto simp: style_compatible_def filter_empty_conv)
  have "addTransportLayers d ?e' = Inl (SourceAlreadyExists nm)"
    using addTransportLayers_clash [of ?e' d] ne src unfolding nm_def by simp
  then obtain s' where s': "step cfg s2 (MapLoad 0) = Some s'" "s_crashed s' = Some (SourceAlreadyExists nm)"
    using commit_load_clash [OF inv2 m e nl dd] by blast
  have "nm \<in> set (filter (\<lambda>nm. cfg_style_sources cfg nm \<noteq> None) our_sources)"
    unfolding nm_def using ne by (rule hd_in_set)
  then show ?thesis using s1 st2 s' by auto
qed

section \<open>Witnesses\<close>

lemma transportLineId_examples [simp]:
  "transportLineId line_1AB = ''1AB''" "transportLineId line_2CD = ''2CD''"
  by (simp_all add: transportLineId_def js_number_to_string_def line_1AB_def line_2CD_def
      digit_string.simps)

lemma matching_1AB: "matching_lines ''1AB'' two_lines_data = [line_1AB]"
  by (simp add: matching_lines_def two_lines_data_def)

lemma select_1AB:
  "setSelectedLine ''1AB'' two_lines_data selectable_engine = Inr selected_engine"
  by (simp add: setSelectedLine_def two_lines_data_def selectable_engine_def getSource_def selected_engine_def
      geojson_def setData_def fitBounds_def turf_bbox_def line_feature_def line_1AB_def
      line_2CD_def new_map_def transportLineId_def js_number_to_string_def digit_string.simps)

theorem setSelectedLine_highlights_matches_witness:
  "\<exists>e'. setSelectedLine ''1AB'' two_lines_data selectable_engine = Inr e' \<and>
     viewport e' = Some (Some (0, 0, 1, 1), selection_padding) \<and>
     (\<exists>s. eng_sources e' ''transport-selected'' = Some s \<and>
        map geometry (src_data s) = [MultiLineString [[(0, 0), (1, 1)]]])"
proof -
  have m: "matching_lines ''1AB'' two_lines_data \<noteq> []" by (simp add: matching_1AB)
  obtain s where s: "eng_sources selected_engine ''transport-selected'' = Some s"
      "map geometry (src_data s) = map line_geometry (matching_lines ''1AB'' two_lines_data)"
    and v: "viewport selected_engine =
      Some (turf_bbox (map line_feature (matching_lines ''1AB'' two_lines_data)), selection_padding)"
    using setSelectedLine_highlights_matches [OF m select_1AB] by blast
  have g: "map line_geometry (matching_lines ''1AB'' two_lines_data) = [MultiLineString [[(0, 0), (1, 1)]]]"
    by (simp add: matching_1AB line_1AB_def)
  have b: "turf_bbox (map line_feature (matching_lines ''1AB'' two_lines_data)) = Some (0, 0, 1, 1)"
    by (simp add: matching_1AB line_feature_def line_1AB_def turf_bbox_def)
  show ?thesis
    using select_1AB s v g b by auto
qed

theorem setSelectedLine_no_match_witness:
  "matching_lines ''9ZZ'' two_lines_data = [] \<and>
   setSelectedLine ''9ZZ'' two_lines_data selected_engine = Inr selected_engine \<and>
   eng_sources selected_engine ''transport-selected'' = Some (geojson [line_feature line_1AB])"
proof -
  have m: "matching_lines ''9ZZ'' two_lines_data = []"
    by (simp add: matching_lines_def two_lines_data_def)
  show ?thesis
    using setSelectedLine_no_match [OF m, of selected_engine] m
    by (simp add: selected_engine_def)
qed

theorem setSelectedLine_idempotent_witness:
  "\<exists>e2. setSelectedLine ''1AB'' two_lines_data selected_engine = Inr e2 \<and>
     eng_sources e2 = eng_sources selected_engine \<and> viewport e2 = viewport selected_engine \<and>
     eng_layers e2 = eng_layers selected_engine"
  by (rule setSelectedLine_idempotent [OF select_1AB])

theorem setSelectedLine_error_witness:
  "matching_lines ''1AB'' two_lines_data \<noteq> [] \<and>
   (\<exists>err. setSelectedLine ''1AB'' two_lines_data loaded_engine = Inl err)"
proof -
  have m: "matching_lines ''1AB'' two_lines_data \<noteq> []" by (simp add: matching_1AB)
  have "eng_sources loaded_engine ''transport-selected'' = None"
    by (simp add: loaded_engine_def unloaded_engine_def new_map_def)
  then show ?thesis
    using setSelectedLine_error [OF m, of loaded_engine] m by simp
qed

lemma loaded_engine_fresh:
  "eng_loaded loaded_engine" "eng_sources loaded_engine = Map.empty" "eng_layers loaded_engine = []"
  by (simp_all add: loaded_engine_def unloaded_engine_def new_map_def)

theorem addTransportLayers_provisions_witness:
  "\<exists>e'. addTransportLayers two_lines_data loaded_engine = Inr e' \<and>
     eng_layers e' = [transport_layer, selected_layer, labels_layer] \<and>
     eng_sources e' ''transport-selected'' = Some (geojson [])"
  using addTransportLayers_provisions [of loaded_engine two_lines_data] by (simp add: loaded_engine_fresh)

lemma addTransportLayers_two_lines:
  "\<exists>e'. addTransportLayers two_lines_data loaded_engine = Inr e'"
  by (simp add: addTransportLayers_unfold addSource_def addLayer_def loaded_engine_fresh
      transport_layer_def selected_layer_def labels_layer_def)

theorem addTransportLayers_errors_witness:
  "addTransportLayers two_lines_data unloaded_engine = Inl StyleNotDoneLoading \<and>
   (\<exists>e'. addTransportLayers two_lines_data loaded_engine = Inr e' \<and>
      addTransportLayers two_lines_data e' = Inl (SourceAlreadyExists ''transport''))"
proof -
  obtain e' where r: "addTransportLayers two_lines_data loaded_engine = Inr e'"
    using addTransportLayers_two_lines by blast
  have u: "\<not> eng_loaded unloaded_engine" by (simp add: unloaded_engine_def new_map_def)
  show ?thesis
    using addTransportLayers_errors [of unloaded_engine two_lines_data] u
      addTransportLayers_errors [of loaded_engine two_lines_data e' two_lines_data] r
    by blast
qed

lemma demo_style_compatible: "style_compatible demo_cfg"
  by (simp add: style_compatible_def demo_cfg_def)

lemma fetched_run_eval:
  "case run demo_cfg init_sys [Mount, FetchResolved central_data] of None \<Rightarrow> False | Some S \<Rightarrow>
   ui_mounted (s_ui S) \<and> ui_data (s_ui S) = Some central_data \<and>
   ui_selected (s_ui S) = None \<and>
   (case w_maps (s_world S) 0 of None \<Rightarrow> False | Some e \<Rightarrow> \<not> eng_loaded e)"
  by code_simp

lemma fetched_run:
  "run demo_cfg init_sys [Mount, FetchResolved central_data] = Some fetched_state \<and>
   ui_mounted (s_ui fetched_state) \<and> ui_data (s_ui fetched_state) = Some central_data \<and>
   ui_selected (s_ui fetched_state) = None \<and>
   (case w_maps (s_world fetched_state) 0 of None \<Rightarrow> False | Some e \<Rightarrow> \<not> eng_loaded e)"
  unfolding fetched_state_def by (rule option_case_the [OF fetched_run_eval])

lemma loaded_run_eval:
  "case run demo_cfg init_sys [Mount, FetchResolved central_data, MapLoad 0] of None \<Rightarrow> False | Some S \<Rightarrow>
   ui_mounted (s_ui S) \<and> ui_data (s_ui S) = Some central_data \<and>
   ui_selected (s_ui S) = None \<and> ui_layersAdded (s_ui S) \<and> s_crashed S = None \<and>
   (case w_maps (s_world S) 0 of None \<Rightarrow> False | Some e \<Rightarrow> eng_loaded e)"
  by code_simp

lemma loaded_run:
  "run demo_cfg init_sys [Mount, FetchResolved central_data, MapLoad 0] = Some loaded_state \<and>
   ui_mounted (s_ui loaded_state) \<and> ui_data (s_ui loaded_state) = Some central_data \<and>
   ui_selected (s_ui loaded_state) = None \<and> ui_layersAdded (s_ui loaded_state) \<and> s_crashed loaded_state = None \<and>
   (case w_maps (s_world loaded_state) 0 of None \<Rightarrow> False | Some e \<Rightarrow> eng_loaded e)"
  unfolding loaded_state_def by (rule option_case_the [OF loaded_run_eval])

lemma preselected_run_eval:
  "case run demo_cfg init_sys [Mount, FetchResolved central_data, Select ''5CentralNorth''] of None \<Rightarrow> False | Some S \<Rightarrow>
   ui_mounted (s_ui S) \<and> ui_data (s_ui S) = Some central_data \<and>
   ui_selected (s_ui S) = Some ''5CentralNorth'' \<and>
   (case w_maps (s_world S) 0 of None \<Rightarrow> False | Some e \<Rightarrow> \<not> eng_loaded e)"
  by code_simp

lemma preselected_run:
  "run demo_cfg init_sys [Mount, FetchResolved central_data, Select ''5CentralNorth''] = Some preselected_state \<and>
   ui_mounted (s_ui preselected_state) \<and> ui_data (s_ui preselected_state) = Some central_data \<and>
   ui_selected (s_ui preselected_state) = Some ''5CentralNorth'' \<and>
   (case w_maps (s_world preselected_state) 0 of None \<Rightarrow> False | Some e \<Rightarrow> \<not> eng_loaded e)"
  unfolding preselected_state_def by (rule option_case_the [OF preselected_run_eval])

lemma unmounted_run_eval:
  "case run demo_cfg init_sys [Mount, FetchResolved central_data, MapLoad 0, Unmount] of
     None \<Rightarrow> False
   | Some S \<Rightarrow> \<not> ui_mounted (s_ui S) \<and> w_maps (s_world S) 0 \<noteq> None"
  by code_simp

lemma unmounted_run:
  "run demo_cfg init_sys [Mount, FetchResolved central_data, MapLoad 0, Unmount] = Some unmounted_state \<and>
   \<not> ui_mounted (s_ui unmounted_state) \<and> w_maps (s_world unmounted_state) 0 \<noteq> None"
  unfolding unmounted_state_def by (rule option_case_the [OF unmounted_run_eval])

lemma failed_run_eval:
  "case run demo_cfg init_sys [Mount, FetchRejected] of None \<Rightarrow> False
   | Some S \<Rightarrow> s_fetch S = FetchFailed \<and> run demo_cfg S [Unmount] \<noteq> None"
  by code_simp

lemma failed_run:
  "run demo_cfg init_sys [Mount, FetchRejected] = Some failed_state \<and>
   s_fetch failed_state = FetchFailed \<and> run demo_cfg failed_state [Unmount] \<noteq> None"
  unfolding failed_state_def by (rule option_case_the [OF failed_run_eval])

lemma central_key: "''5CentralNorth'' \<in> set (map transportLineId (lines central_data))"
  by (simp add: central_data_def transportLineId_def js_number_to_string_def digit_string.simps)

lemma demo_reachable:
  "reachable demo_cfg fetched_state" "reachable demo_cfg loaded_state" "reachable demo_cfg preselected_state"
  "reachable demo_cfg unmounted_state"
  using fetched_run loaded_run preselected_run unmounted_run by (blast intro: run_init_reachable)+

theorem reachable_no_crash_witness:
  "style_compatible demo_cfg \<and> reachable demo_cfg loaded_state \<and> s_crashed loaded_state = None"
  using reachable_no_crash [OF demo_style_compatible demo_reachable(2)]
    demo_style_compatible demo_reachable(2) by blast

theorem reachable_single_map_witness:
  "style_compatible demo_cfg \<and> reachable demo_cfg loaded_state \<and>
   dom (w_maps (s_world loaded_state)) \<subseteq> {0} \<and> w_next (s_world loaded_state) \<le> 1"
  using reachable_single_map [OF demo_style_compatible demo_reachable(2)]
    demo_style_compatible demo_reachable(2) by blast

theorem map_waits_for_data_witness:
  "style_compatible demo_cfg \<and> reachable demo_cfg fetched_state \<and> ui_mounted (s_ui fetched_state) \<and>
   (w_maps (s_world fetched_state) 0 \<noteq> None \<longleftrightarrow> ui_data (s_ui fetched_state) \<noteq> None)"
  using map_waits_for_data [OF demo_style_compatible demo_reachable(1)] fetched_run
    demo_style_compatible demo_reachable(1) by blast

theorem layers_iff_provisioned_witness:
  "style_compatible demo_cfg \<and> reachable demo_cfg loaded_state \<and> ui_mounted (s_ui loaded_state) \<and>
   (ui_layersAdded (s_ui loaded_state) \<longleftrightarrow>
     (\<exists>e. w_maps (s_world loaded_state) 0 = Some e \<and> provisioned e))"
  using layers_iff_provisioned [OF demo_style_compatible demo_reachable(2)] loaded_run
    demo_style_compatible demo_reachable(2) by blast

theorem select_event_highlights_witness:
  "\<exists>s'. style_compatible demo_cfg \<and> reachable demo_cfg loaded_state \<and> ui_layersAdded (s_ui loaded_state) \<and>
     ui_data (s_ui loaded_state) = Some central_data \<and> ui_selected (s_ui loaded_state) \<noteq> Some ''5CentralNorth'' \<and>
     step demo_cfg loaded_state (Select ''5CentralNorth'') = Some s' \<and>
     (\<exists>e. w_maps (s_world s') 0 = Some e \<and> highlighted ''5CentralNorth'' central_data e)"
proof -
  have f: "ui_layersAdded (s_ui loaded_state)" "ui_data (s_ui loaded_state) = Some central_data"
      "ui_selected (s_ui loaded_state) \<noteq> Some ''5CentralNorth''"
    using loaded_run by simp_all
  obtain s' where st: "step demo_cfg loaded_state (Select ''5CentralNorth'') = Some s'"
    using loaded_run central_key by simp
  show ?thesis
    using select_event_highlights [OF demo_style_compatible demo_reachable(2) f st] f st
      demo_style_compatible demo_reachable(2) by blast
qed

theorem load_event_highlights_witness:
  "\<exists>e. style_compatible demo_cfg \<and> reachable demo_cfg preselected_state \<and> ui_mounted (s_ui preselected_state) \<and>
     ui_data (s_ui preselected_state) = Some central_data \<and>
     ui_selected (s_ui preselected_state) = Some ''5CentralNorth'' \<and>
     w_maps (s_world preselected_state) 0 = Some e \<and> \<not> eng_loaded e \<and>
     (\<exists>s' e'. step demo_cfg preselected_state (MapLoad 0) = Some s' \<and> ui_layersAdded (s_ui s') \<and>
        w_maps (s_world s') 0 = Some e' \<and> highlighted ''5CentralNorth'' central_data e')"
proof -
  obtain e where f: "ui_mounted (s_ui preselected_state)" "ui_data (s_ui preselected_state) = Some central_data"
      "ui_selected (s_ui preselected_state) = Some ''5CentralNorth''"
      "w_maps (s_world preselected_state) 0 = Some e" "\<not> eng_loaded e"
    using preselected_run by (auto split: option.splits)
  show ?thesis
    using load_event_highlights [OF demo_style_compatible demo_reachable(3) f] f
      demo_style_compatible demo_reachable(3) by blast
qed

theorem load_completes_witness:
  "style_compatible demo_cfg \<and> reachable demo_cfg fetched_state \<and> ui_mounted (s_ui fetched_state) \<and>
   ui_data (s_ui fetched_state) \<noteq> None \<and>
   (\<exists>es s'. length es \<le> 1 \<and> run demo_cfg fetched_state es = Some s' \<and> ui_layersAdded (s_ui s') \<and>
      (\<exists>e. w_maps (s_world s') 0 = Some e \<and> provisioned e))"
proof -
  have f: "ui_mounted (s_ui fetched_state)" "ui_data (s_ui fetched_state) \<noteq> None"
    using fetched_run by simp_all
  show ?thesis
    using load_completes [OF demo_style_compatible demo_reachable(1) f] f
      demo_style_compatible demo_reachable(1) by blast
qed

theorem select_load_order_witness:
  "\<exists>e. style_compatible demo_cfg \<and> reachable demo_cfg fetched_state \<and> ui_mounted (s_ui fetched_state) \<and>
     ui_data (s_ui fetched_state) = Some central_data \<and> w_maps (s_world fetched_state) 0 = Some e \<and>
     \<not> eng_loaded e \<and> ''5CentralNorth'' \<in> set (map transportLineId (lines central_data)) \<and>
     ui_selected (s_ui fetched_state) = None \<and>
     (\<exists>sA sB eA. run demo_cfg fetched_state [Select ''5CentralNorth'', MapLoad 0] = Some sA \<and>
        run demo_cfg fetched_state [MapLoad 0, Select ''5CentralNorth''] = Some sB \<and>
        w_maps (s_world sA) 0 = Some eA \<and> w_maps (s_world sB) 0 = Some eA \<and>
        highlighted ''5CentralNorth'' central_data eA)"
proof -
  obtain e where f: "ui_mounted (s_ui fetched_state)" "ui_data (s_ui fetched_state) = Some central_data"
      "w_maps (s_world fetched_state) 0 = Some e" "\<not> eng_loaded e"
      "ui_selected (s_ui fetched_state) = None"
    using fetched_run by (auto split: option.splits)
  have n: "ui_selected (s_ui fetched_state) \<noteq> Some ''5CentralNorth''" using f(5) by simp
  show ?thesis
    using select_load_order [OF demo_style_compatible demo_reachable(1) f(1-4) central_key n] f
      central_key demo_style_compatible demo_reachable(1) by blast
qed

theorem protocol_paired_witness:
  "style_compatible demo_cfg \<and> reachable demo_cfg unmounted_state \<and>
   w_maps (s_world unmounted_state) 0 \<noteq> None \<and> w_protocols (s_world unmounted_state) ''pmtiles'' = None"
  using protocol_paired [OF demo_style_compatible demo_reachable(4)] unmounted_run
    demo_style_compatible demo_reachable(4) by simp

theorem component_refines_witness:
  "style_compatible demo_cfg \<and> reachable demo_cfg loaded_state \<and>
   map_option abs_view (step demo_cfg loaded_state (Select ''5CentralNorth'')) =
     astep (abs_view loaded_state) (Select ''5CentralNorth'')"
  using ComponentSpec.component_refines [OF demo_style_compatible demo_reachable(2)]
    demo_style_compatible demo_reachable(2) by blast

theorem run_shows_spec_witness:
  "style_compatible demo_cfg \<and>
   map_option observed (run demo_cfg init_sys [Mount, FetchResolved central_data, MapLoad 0, Select ''5CentralNorth'']) =
     map_option shown (arun init_view [Mount, FetchResolved central_data, MapLoad 0, Select ''5CentralNorth'']) \<and>
   map_option shown (arun init_view [Mount, FetchResolved central_data, MapLoad 0, Select ''5CentralNorth'']) =
     Some (Some (map line_feature (matching_lines ''5CentralNorth'' central_data),
       Some (turf_bbox (map line_feature (matching_lines ''5CentralNorth'' central_data)), selection_padding)))"
proof -
  have r: "map_option observed (run demo_cfg init_sys [Mount, FetchResolved central_data, MapLoad 0, Select ''5CentralNorth'']) =
     map_option shown (arun init_view [Mount, FetchResolved central_data, MapLoad 0, Select ''5CentralNorth''])"
    by (rule ComponentSpec.run_shows_spec [OF demo_style_compatible])
  have "map_option shown (arun init_view [Mount, FetchResolved central_data, MapLoad 0, Select ''5CentralNorth'']) =
     Some (Some (map line_feature (matching_lines ''5CentralNorth'' central_data),
       Some (turf_bbox (map line_feature (matching_lines ''5CentralNorth'' central_data)), selection_padding)))"
    using central_key by (simp add: init_view_def shown_def)
  then show ?thesis using r demo_style_compatible by simp
qed

lemma central_options:
  "length (options central_data) = 1" "opt_value (options central_data ! 0) = ''5CentralNorth''"
  by (simp_all add: options_def central_data_def transportLineId_def js_number_to_string_def digit_string.simps)

lemma first_highlighted_reachable: "combo_reachable (options central_data) first_highlighted"
proof -
  have "combo_step (options central_data) init_store TargetClick = Some (\<lparr>cs_opened = True, cs_selected_index = -1\<rparr>, None)"
    by (simp add: init_store_def toggleDropdown_def openDropdown_def)
  moreover have "combo_step (options central_data) \<lparr>cs_opened = True, cs_selected_index = -1\<rparr> ArrowDown =
      Some (first_highlighted, None)"
    using central_options(1) by (simp add: selectNextOption_def first_highlighted_def)
  ultimately show ?thesis by (blast intro: combo_reachable.intros)
qed

lemma first_highlighted_enter:
  "combo_step (options central_data) first_highlighted EnterKey = Some (init_store, Some ''5CentralNorth'')"
  using central_options by (simp add: first_highlighted_def onOptionSubmit_def)

theorem combo_closed_forgets_witness:
  "combo_reachable (options central_data) init_store \<and> \<not> cs_opened init_store \<and> init_store = init_store"
proof -
  have c: "\<not> cs_opened init_store" by (simp add: init_store_def)
  show ?thesis using ComboboxStore.combo_closed_forgets [OF combo_reachable.init c] combo_reachable.init c
    by blast
qed

theorem combo_submits_offered_witness:
  "combo_step (options central_data) first_highlighted EnterKey = Some (init_store, Some ''5CentralNorth'') \<and>
   ''5CentralNorth'' \<in> set (submittable (options central_data)) \<and> cs_opened first_highlighted"
  using ComboboxStore.combo_submits_offered [OF first_highlighted_enter] first_highlighted_enter by simp

theorem combo_keyboard_select_witness:
  "combo_reachable (options central_data) init_store \<and> \<not> cs_opened init_store \<and> 0 < length (options central_data) \<and>
   combo_run (options central_data) init_store [TargetClick, ArrowDown, EnterKey] = Some (init_store, [''5CentralNorth''])"
proof -
  have c: "\<not> cs_opened init_store" by (simp add: init_store_def)
  have "combo_run (options central_data) init_store (TargetClick # replicate (Suc 0) ArrowDown @ [EnterKey]) =
      Some (init_store, [opt_value (options central_data ! 0)])"
    by (rule ComboboxStore.combo_keyboard_select [OF combo_reachable.init c]) (simp add: central_data_def)
  then have "combo_run (options central_data) init_store [TargetClick, ArrowDown, EnterKey] =
      Some (init_store, [''5CentralNorth''])"
    by (simp only: replicate_Suc replicate_0 append_Cons append_Nil central_options(2))
  then show ?thesis using combo_reachable.init c central_options(1) by simp
qed

theorem page_click_highlights_witness:
  "\<exists>e p'. style_compatible demo_cfg \<and> reachable demo_cfg loaded_state \<and> ui_mounted (s_ui loaded_state) \<and>
     ui_data (s_ui loaded_state) = Some central_data \<and> w_maps (s_world loaded_state) 0 = Some e \<and> eng_loaded e \<and>
     \<not> cs_opened init_store \<and> 0 < length (lines central_data) \<and>
     page_run demo_cfg \<lparr>pg_sys = loaded_state, pg_store = init_store\<rparr> [Widget TargetClick, Widget (OptionClick 0)] = Some p' \<and>
     observed (pg_sys p') =
       Some (map line_feature (matching_lines ''5CentralNorth'' central_data),
         Some (turf_bbox (map line_feature (matching_lines ''5CentralNorth'' central_data)), selection_padding))"
proof -
  define P where "P = \<lparr>pg_sys = loaded_state, pg_store = init_store\<rparr>"
  obtain e where e: "w_maps (s_world loaded_state) 0 = Some e" "eng_loaded e"
    using loaded_run by (auto split: option.splits)
  have l: "0 < length (lines central_data)" "transportLineId (lines central_data ! 0) = ''5CentralNorth''"
    using central_options by (simp_all add: options_def)
  have f: "reachable demo_cfg (pg_sys P)" "ui_mounted (s_ui (pg_sys P))"
      "ui_data (s_ui (pg_sys P)) = Some central_data" "w_maps (s_world (pg_sys P)) 0 = Some e"
      "\<not> cs_opened (pg_store P)"
    using demo_reachable(2) loaded_run e by (simp_all add: P_def init_store_def)
  obtain p' where "page_run demo_cfg P [Widget TargetClick, Widget (OptionClick 0)] = Some p'"
      "observed (pg_sys p') =
       Some (map line_feature (matching_lines ''5CentralNorth'' central_data),
         Some (turf_bbox (map line_feature (matching_lines ''5CentralNorth'' central_data)), selection_padding))"
    using Page.page_click_highlights [OF demo_style_compatible f(1-4) e(2) f(5) l(1)] l(2) by auto
  then show ?thesis using f e l demo_style_compatible unfolding P_def by auto
qed

theorem esbuild_externals_witness:
  "pkg_dependencies demo_package = Some [(''maplibre-gl'', ''^4.0.0''), (''pmtiles'', ''^3.0.0'')] \<and>
   pkg_peerDependencies demo_package = Some [(''react'', ''^18.0.0''), (''@mantine/core'', ''^7.0.0'')] \<and>
   esbuild_script (Some demo_package) (\<lambda>opts. False) = Exit 1 \<and>
   object_keys [(''maplibre-gl'', ''^4.0.0''), (''pmtiles'', ''^3.0.0'')] @
     object_keys [(''react'', ''^18.0.0''), (''@mantine/core'', ''^7.0.0'')] =
   [''maplibre-gl'', ''pmtiles'', ''react'', ''@mantine/core'']"
proof -
  have f: "pkg_dependencies demo_package = Some [(''maplibre-gl'', ''^4.0.0''), (''pmtiles'', ''^3.0.0'')]"
      "pkg_peerDependencies demo_package = Some [(''react'', ''^18.0.0''), (''@mantine/core'', ''^7.0.0'')]"
    by (simp_all add: demo_package_def)
  have "object_keys [(''maplibre-gl'', ''^4.0.0''), (''pmtiles'', ''^3.0.0'')] @
      object_keys [(''react'', ''^18.0.0''), (''@mantine/core'', ''^7.0.0'')] =
      [''maplibre-gl'', ''pmtiles'', ''react'', ''@mantine/core'']"
    by code_simp
  then show ?thesis using BuildScript.esbuild_externals [OF f, of "\<lambda>opts. False"] f by simp
qed

theorem esbuild_missing_field_witness:
  "pkg_peerDependencies (demo_package\<lparr>pkg_peerDependencies := None\<rparr>) = None \<and>
   esbuild_script (Some (demo_package\<lparr>pkg_peerDependencies := None\<rparr>)) (\<lambda>opts. True) =
     Uncaught (TypeError ''Cannot convert undefined or null to object'')"
  using BuildScript.esbuild_missing_field [of "demo_package\<lparr>pkg_peerDependencies := None\<rparr>" "\<lambda>opts. True"]
  by simp

theorem page_reaches_selection_witness:
  "style_compatible demo_cfg \<and> 0 < length (lines central_data) \<and>
   (\<exists>p'. page_run demo_cfg \<lparr>pg_sys = init_sys, pg_store = init_store\<rparr>
      [Env Mount, Env (FetchResolved central_data), Env (MapLoad 0), Widget TargetClick, Widget (OptionClick 0)] = Some p' \<and>
    observed (pg_sys p') =
      Some (map line_feature (matching_lines ''5CentralNorth'' central_data),
        Some (turf_bbox (map line_feature (matching_lines ''5CentralNorth'' central_data)), selection_padding)))"
proof -
  have l: "0 < length (lines central_data)" "transportLineId (lines central_data ! 0) = ''5CentralNorth''"
    using central_options by (simp_all add: options_def)
  have "\<exists>p'. page_run demo_cfg \<lparr>pg_sys = init_sys, pg_store = init_store\<rparr>
      [Env Mount, Env (FetchResolved central_data), Env (MapLoad 0), Widget TargetClick, Widget (OptionClick 0)] = Some p' \<and>
    observed (pg_sys p') =
      Some (map line_feature (matching_lines (transportLineId (lines central_data ! 0)) central_data),
        Some (turf_bbox (map line_feature (matching_lines (transportLineId (lines central_data ! 0)) central_data)),
          selection_padding))"
    by (rule Page.page_reaches_selection [OF demo_style_compatible l(1)])
  then show ?thesis unfolding l(2) using l(1) demo_style_compatible by blast
qed

theorem style_clash_crashes_witness:
  "\<not> style_compatible clashing_cfg \<and>
   (\<exists>s'. run clashing_cfg init_sys [Mount, FetchResolved central_data, MapLoad 0] = Some s' \<and>
      s_crashed s' = Some (SourceAlreadyExists ''transport''))"
proof -
  have nc: "\<not> style_compatible clashing_cfg"
    by (simp add: style_compatible_def clashing_cfg_def our_sources_def)
  have h: "hd (filter (\<lambda>nm. cfg_style_sources clashing_cfg nm \<noteq> None) our_sources) = ''transport''"
    by (simp add: clashing_cfg_def our_sources_def)
  obtain s' where s': "run clashing_cfg init_sys [Mount, FetchResolved central_data, MapLoad 0] = Some s'"
      "s_crashed s' = Some (SourceAlreadyExists (hd (filter (\<lambda>nm. cfg_style_sources clashing_cfg nm \<noteq> None) our_sources)))"
    using style_clash_crashes [OF nc, of central_data] by blast
  have "s_crashed s' = Some (SourceAlreadyExists ''transport'')" using s'(2) h by simp
  then show ?thesis using s'(1) nc by blast
qed

end
